theory Spec2Isabelle
  imports Main
begin

section \<open>Errors\<close>

text \<open>
  Every \<^verbatim>\<open>throw\<close> of the modelled sources is a value of \<open>error\<close>; a function that can
  throw returns \<open>error + 'a\<close>. The constructors are named after the error taxonomy of
  the specification; the message of the source is given with each.
\<close>

datatype mismatch =
    DefinedButTracedUndefined
      \<comment> \<open>"JIT intepreter received a defined input, but the trace was compiled with the input being undefined."\<close>
  | RequiresGradButTracedNot
      \<comment> \<open>"JIT inteperpreter recieved an input with requires_grad=True, but was compiled with requires_grad=False"\<close>

datatype error =
    ReusedAfterReleaseError
      \<comment> \<open>\<^verbatim>\<open>std::runtime_error(ERR_BACKWARD_TWICE)\<close>: "Trying to backward through the graph a second time, ..."\<close>
  | StaleVersionError
      \<comment> \<open>"one of the variables needed for gradient computation has been modified by an inplace operation"\<close>
  | MissingProducerError
      \<comment> \<open>"No grad_fn for non-leaf saved variable"\<close>
  | MissingAccumulatorError
      \<comment> \<open>\<^verbatim>\<open>std::logic_error\<close>: "No grad accumulator for a saved leaf!"\<close>
  | DerivativeLimitError nat
      \<comment> \<open>"Function compiled only for N derivatives. Use nderivs argument to request more."\<close>
  | StageMismatchError mismatch
  | AssertionError
      \<comment> \<open>a failed \<^verbatim>\<open>TORCH_ASSERT\<close> or \<^verbatim>\<open>JIT_ASSERT\<close>\<close>
  | InvalidArgumentError
      \<comment> \<open>arity and shape checks of a node's inputs\<close>
  | UnsupportedConfigurationError
      \<comment> \<open>"negative padding is not supported", "unsupported ConvNd parameters", ...\<close>
  | LibraryError
      \<comment> \<open>an error raised inside the numeric library\<close>
  | LengthError
      \<comment> \<open>\<^verbatim>\<open>std::length_error\<close>: a vector of negative size\<close>
  | NullHandle
      \<comment> \<open>the source dereferences an empty handle or indexes a vector out of range
          (undefined behaviour in C++, kept apart from every thrown error)\<close>

section \<open>Tensors, the heap and value handles\<close>

text \<open>
  \<^verbatim>\<open>at::Tensor\<close> is a handle that may be empty (\<^verbatim>\<open>!t.defined()\<close>): a defined tensor is
  its type, its sizes and its elements in row-major order.
\<close>

datatype scalar_type = Float | Double | Half

record ttype =
  is_cuda :: bool
  scalarType :: scalar_type

record 'a tensor_impl =
  t_type :: ttype
  t_sizes :: "int list"
  t_elems :: "'a list"

type_synonym 'a tensor = "'a tensor_impl option"

abbreviation t_defined :: "'a tensor \<Rightarrow> bool" where
  "t_defined t \<equiv> t \<noteq> None"

type_synonym fn_ref = nat \<comment> \<open>identity of a \<^verbatim>\<open>Function\<close> object (a graph node)\<close>
type_synonym vc_ref = nat \<comment> \<open>address of a version block shared by a value and its guards\<close>

text \<open>
  Modelled from the spec: the state shared between a value and its snapshot guards, which
  \<^verbatim>\<open>variable_version.h\<close> (absent) implements. "\<open>version\<close>: integer, incremented on every
  in-place mutation of the underlying data"; a node referenced only weakly may have been
  destroyed, which \<open>h_alive\<close> records.
\<close>

record heap =
  h_version :: "vc_ref \<Rightarrow> int"
  h_alive :: "fn_ref \<Rightarrow> bool"

definition increment :: "vc_ref \<Rightarrow> heap \<Rightarrow> heap" where
  "increment b h = h\<lparr>h_version := (h_version h)(b := h_version h b + 1)\<rparr>"

text \<open>\<open>n\<close> in-place mutations of the value whose version block is \<open>b\<close>.\<close>

fun mutate_inplace :: "nat \<Rightarrow> vc_ref \<Rightarrow> heap \<Rightarrow> heap" where
  "mutate_inplace 0 b h = h"
| "mutate_inplace (Suc n) b h = mutate_inplace n b (increment b h)"

text \<open>
  Modelled from the spec: the saved version, \<^verbatim>\<open>SavedVersion\<close> of \<^verbatim>\<open>variable_version.h\<close>
  (absent): the version block of the value and \<open>version_at_save\<close>. A default-constructed
  one has no block (\<^verbatim>\<open>!version.defined()\<close>); \<open>is_modified\<close> holds when
  "\<open>version_at_save\<close> no longer matches the live version".
\<close>

record SavedVersion =
  version_block :: "vc_ref option"
  version_at_save :: int

definition SavedVersion_empty :: SavedVersion where
  "SavedVersion_empty = \<lparr>version_block = None, version_at_save = 0\<rparr>"

definition sv_defined :: "SavedVersion \<Rightarrow> bool" where
  "sv_defined v = (version_block v \<noteq> None)"

definition is_modified :: "heap \<Rightarrow> SavedVersion \<Rightarrow> error + bool" where
  "is_modified h v =
     (case version_block v of
        None \<Rightarrow> Inl NullHandle
      | Some b \<Rightarrow> Inr (version_at_save v \<noteq> h_version h b))"

type_synonym tracing = nat \<comment> \<open>a \<^verbatim>\<open>ValueTracingState\<close>, copied as a whole\<close>

text \<open>
  Modelled from the spec: the Value Handle, \<^verbatim>\<open>Variable\<close> of \<^verbatim>\<open>variable.h\<close> (absent), with
  the attributes the specification lists: the data reference, \<open>requires_grad\<close>, the
  producing node (present iff the value is not a leaf), the output index, the version
  counter, and the gradient accumulator of a leaf, held weakly by the value. A
  \<^verbatim>\<open>Variable\<close> is a handle that may be empty; a defined one "wraps a data buffer", so
  its data is a defined tensor.
\<close>

record 'a variable_impl =
  v_data :: "'a tensor_impl"
  v_requires_grad :: bool
  v_grad_fn :: "fn_ref option"
  v_output_nr :: int
  v_version_counter :: vc_ref
  v_grad_accumulator :: "fn_ref option"
  v_tracing_state :: "tracing option"

type_synonym 'a Variable = "'a variable_impl option"

definition is_leaf :: "'a variable_impl \<Rightarrow> bool" where
  "is_leaf v = (v_grad_fn v = None)"

definition current_version :: "heap \<Rightarrow> 'a variable_impl \<Rightarrow> int" where
  "current_version h v = h_version h (v_version_counter v)"

definition data :: "'a variable_impl \<Rightarrow> 'a tensor" where
  "data v = Some (v_data v)"

text \<open>
  Modelled from the spec: "\<open>grad_accumulator()\<close> lazily constructs and caches the
  accumulator sink node for leaves that require grad". A node that the call constructs
  and that nothing else holds is destroyed as soon as the caller lets go of it, and a
  weak reference to it is then expired like an empty one; so the model returns the
  cached reference, and \<open>expired\<close> decides whether the node is still there.
\<close>

definition grad_accumulator :: "'a variable_impl \<Rightarrow> fn_ref option" where
  "grad_accumulator v = (if v_requires_grad v then v_grad_accumulator v else None)"

definition save :: "heap \<Rightarrow> vc_ref \<Rightarrow> SavedVersion" where
  "save h b = \<lparr>version_block = Some b, version_at_save = h_version h b\<rparr>"

text \<open>
  Modelled from the spec: \<^verbatim>\<open>make_variable(data, output_nr, grad_fn)\<close> builds a value bound
  to a producing node, \<^verbatim>\<open>make_variable(data, requires_grad)\<close> a fresh leaf. Both come with a
  version counter of their own, which \<open>unpack\<close> overwrites at once; the model takes the
  counter as an argument.
\<close>

definition make_variable_fn :: "'a tensor_impl \<Rightarrow> int \<Rightarrow> fn_ref \<Rightarrow> vc_ref \<Rightarrow> 'a variable_impl" where
  "make_variable_fn d nr f b =
     \<lparr>v_data = d, v_requires_grad = True, v_grad_fn = Some f, v_output_nr = nr,
      v_version_counter = b, v_grad_accumulator = None, v_tracing_state = None\<rparr>"

definition make_variable_leaf :: "'a tensor_impl \<Rightarrow> bool \<Rightarrow> vc_ref \<Rightarrow> 'a variable_impl" where
  "make_variable_leaf d rg b =
     \<lparr>v_data = d, v_requires_grad = rg, v_grad_fn = None, v_output_nr = 0,
      v_version_counter = b, v_grad_accumulator = None, v_tracing_state = None\<rparr>"

text \<open>\<^verbatim>\<open>std::weak_ptr::expired\<close>: nothing was recorded, or the node no longer exists.\<close>

definition expired :: "heap \<Rightarrow> fn_ref option \<Rightarrow> bool" where
  "expired h w = (case w of None \<Rightarrow> True | Some f \<Rightarrow> \<not> h_alive h f)"

section \<open>Snapshot guards (\<^verbatim>\<open>saved_variable.cpp\<close>)\<close>

record 'a saved_variable =
  sv_data :: "'a tensor"
  sv_has_grad_fn :: bool
  sv_grad_fn :: "fn_ref option"           \<comment> \<open>\<^verbatim>\<open>_grad_fn\<close>, a strong reference\<close>
  sv_grad_accumulator :: "fn_ref option"  \<comment> \<open>a weak reference\<close>
  sv_version :: SavedVersion
  sv_requires_grad :: bool
  sv_expected_version :: int
  sv_output_nr :: int
  sv_tracing_state :: "tracing option"

text \<open>
  Modelled from the spec: the default constructor of \<^verbatim>\<open>saved_variable.h\<close> (absent), the
  "empty guard": no data, no version, no producing node.
\<close>

definition SavedVariable_empty :: "'a saved_variable" where
  "SavedVariable_empty =
     \<lparr>sv_data = None, sv_has_grad_fn = False, sv_grad_fn = None, sv_grad_accumulator = None,
      sv_version = SavedVersion_empty, sv_requires_grad = False, sv_expected_version = -1,
      sv_output_nr = 0, sv_tracing_state = None\<rparr>"

text \<open>\<^verbatim>\<open>SavedVariable::SavedVariable(const Variable& variable, bool is_output)\<close>\<close>

definition SavedVariable :: "heap \<Rightarrow> 'a Variable \<Rightarrow> bool \<Rightarrow> 'a saved_variable" where
  "SavedVariable h variable is_output =
     (case variable of
        None \<Rightarrow> SavedVariable_empty
      | Some v \<Rightarrow>
          \<lparr>sv_data = data v,
           sv_has_grad_fn = (\<not> is_leaf v),
           sv_grad_fn = (if \<not> is_output then v_grad_fn v else None),
           sv_grad_accumulator = (if is_leaf v then grad_accumulator v else None),
           sv_version = save h (v_version_counter v),
           sv_requires_grad = v_requires_grad v,
           sv_expected_version = current_version h v,
           sv_output_nr = v_output_nr v,
           sv_tracing_state = v_tracing_state v\<rparr>)"

text \<open>
  \<^verbatim>\<open>SavedVariable::unpack(std::shared_ptr<Function> saved_for) const\<close>. The method is
  \<^verbatim>\<open>const\<close>: it reads the guard and the heap and changes neither.
\<close>

definition unpack :: "heap \<Rightarrow> 'a saved_variable \<Rightarrow> fn_ref option \<Rightarrow> error + 'a Variable" where
  "unpack h s saved_for =
     (case sv_data s of
        None \<Rightarrow>
          (if sv_defined (sv_version s) then Inl ReusedAfterReleaseError else Inr None)
      | Some d \<Rightarrow>
         (case is_modified h (sv_version s) of
            Inl e \<Rightarrow> Inl e
          | Inr True \<Rightarrow> Inl StaleVersionError
          | Inr False \<Rightarrow>
            if sv_has_grad_fn s \<and> sv_grad_fn s = None \<and> saved_for = None then
              Inl MissingProducerError
            else
              let grad_fn = (if sv_has_grad_fn s \<and> sv_grad_fn s = None then saved_for
                             else sv_grad_fn s);
                  b = the (version_block (sv_version s));
                  var = (case grad_fn of
                           Some f \<Rightarrow> make_variable_fn d (sv_output_nr s) f b
                         | None \<Rightarrow> make_variable_leaf d (sv_requires_grad s) b)
              in
                if sv_requires_grad s \<and> v_grad_fn var = None
                   \<and> expired h (sv_grad_accumulator s) then
                  Inl MissingAccumulatorError
                else
                  Inr (Some (var\<lparr>v_grad_accumulator := sv_grad_accumulator s,
                                 v_tracing_state := sv_tracing_state s\<rparr>))))"

text \<open>\<^verbatim>\<open>data.reset()\<close>, the one statement \<^verbatim>\<open>releaseVariables\<close> applies to each guard.\<close>

definition reset_data :: "'a saved_variable \<Rightarrow> 'a saved_variable" where
  "reset_data s = s\<lparr>sv_data := None\<rparr>"


section \<open>Sequencing computations that may throw\<close>

definition bind :: "error + 'a \<Rightarrow> ('a \<Rightarrow> error + 'b) \<Rightarrow> error + 'b" where
  "bind m f = (case m of Inl e \<Rightarrow> Inl e | Inr x \<Rightarrow> f x)"

text \<open>Runs \<open>f\<close> on each element in order and stops at the first error.\<close>

fun mapM :: "('a \<Rightarrow> error + 'b) \<Rightarrow> 'a list \<Rightarrow> error + 'b list" where
  "mapM f [] = Inr []"
| "mapM f (x # xs) = bind (f x) (\<lambda>y. bind (mapM f xs) (\<lambda>ys. Inr (y # ys)))"

text \<open>\<^verbatim>\<open>xs[i]\<close> on a vector or an \<^verbatim>\<open>IntList\<close>, which C++ does not check.\<close>

definition at_index :: "'a list \<Rightarrow> nat \<Rightarrow> error + 'a" where
  "at_index xs i = (if i < length xs then Inr (xs ! i) else Inl NullHandle)"

section \<open>The tensor library\<close>

text \<open>
  The numeric library is an external collaborator. Of its operations the model defines
  those that only read or rearrange a tensor (its dimensions, \<^verbatim>\<open>narrow\<close>, \<^verbatim>\<open>unsqueeze\<close>,
  \<^verbatim>\<open>squeeze\<close>, \<^verbatim>\<open>contiguous\<close>), by what they do to a row-major tensor; every kernel that
  computes is a parameter: a call is the kernel's name and the arguments the source
  passes, and \<open>aten\<close> interprets the calls.
\<close>

definition ndimension :: "'a tensor_impl \<Rightarrow> nat" where
  "ndimension t = length (t_sizes t)"

text \<open>\<^verbatim>\<open>t.size(d)\<close>, which checks its argument.\<close>

definition size_at :: "'a tensor_impl \<Rightarrow> nat \<Rightarrow> error + int" where
  "size_at t d = (if d < length (t_sizes t) then Inr (t_sizes t ! d) else Inl LibraryError)"

text \<open>The memory layout is not modelled, so a contiguous copy is the tensor itself.\<close>

definition contiguous :: "'a tensor_impl \<Rightarrow> 'a tensor_impl" where
  "contiguous t = t"

text \<open>\<^verbatim>\<open>type.tensor()\<close>, an empty tensor, and \<^verbatim>\<open>type.tensor(sizes)\<close> before it is filled.\<close>

definition empty_tensor :: "ttype \<Rightarrow> 'a tensor_impl" where
  "empty_tensor ty = \<lparr>t_type = ty, t_sizes = [], t_elems = []\<rparr>"

definition unsqueeze :: "'a tensor_impl \<Rightarrow> nat \<Rightarrow> 'a tensor_impl" where
  "unsqueeze t d = t\<lparr>t_sizes := take d (t_sizes t) @ [1] @ drop d (t_sizes t)\<rparr>"

definition squeeze :: "'a tensor_impl \<Rightarrow> nat \<Rightarrow> 'a tensor_impl" where
  "squeeze t d =
     (if d < length (t_sizes t) \<and> t_sizes t ! d = 1
      then t\<lparr>t_sizes := take d (t_sizes t) @ drop (Suc d) (t_sizes t)\<rparr> else t)"

text \<open>
  \<^verbatim>\<open>t.narrow(dim, start, len)\<close>: the slice \<open>start, ..., start + len - 1\<close> of dimension
  \<open>dim\<close>. The library rejects a dimension, a start or a length out of range.
\<close>

definition narrow_elems :: "int list \<Rightarrow> 'a list \<Rightarrow> nat \<Rightarrow> nat \<Rightarrow> nat \<Rightarrow> 'a list" where
  "narrow_elems sizes xs dim start len =
     (let outer = nat (prod_list (take dim sizes));
          inner = nat (prod_list (drop (Suc dim) sizes));
          d = nat (sizes ! dim)
      in concat (map (\<lambda>out. take (len * inner) (drop ((out * d + start) * inner) xs))
                     [0..<outer]))"

definition narrow :: "'a tensor_impl \<Rightarrow> nat \<Rightarrow> int \<Rightarrow> int \<Rightarrow> error + 'a tensor_impl" where
  "narrow t dim start len =
     (if \<not> dim < length (t_sizes t) then Inl LibraryError
      else if \<not> (0 \<le> start \<and> start < t_sizes t ! dim) then Inl LibraryError
      else if \<not> (0 < len \<and> start \<le> t_sizes t ! dim - len) then Inl LibraryError
      else Inr (t\<lparr>t_sizes := (t_sizes t)[dim := len],
                   t_elems := narrow_elems (t_sizes t) (t_elems t) dim (nat start) (nat len)\<rparr>))"

datatype kernel =
    conv_depthwise2d_forward | conv_depthwise2d_backward
  | cudnn_convolution_transpose_full_forward | cudnn_convolution_full_forward
  | cudnn_convolution_forward | cudnn_convolution_backward_data
  | cudnn_convolution_backward_filter | cudnn_convolution_backward_bias
  | conv_transpose2d_forward | conv_transpose2d_backward
  | conv_transpose3d_forward | conv_transpose3d_backward
  | conv_dilated2d_forward | conv_dilated2d_backward
  | conv2d_forward | conv2d_backward
  | conv_dilated3d_forward | conv_dilated3d_backward
  | conv3d_forward | conv3d_backward
  | nnpack_updateOutput | nnpack_updateGradInput | nnpack_accGradWeight
  | cat_out | at_transpose | at_view | at_sum

datatype 'a arg =
    AT "'a tensor"            \<comment> \<open>a tensor\<close>
  | ATs "'a tensor list"      \<comment> \<open>a list of tensors\<close>
  | AL "int list"             \<comment> \<open>an \<^verbatim>\<open>IntList\<close>\<close>
  | AI int                    \<comment> \<open>an integer\<close>
  | AB bool                   \<comment> \<open>a flag\<close>
  | AM "bool list"            \<comment> \<open>an output mask\<close>
  | AConv "nat option"        \<comment> \<open>the cuDNN descriptor that the forward pass left\<close>

text \<open>
  The library: the kernels that return one, two and three tensors, and the kernels that
  write the elements of a tensor which the caller has allocated. A kernel returns
  \<open>None\<close> when it raises an error, whatever the error is.
\<close>

record 'a aten =
  kernel1 :: "kernel \<Rightarrow> 'a arg list \<Rightarrow> 'a tensor option"
  kernel2 :: "kernel \<Rightarrow> 'a arg list \<Rightarrow> ('a tensor \<times> 'a tensor) option"
  kernel3 :: "kernel \<Rightarrow> 'a arg list \<Rightarrow> ('a tensor \<times> 'a tensor \<times> 'a tensor) option"
  kernel_out :: "kernel \<Rightarrow> 'a arg list \<Rightarrow> 'a list option"

definition raised :: "'r option \<Rightarrow> error + 'r" where
  "raised r = (case r of None \<Rightarrow> Inl LibraryError | Some x \<Rightarrow> Inr x)"

definition at1 :: "'a aten \<Rightarrow> kernel \<Rightarrow> 'a arg list \<Rightarrow> error + 'a tensor" where
  "at1 lib k args = raised (kernel1 lib k args)"

definition at2 :: "'a aten \<Rightarrow> kernel \<Rightarrow> 'a arg list \<Rightarrow> error + 'a tensor \<times> 'a tensor" where
  "at2 lib k args = raised (kernel2 lib k args)"

definition at3 ::
  "'a aten \<Rightarrow> kernel \<Rightarrow> 'a arg list \<Rightarrow> error + 'a tensor \<times> 'a tensor \<times> 'a tensor" where
  "at3 lib k args = raised (kernel3 lib k args)"

definition at_out :: "'a aten \<Rightarrow> kernel \<Rightarrow> 'a arg list \<Rightarrow> error + 'a list" where
  "at_out lib k args = raised (kernel_out lib k args)"

text \<open>The build: what \<^verbatim>\<open>#ifdef\<close> selects, and what the cuDNN path asks the device.\<close>

record build =
  WITH_CUDNN :: bool
  WITH_NNPACK :: bool
  CUDNN_VERSION :: nat
  device_major :: nat

section \<open>Convolution nodes (\<^verbatim>\<open>convolution.cpp\<close>)\<close>

record ConvParams =
  stride :: "int list"
  padding :: "int list"
  dilation :: "int list"
  transposed :: bool
  output_padding :: "int list"
  groups :: int
  benchmark :: bool
  deterministic :: bool
  cudnn_enabled :: bool

definition is_strided :: "'z ConvParams_scheme \<Rightarrow> bool" where
  "is_strided P = fold (\<lambda>s acc. acc \<or> s \<noteq> 1) (stride P) False"

definition is_dilated :: "'z ConvParams_scheme \<Rightarrow> bool" where
  "is_dilated P = fold (\<lambda>d acc. acc \<or> d \<noteq> 1) (dilation P) False"

definition is_padded :: "'z ConvParams_scheme \<Rightarrow> bool" where
  "is_padded P = fold (\<lambda>p acc. acc \<or> p \<noteq> 0) (padding P) False"

definition is_output_padding_neg :: "'z ConvParams_scheme \<Rightarrow> bool" where
  "is_output_padding_neg P = fold (\<lambda>p acc. acc \<or> p < 0) (output_padding P) False"

fun is_output_padding_big_loop :: "'z ConvParams_scheme \<Rightarrow> nat \<Rightarrow> nat \<Rightarrow> bool \<Rightarrow> error + bool" where
  "is_output_padding_big_loop P i 0 is_big = Inr is_big"
| "is_output_padding_big_loop P i (Suc n) is_big =
     bind (at_index (stride P) i) (\<lambda>s.
       if output_padding P ! i \<ge> s then is_output_padding_big_loop P (Suc i) n True
       else bind (at_index (dilation P) i) (\<lambda>d.
         is_output_padding_big_loop P (Suc i) n (is_big \<or> output_padding P ! i \<ge> d)))"

text \<open>The loop runs \<open>i\<close> from \<open>0\<close> below \<^verbatim>\<open>output_padding.size()\<close>.\<close>

definition is_output_padding_big :: "'z ConvParams_scheme \<Rightarrow> error + bool" where
  "is_output_padding_big P = is_output_padding_big_loop P 0 (length (output_padding P)) False"

definition is_padding_neg :: "'z ConvParams_scheme \<Rightarrow> bool" where
  "is_padding_neg P = fold (\<lambda>p acc. acc \<or> p < 0) (padding P) False"

definition view1d_as_2d :: "'z ConvParams_scheme \<Rightarrow> 'z ConvParams_scheme" where
  "view1d_as_2d P =
     (if length (stride P) = 1
      then P\<lparr>stride := 1 # stride P, padding := 0 # padding P,
             dilation := 1 # dilation P, output_padding := 0 # output_padding P\<rparr>
      else P)"

definition use_cudnn :: "build \<Rightarrow> 'z ConvParams_scheme \<Rightarrow> 'a tensor_impl \<Rightarrow> error + bool" where
  "use_cudnn bld P input =
     (if WITH_CUDNN bld then
        if \<not> is_cuda (t_type input) \<or> \<not> cudnn_enabled P then Inr False
        else if deterministic P \<and> is_dilated P then Inr False
        else if is_dilated P then
          (if CUDNN_VERSION bld \<ge> 6021 \<or> (CUDNN_VERSION bld \<ge> 6000 \<and> device_major bld \<ge> 5)
           then bind (is_output_padding_big P) (\<lambda>big. Inr (\<not> big))
           else Inr False)
        else bind (is_output_padding_big P) (\<lambda>big. Inr (\<not> big))
      else Inr False)"

definition CPUFloat :: ttype where
  "CPUFloat = \<lparr>is_cuda = False, scalarType = Float\<rparr>"

definition use_nnpack :: "build \<Rightarrow> 'z ConvParams_scheme \<Rightarrow> 'a tensor_impl \<Rightarrow> bool" where
  "use_nnpack bld P input =
     (if WITH_NNPACK bld then
        t_type input = CPUFloat \<and> \<not> is_strided P \<and> \<not> is_dilated P \<and> \<not> transposed P
        \<and> ndimension input = 4 \<and> t_sizes input ! 0 \<ge> 16
      else False)"

definition is_depthwise :: "'z ConvParams_scheme \<Rightarrow> 'a tensor_impl \<Rightarrow> 'a tensor_impl \<Rightarrow> int \<Rightarrow> error + bool" where
  "is_depthwise P input weight grps =
     (if is_cuda (t_type input) \<and> \<not> transposed P \<and> ndimension input = 4
         \<and> t_sizes input ! 1 = grps \<and> grps > 1
      then bind (size_at weight 0) (\<lambda>w0. Inr (w0 mod (t_sizes input ! 1) = 0))
      else Inr False)"


text \<open>
  Modelled from the spec: \<^verbatim>\<open>check_input_variables(name, inputs, args, required_args)\<close> of
  \<^verbatim>\<open>functions/utils.cpp\<close> (absent), the validation of "arity/shape preconditions,
  failing with \<open>InvalidArgumentError\<close> on mismatch": the node takes \<open>args\<close> inputs, of
  which the first \<open>required_args\<close> are defined.
\<close>

definition check_input_variables :: "'a Variable list \<Rightarrow> nat \<Rightarrow> nat \<Rightarrow> error + unit" where
  "check_input_variables inputs args required_args =
     (if length inputs \<noteq> args then Inl InvalidArgumentError
      else if list_ex (\<lambda>v. v = None) (take required_args inputs) then Inl InvalidArgumentError
      else Inr ())"

text \<open>\<^verbatim>\<open>var.opt_data()\<close>: the data of a defined value, an undefined tensor otherwise.\<close>

definition opt_data :: "'a Variable \<Rightarrow> 'a tensor" where
  "opt_data var = (case var of None \<Rightarrow> None | Some v \<Rightarrow> data v)"

text \<open>Reading through a handle: the source assumes that it is not empty.\<close>

definition deref :: "'b option \<Rightarrow> error + 'b" where
  "deref x = (case x of None \<Rightarrow> Inl NullHandle | Some y \<Rightarrow> Inr y)"

text \<open>\<^verbatim>\<open>sizes.slice(n)\<close>\<close>

definition slice :: "nat \<Rightarrow> int list \<Rightarrow> error + int list" where
  "slice n xs = (if n \<le> length xs then Inr (drop n xs) else Inl NullHandle)"

text \<open>C++ division of integers truncates towards zero; by zero it is undefined.\<close>

definition c_div :: "int \<Rightarrow> int \<Rightarrow> error + int" where
  "c_div a b = (if b = 0 then Inl NullHandle else Inr (sgn a * sgn b * (\<bar>a\<bar> div \<bar>b\<bar>)))"

text \<open>The conversion of a 64-bit value to \<^verbatim>\<open>int\<close>.\<close>

definition to_int32 :: "int \<Rightarrow> int" where
  "to_int32 x = (x + 2 ^ 31) mod 2 ^ 32 - 2 ^ 31"

text \<open>
  \<^verbatim>\<open>ConvForward::output_size\<close>: one step of the loop over the spatial dimensions
  \<open>d = 2, ..., dim - 1\<close>, then the whole vector.
\<close>

definition output_size_at :: "'z ConvParams_scheme \<Rightarrow> int list \<Rightarrow> int list \<Rightarrow> nat \<Rightarrow> error + int" where
  "output_size_at P in_size weight_size d =
     bind (at_index (dilation P) (d - 2)) (\<lambda>dil.
     bind (at_index weight_size d) (\<lambda>w.
     let kernel = to_int32 (dil * (w - 1) + 1) in
     bind (at_index in_size d) (\<lambda>i.
     bind (at_index (stride P) (d - 2)) (\<lambda>s.
     bind (at_index (padding P) (d - 2)) (\<lambda>p.
       if transposed P then
         bind (at_index (output_padding P) (d - 2)) (\<lambda>op.
           Inr ((i - 1) * s - 2 * p + kernel + op))
       else
         bind (c_div (i + 2 * p - kernel) s) (\<lambda>q. Inr (q + 1)))))))"

definition output_size :: "'z ConvParams_scheme \<Rightarrow> 'a tensor_impl \<Rightarrow> 'a tensor_impl \<Rightarrow> error + int list" where
  "output_size P input weight =
     (let in_size = t_sizes input; weight_size = t_sizes weight; dim = ndimension input in
      if dim < 2 then Inl NullHandle
      else
        bind (at_index in_size 0) (\<lambda>o0.
        bind (if transposed P then bind (at_index weight_size 1) (\<lambda>w1. Inr (w1 * groups P))
              else at_index weight_size 0) (\<lambda>o1.
        bind (mapM (output_size_at P in_size weight_size) [2..<dim]) (\<lambda>rest.
          Inr (o0 # o1 # rest)))))"

definition view4d :: "'a tensor_impl \<Rightarrow> error + 'a tensor_impl" where
  "view4d tensor =
     (if ndimension tensor \<noteq> 3 then Inl InvalidArgumentError else Inr (unsqueeze tensor 2))"

definition view3d :: "'a tensor_impl \<Rightarrow> error + 'a tensor_impl" where
  "view3d tensor =
     (if ndimension tensor \<noteq> 4 then Inl InvalidArgumentError else Inr (squeeze tensor 2))"

definition check_input_shape_forward ::
  "'a tensor_impl \<Rightarrow> 'a tensor_impl \<Rightarrow> 'a tensor \<Rightarrow> int \<Rightarrow> bool \<Rightarrow> error + unit" where
  "check_input_shape_forward input weight bias grps is_transposed =
     (let k = ndimension input in
      if ndimension weight \<noteq> k then Inl InvalidArgumentError
      else
        bind (size_at weight 0) (\<lambda>w0.
        if w0 < grps then Inl InvalidArgumentError
        else if \<not> is_transposed then
          bind (size_at input 1) (\<lambda>i1.
          bind (size_at weight 1) (\<lambda>w1.
          if i1 \<noteq> w1 * grps then Inl InvalidArgumentError
          else
            case bias of
              None \<Rightarrow> Inr ()
            | Some b \<Rightarrow>
                if ndimension b \<noteq> 1 then Inl InvalidArgumentError
                else bind (size_at b 0) (\<lambda>b0.
                  if b0 \<noteq> w0 then Inl InvalidArgumentError else Inr ())))
        else
          bind (size_at input 1) (\<lambda>i1.
          if i1 \<noteq> w0 then Inl InvalidArgumentError
          else
            case bias of
              None \<Rightarrow> Inr ()
            | Some b \<Rightarrow>
                if ndimension b \<noteq> 1 then Inl InvalidArgumentError
                else bind (size_at b 0) (\<lambda>b0.
                  bind (size_at weight 1) (\<lambda>w1.
                  if b0 \<noteq> w1 * grps then Inl InvalidArgumentError else Inr ())))))"

text \<open>
  \<^verbatim>\<open>subtensor(tensor, dim, groups, g)\<close>: the \<open>g\<close>-th of \<open>groups\<close> slices of dimension \<open>dim\<close>.
  It is called with \<open>0 \<le> g < groups\<close> on sizes that are not negative, where the C++
  division is \<open>div\<close>.
\<close>

definition subtensor :: "'a tensor \<Rightarrow> nat \<Rightarrow> int \<Rightarrow> int \<Rightarrow> error + 'a tensor" where
  "subtensor tensor dim grps g =
     (case tensor of
        None \<Rightarrow> Inr None
      | Some t \<Rightarrow>
          bind (at_index (t_sizes t) dim) (\<lambda>sz.
          let n = sz div grps in
          bind (narrow t dim (n * g) n) (\<lambda>r. Inr (Some (contiguous r)))))"

definition vecToInt64 :: "int list \<Rightarrow> int list" where
  "vecToInt64 src = map (\<lambda>x. x) src"

text \<open>
  The local \<^verbatim>\<open>cat\<close>: no tensor at all gives an undefined tensor; otherwise \<^verbatim>\<open>at::cat_out\<close>
  fills an empty tensor of the type of the first one.
\<close>

definition cat :: "'a aten \<Rightarrow> 'a tensor list \<Rightarrow> int \<Rightarrow> error + 'a tensor" where
  "cat lib tensors dim =
     (case tensors of
        [] \<Rightarrow> Inr None
      | t0 # _ \<Rightarrow>
          bind (deref t0) (\<lambda>first.
            at1 lib cat_out [AT (Some (empty_tensor (t_type first))), ATs tensors, AI dim]))"

text \<open>
  A kernel that fills a tensor allocated by the caller with the given type and sizes.
\<close>

definition filled :: "'a aten \<Rightarrow> ttype \<Rightarrow> int list \<Rightarrow> kernel \<Rightarrow> 'a arg list \<Rightarrow> error + 'a tensor" where
  "filled lib ty sizes k args =
     bind (at_out lib k args) (\<lambda>xs. Inr (Some \<lparr>t_type = ty, t_sizes = sizes, t_elems = xs\<rparr>))"

text \<open>\<^verbatim>\<open>compute_output\<close>: the forward kernel for one group.\<close>

definition compute_output ::
  "build \<Rightarrow> 'a aten \<Rightarrow> 'a tensor \<Rightarrow> 'a tensor \<Rightarrow> 'a tensor \<Rightarrow> 'a tensor \<Rightarrow> 'a tensor
   \<Rightarrow> 'z ConvParams_scheme \<Rightarrow> error + 'a tensor" where
  "compute_output bld lib input_t weight_t bias columns ones params =
     bind (deref input_t) (\<lambda>input.
     let dim = ndimension input; dilated = is_dilated params in
     bind (deref weight_t) (\<lambda>weight.
     bind (slice 2 (t_sizes weight)) (\<lambda>kernel_size.
     let strd = vecToInt64 (stride params);
         pad = vecToInt64 (padding params);
         dil = vecToInt64 (dilation params);
         opad = vecToInt64 (output_padding params)
     in
       if transposed params then
         if dim = 4 then
           at1 lib conv_transpose2d_forward
             [AT input_t, AT weight_t, AL kernel_size, AT bias, AL strd, AL pad, AL opad, AL dil,
              AT columns, AT ones]
         else if dim = 5 then
           at1 lib conv_transpose3d_forward
             [AT input_t, AT weight_t, AT bias, AL strd, AL pad, AL opad, AL dil, AT columns, AT ones]
         else Inl UnsupportedConfigurationError
       else if dim = 4 then
         if dilated then
           at1 lib conv_dilated2d_forward
             [AT input_t, AT weight_t, AL kernel_size, AT bias, AL strd, AL pad, AL dil,
              AT columns, AT ones]
         else if use_nnpack bld params input then
           bind (output_size params input weight) (\<lambda>osz.
           bind (at_index kernel_size 1) (\<lambda>k1.
           bind (at_index kernel_size 0) (\<lambda>k0.
           bind (at_index (padding params) 1) (\<lambda>p1.
           bind (at_index (padding params) 0) (\<lambda>p0.
             filled lib (t_type input) osz nnpack_updateOutput
               [AT input_t, AT weight_t, AT bias, AI k1, AI k0, AI p1, AI p0])))))
         else
           at1 lib conv2d_forward
             [AT input_t, AT weight_t, AL kernel_size, AT bias, AL strd, AL pad, AT columns, AT ones]
       else if dim = 5 \<and> (is_cuda (t_type input) \<or> dilated) then
         at1 lib conv_dilated3d_forward
           [AT input_t, AT weight_t, AL kernel_size, AT bias, AL strd, AL pad, AL dil, AT columns, AT ones]
       else if dim = 5 then
         at1 lib conv3d_forward
           [AT input_t, AT weight_t, AL kernel_size, AT bias, AL strd, AL pad, AT columns]
       else Inl UnsupportedConfigurationError)))"


text \<open>
  The loop over the groups in \<^verbatim>\<open>ConvForward::apply\<close>: group \<open>g\<close> is computed on its slices
  and stored in \<^verbatim>\<open>outputs[g]\<close>.
\<close>

function forward_groups ::
  "build \<Rightarrow> 'a aten \<Rightarrow> 'z ConvParams_scheme \<Rightarrow> 'a tensor \<Rightarrow> 'a tensor \<Rightarrow> 'a tensor
   \<Rightarrow> 'a tensor list \<Rightarrow> 'a tensor list \<Rightarrow> nat \<Rightarrow> 'a tensor list \<Rightarrow> error + 'a tensor list" where
  "forward_groups bld lib P input weight bias columns ones g outputs =
     (if int g < groups P then
        bind (subtensor input 1 (groups P) (int g)) (\<lambda>input_g.
        bind (subtensor weight 0 (groups P) (int g)) (\<lambda>weight_g.
        bind (subtensor bias 0 (groups P) (int g)) (\<lambda>bias_g.
        bind (compute_output bld lib input_g weight_g bias_g (columns ! g) (ones ! g) P)
          (\<lambda>output_g.
             forward_groups bld lib P input weight bias columns ones (Suc g)
               (outputs[g := output_g])))))
      else Inr outputs)"
  by pat_completeness auto
termination
  by (relation "measure (\<lambda>(bld, lib, P, input, weight, bias, columns, ones, g, outputs).
                  nat (groups P) - g)") auto

declare forward_groups.simps [simp del]

text \<open>
  \<^verbatim>\<open>ConvForward::apply\<close> chooses one of three strategies. Each is a definition of its own
  here; \<open>ConvForward_apply\<close> below is the method, in the order of the source.

  The depthwise kernel:
\<close>

definition forward_depthwise ::
  "'a aten \<Rightarrow> 'z ConvParams_scheme \<Rightarrow> 'a tensor_impl \<Rightarrow> 'a tensor_impl \<Rightarrow> 'a tensor
   \<Rightarrow> error + 'a tensor" where
  "forward_depthwise lib this input weight bias =
     bind (slice 2 (t_sizes weight)) (\<lambda>kernel_size.
       at1 lib conv_depthwise2d_forward
         [AT (Some input), AT (Some weight), AL kernel_size, AT bias,
          AL (vecToInt64 (stride this)), AL (vecToInt64 (padding this)),
          AL (vecToInt64 (dilation this))])"

text \<open>cuDNN, which takes the groups as a parameter:\<close>

definition forward_cudnn ::
  "'a aten \<Rightarrow> 'z ConvParams_scheme \<Rightarrow> 'a tensor_impl \<Rightarrow> 'a tensor_impl \<Rightarrow> 'a tensor
   \<Rightarrow> error + 'a tensor" where
  "forward_cudnn lib this input weight bias =
     (if t_type input \<noteq> t_type weight then Inl InvalidArgumentError
      else if bias \<noteq> None \<and> Some (t_type input) \<noteq> map_option t_type bias then
        Inl InvalidArgumentError
      else
        bind (output_size this input weight) (\<lambda>osz.
          filled lib (t_type input) osz
            (if transposed this then cudnn_convolution_transpose_full_forward
             else cudnn_convolution_full_forward)
            [AT (Some input), AT (Some weight), AT bias, AL (padding this),
             AL (stride this), AL (dilation this), AI (groups this),
             AB (benchmark this), AB (deterministic this)]))"

text \<open>
  Otherwise the groups are computed one by one: a single group directly, several by the
  loop, whose outputs are concatenated along dimension 1.
\<close>

definition forward_generic ::
  "build \<Rightarrow> 'a aten \<Rightarrow> 'z ConvParams_scheme \<Rightarrow> 'a tensor_impl \<Rightarrow> 'a tensor_impl \<Rightarrow> 'a tensor
   \<Rightarrow> error + 'a tensor" where
  "forward_generic bld lib this input weight bias =
     (let columns = replicate (nat (groups this)) (Some (empty_tensor (t_type input)));
          ones = replicate (nat (groups this)) (Some (empty_tensor (t_type input)))
      in
        if groups this = 1 then
          compute_output bld lib (Some input) (Some weight) bias (columns ! 0) (ones ! 0) this
        else
          bind (forward_groups bld lib this (Some input) (Some weight) bias
                  columns ones 0 (replicate (nat (groups this)) None))
            (\<lambda>outputs. cat lib outputs 1))"

text \<open>
  \<^verbatim>\<open>ConvForward::apply\<close>. The result is the output tensor, which the source hands to
  \<^verbatim>\<open>wrap_outputs\<close> (absent) together with the constructor of the backward node. The
  vectors \<^verbatim>\<open>columns\<close> and \<^verbatim>\<open>ones\<close> have \<^verbatim>\<open>groups\<close> elements, which must not be negative.
\<close>

definition ConvForward_apply ::
  "build \<Rightarrow> 'a aten \<Rightarrow> 'z ConvParams_scheme \<Rightarrow> 'a Variable list \<Rightarrow> error + 'a tensor" where
  "ConvForward_apply bld lib this inputs =
     bind (check_input_variables inputs 3 2) (\<lambda>_.
     if is_padding_neg this then Inl UnsupportedConfigurationError
     else if is_output_padding_neg this then Inl UnsupportedConfigurationError
     else
       bind (deref (inputs ! 0)) (\<lambda>v0.
       bind (deref (inputs ! 1)) (\<lambda>v1.
       let input = contiguous (v_data v0); weight = v_data v1; bias = opt_data (inputs ! 2) in
       bind (check_input_shape_forward input weight bias (groups this) (transposed this)) (\<lambda>_.
       let k = ndimension input in
       bind (if k = 3 then
               bind (view4d input) (\<lambda>i4. bind (view4d weight) (\<lambda>w4.
                 Inr (view1d_as_2d this, i4, w4)))
             else Inr (this, input, weight)) (\<lambda>(this, input, weight).
       if groups this < 0 then Inl LengthError
       else
         bind (is_depthwise this input weight (groups this)) (\<lambda>depthwise.
         bind
           (if depthwise then forward_depthwise lib this input weight bias
            else
              bind (use_cudnn bld this input) (\<lambda>cudnn.
                if cudnn then forward_cudnn lib this input weight bias
                else forward_generic bld lib this input weight bias))
           (\<lambda>output.
              if k = 3 then
                bind (deref output) (\<lambda>out. bind (view3d out) (\<lambda>o3. Inr (Some o3)))
              else Inr output)))))))"

text \<open>
  \<^verbatim>\<open>compute_grad_bias\<close>: the gradient of the bias, for the strategies that do not compute
  it themselves.
\<close>

definition compute_grad_bias :: "'a aten \<Rightarrow> 'a tensor \<Rightarrow> error + 'a tensor" where
  "compute_grad_bias lib grad_output =
     bind (at1 lib at_transpose [AT grad_output, AI 0, AI 1]) (\<lambda>tr.
     bind (deref tr) (\<lambda>t.
     bind (size_at t 0) (\<lambda>n.
     bind (at1 lib at_view [AT (Some (contiguous t)), AL [n, -1]]) (\<lambda>v.
       at1 lib at_sum [AT v, AI 1]))))"

text \<open>
  A backward node: the parameters of the convolution and what it saved. The members
  \<^verbatim>\<open>input_\<close>, \<^verbatim>\<open>weight_\<close> and \<^verbatim>\<open>bias_\<close> are \<open>saved_input\<close>, \<open>saved_weight\<close> and \<open>saved_bias\<close>
  here (a name of the logic cannot end with an underscore).
\<close>

record 'a ConvBackward = ConvParams +
  should_compute_output :: "nat \<Rightarrow> bool"
  saved_input :: "'a saved_variable"
  saved_weight :: "'a saved_variable"
  saved_bias :: "'a saved_variable"
  columns :: "'a tensor list"
  ones :: "'a tensor list"
  convolution :: "nat option"

text \<open>\<^verbatim>\<open>compute_backward\<close>: the backward kernel for one group.\<close>

definition compute_backward ::
  "build \<Rightarrow> 'a aten \<Rightarrow> 'a tensor \<Rightarrow> 'a tensor \<Rightarrow> 'a tensor \<Rightarrow> 'a tensor \<Rightarrow> 'a tensor
   \<Rightarrow> 'z ConvParams_scheme \<Rightarrow> bool list \<Rightarrow> error + 'a tensor \<times> 'a tensor \<times> 'a tensor" where
  "compute_backward bld lib input_t grad_output weight_t cols ons params output_mask =
     bind (deref weight_t) (\<lambda>weight.
     bind (slice 2 (t_sizes weight)) (\<lambda>kernel_size.
     let strd = vecToInt64 (stride params);
         pad = vecToInt64 (padding params);
         dil = vecToInt64 (dilation params);
         opad = vecToInt64 (output_padding params)
     in
     bind (deref input_t) (\<lambda>input.
     let dim = ndimension input; dilated = is_dilated params in
       if transposed params then
         if dim = 4 then
           at3 lib conv_transpose2d_backward
             [AT grad_output, AT input_t, AT weight_t, AL kernel_size, AL strd, AL pad, AL opad,
              AL dil, AT cols, AT ons, AM output_mask]
         else if dim = 5 then
           at3 lib conv_transpose3d_backward
             [AT grad_output, AT input_t, AT weight_t, AL strd, AL pad, AL opad, AL dil,
              AT cols, AT ons, AM output_mask]
         else Inl UnsupportedConfigurationError
       else if dim = 4 then
         if dilated then
           at3 lib conv_dilated2d_backward
             [AT grad_output, AT input_t, AT weight_t, AL kernel_size, AL strd, AL pad, AL dil,
              AT cols, AT ons, AM output_mask]
         else if use_nnpack bld params input then
           bind (if output_mask ! 0 then
                   bind (at_index kernel_size 1) (\<lambda>k1.
                   bind (at_index kernel_size 0) (\<lambda>k0.
                   bind (at_index (padding params) 1) (\<lambda>p1.
                   bind (at_index (padding params) 0) (\<lambda>p0.
                     filled lib (t_type input) (t_sizes input) nnpack_updateGradInput
                       [AT input_t, AT grad_output, AT weight_t, AI k1, AI k0, AI p1, AI p0]))))
                 else Inr None) (\<lambda>grad_input.
           bind (if output_mask ! 1 then
                   bind (at_index kernel_size 1) (\<lambda>k1.
                   bind (at_index kernel_size 0) (\<lambda>k0.
                   bind (at_index (padding params) 1) (\<lambda>p1.
                   bind (at_index (padding params) 0) (\<lambda>p0.
                     filled lib (t_type weight) (t_sizes weight) nnpack_accGradWeight
                       [AT input_t, AT grad_output, AI k1, AI k0, AI p1, AI p0]))))
                 else Inr None) (\<lambda>grad_weight.
           bind (if output_mask ! 2 then compute_grad_bias lib grad_output else Inr None)
             (\<lambda>grad_bias. Inr (grad_input, grad_weight, grad_bias))))
         else
           at3 lib conv2d_backward
             [AT grad_output, AT input_t, AT weight_t, AL kernel_size, AL strd, AL pad,
              AT cols, AT ons, AM output_mask]
       else if dim = 5 \<and> (is_cuda (t_type input) \<or> dilated) then
         at3 lib conv_dilated3d_backward
           [AT grad_output, AT input_t, AT weight_t, AL kernel_size, AL strd, AL pad, AL dil,
            AT cols, AT ons, AM output_mask]
       else if dim = 5 then
         at3 lib conv3d_backward
           [AT grad_output, AT input_t, AT weight_t, AL kernel_size, AL strd, AL pad,
            AT cols, AT ons, AM output_mask]
       else Inl UnsupportedConfigurationError)))"

text \<open>
  The loop over the groups in \<^verbatim>\<open>ConvBackward::apply\<close>: the three gradients of group \<open>g\<close>
  are stored at index \<open>g\<close> of three lists.
\<close>

function backward_groups ::
  "build \<Rightarrow> 'a aten \<Rightarrow> 'a ConvBackward \<Rightarrow> 'a tensor \<Rightarrow> 'a tensor \<Rightarrow> 'a tensor \<Rightarrow> bool list
   \<Rightarrow> nat \<Rightarrow> 'a tensor list \<times> 'a tensor list \<times> 'a tensor list
   \<Rightarrow> error + 'a tensor list \<times> 'a tensor list \<times> 'a tensor list" where
  "backward_groups bld lib this input grad_output weight output_mask g grads =
     (if int g < groups this then
        bind (subtensor input 1 (groups this) (int g)) (\<lambda>input_g.
        bind (subtensor grad_output 1 (groups this) (int g)) (\<lambda>grad_output_g.
        bind (subtensor weight 0 (groups this) (int g)) (\<lambda>weight_g.
        bind (at_index (columns this) g) (\<lambda>columns_g.
        bind (at_index (ones this) g) (\<lambda>ones_g.
        bind (compute_backward bld lib input_g grad_output_g weight_g columns_g ones_g
                this output_mask)
          (\<lambda>(gi, gw, gb).
             case grads of (grad_inputs, grad_weights, grad_biases) \<Rightarrow>
               backward_groups bld lib this input grad_output weight output_mask (Suc g)
                 (grad_inputs[g := gi], grad_weights[g := gw], grad_biases[g := gb])))))))
      else Inr grads)"
  by pat_completeness auto
termination
  by (relation "measure (\<lambda>(bld, lib, this, input, grad_output, weight, output_mask, g, grads).
                  nat (groups this) - g)") auto

declare backward_groups.simps [simp del]


text \<open>
  \<^verbatim>\<open>ConvBackward::apply\<close> chooses among the same strategies, each a definition of its own
  here. The depthwise kernel computes the first two gradients, the third is computed
  apart:
\<close>

definition backward_depthwise ::
  "'a aten \<Rightarrow> 'a ConvBackward \<Rightarrow> 'a tensor_impl \<Rightarrow> 'a tensor_impl \<Rightarrow> 'a tensor_impl \<Rightarrow> bool list
   \<Rightarrow> error + 'a tensor \<times> 'a tensor \<times> 'a tensor" where
  "backward_depthwise lib this input weight grad_output output_mask =
     bind (if output_mask ! 0 \<or> output_mask ! 1 then
             bind (slice 2 (t_sizes weight)) (\<lambda>kernel_size.
               at2 lib conv_depthwise2d_backward
                 [AT (Some grad_output), AT (Some input), AT (Some weight),
                  AL kernel_size, AL (vecToInt64 (stride this)),
                  AL (vecToInt64 (padding this)), AL (vecToInt64 (dilation this)),
                  AM [output_mask ! 0, output_mask ! 1]])
           else Inr (None, None)) (\<lambda>(grad_input, grad_weight).
     bind (if output_mask ! 2 then compute_grad_bias lib (Some grad_output)
           else Inr None) (\<lambda>grad_bias.
       Inr (grad_input, grad_weight, grad_bias)))"

text \<open>cuDNN: the gradient of the weight is computed when it or that of the bias is asked for.\<close>

definition backward_cudnn ::
  "'a aten \<Rightarrow> 'a ConvBackward \<Rightarrow> 'a tensor_impl \<Rightarrow> 'a tensor_impl \<Rightarrow> 'a tensor
   \<Rightarrow> 'a tensor_impl \<Rightarrow> bool list \<Rightarrow> error + 'a tensor \<times> 'a tensor \<times> 'a tensor" where
  "backward_cudnn lib this input weight bias grad_output output_mask =
     bind (if output_mask ! 0 then
             (if transposed this then
                filled lib (t_type input) (t_sizes input) cudnn_convolution_forward
                  [AT (Some grad_output), AT (Some weight), AConv (convolution this),
                   AB (benchmark this), AB (deterministic this)]
              else
                filled lib (t_type input) (t_sizes input) cudnn_convolution_backward_data
                  [AT (Some grad_output), AT (Some weight), AConv (convolution this),
                   AB (benchmark this), AB (deterministic this)])
           else Inr None) (\<lambda>grad_input.
     bind (if output_mask ! 1 \<or> output_mask ! 2 then
             bind (filled lib (t_type weight) (t_sizes weight)
                     cudnn_convolution_backward_filter
                     [AT (Some grad_output), AT (Some input), AConv (convolution this),
                      AB (benchmark this), AB (deterministic this)]) (\<lambda>grad_weight.
             bind (if output_mask ! 2 then
                     bind (deref bias) (\<lambda>b.
                       filled lib (t_type b) (t_sizes b) cudnn_convolution_backward_bias
                         [AT (Some grad_output), AConv (convolution this)])
                   else Inr None) (\<lambda>grad_bias.
               Inr (grad_weight, grad_bias)))
           else Inr (None, None)) (\<lambda>(grad_weight, grad_bias).
       Inr (grad_input, grad_weight, grad_bias)))"

text \<open>
  Otherwise the groups are computed one by one: a single group directly, several by the
  loop; of the gradients of the groups, those that the mask asks for are concatenated,
  along dimension 1 for the input and dimension 0 for the weight and the bias.
\<close>

definition backward_generic ::
  "build \<Rightarrow> 'a aten \<Rightarrow> 'a ConvBackward \<Rightarrow> 'a tensor_impl \<Rightarrow> 'a tensor_impl \<Rightarrow> 'a tensor_impl
   \<Rightarrow> bool list \<Rightarrow> error + 'a tensor \<times> 'a tensor \<times> 'a tensor" where
  "backward_generic bld lib this input weight grad_output output_mask =
     (if groups this = 1 then
        bind (at_index (columns this) 0) (\<lambda>columns_0.
        bind (at_index (ones this) 0) (\<lambda>ones_0.
          compute_backward bld lib (Some input) (Some grad_output) (Some weight)
            columns_0 ones_0 this output_mask))
      else if groups this < 0 then Inl LengthError
      else
        bind (backward_groups bld lib this (Some input) (Some grad_output) (Some weight)
                output_mask 0
                (replicate (nat (groups this)) None, replicate (nat (groups this)) None,
                 replicate (nat (groups this)) None))
          (\<lambda>(grad_inputs, grad_weights, grad_biases).
        bind (if output_mask ! 0 then cat lib grad_inputs 1 else Inr None) (\<lambda>grad_input.
        bind (if output_mask ! 1 then cat lib grad_weights 0 else Inr None) (\<lambda>grad_weight.
        bind (if output_mask ! 2 then cat lib grad_biases 0 else Inr None) (\<lambda>grad_bias.
          Inr (grad_input, grad_weight, grad_bias))))))"

text \<open>
  The part of \<^verbatim>\<open>ConvBackward::apply\<close> that follows the unpacking of the saved values:
  from \<^verbatim>\<open>int k = input.ndimension()\<close> to the list of the three gradient tensors.
\<close>

definition backward_gradients ::
  "build \<Rightarrow> 'a aten \<Rightarrow> 'a ConvBackward \<Rightarrow> 'a tensor_impl \<Rightarrow> 'a tensor_impl \<Rightarrow> 'a tensor
   \<Rightarrow> 'a tensor_impl \<Rightarrow> error + 'a tensor list" where
  "backward_gradients bld lib this input weight bias grad_output =
     (let k = ndimension input in
      bind (if k = 3 then
              bind (view4d input) (\<lambda>i4. bind (view4d weight) (\<lambda>w4.
              bind (view4d grad_output) (\<lambda>g4. Inr (i4, w4, g4))))
            else Inr (input, weight, grad_output)) (\<lambda>(input, weight, grad_output).
      bind (is_depthwise this input weight (groups this)) (\<lambda>use_depthwise.
      bind (use_cudnn bld this input) (\<lambda>use_cudnn.
      let output_mask = [should_compute_output this 0,
                         should_compute_output this 1,
                         should_compute_output this 2 \<and> t_defined bias]
      in
      bind
        (if use_depthwise then backward_depthwise lib this input weight grad_output output_mask
         else if use_cudnn then backward_cudnn lib this input weight bias grad_output output_mask
         else backward_generic bld lib this input weight grad_output output_mask)
        (\<lambda>(grad_input, grad_weight, grad_bias).
           if k = 3 then
             bind (case grad_input of None \<Rightarrow> Inr None
                   | Some gi \<Rightarrow> bind (view3d gi) (\<lambda>g3. Inr (Some g3))) (\<lambda>grad_input.
             bind (case grad_weight of None \<Rightarrow> Inr None
                   | Some gw \<Rightarrow> bind (view3d gw) (\<lambda>g3. Inr (Some g3))) (\<lambda>grad_weight.
               Inr [grad_input, grad_weight, grad_bias]))
           else Inr [grad_input, grad_weight, grad_bias])))))"

text \<open>\<^verbatim>\<open>as_tensor_list\<close> of three tensors, here of a triple.\<close>

definition as_list :: "'a tensor \<times> 'a tensor \<times> 'a tensor \<Rightarrow> 'a tensor list" where
  "as_list r = [fst r, fst (snd r), snd (snd r)]"

text \<open>
  The end of \<^verbatim>\<open>ConvBackward::apply\<close> once more, as a function of the three gradients: for
  a 3-dimensional input the gradients of the input and of the weight are viewed back if
  they are defined, and the three are put in a list.
\<close>

definition view3d_defined :: "'a tensor \<Rightarrow> error + 'a tensor" where
  "view3d_defined grad =
     (case grad of None \<Rightarrow> Inr None | Some g \<Rightarrow> bind (view3d g) (\<lambda>g3. Inr (Some g3)))"

definition view_gradients ::
  "bool \<Rightarrow> 'a tensor \<times> 'a tensor \<times> 'a tensor \<Rightarrow> error + 'a tensor list" where
  "view_gradients k3 grads =
     (if k3 then
        bind (view3d_defined (fst grads)) (\<lambda>grad_input.
        bind (view3d_defined (fst (snd grads))) (\<lambda>grad_weight.
          Inr [grad_input, grad_weight, snd (snd grads)]))
      else Inr (as_list grads))"

text \<open>
  \<^verbatim>\<open>ConvBackward::apply\<close>. The result is the list of the three gradient tensors (of the
  input, the weight and the bias), which the source hands to \<^verbatim>\<open>wrap_outputs\<close> (absent).
\<close>

definition ConvBackward_apply ::
  "build \<Rightarrow> 'a aten \<Rightarrow> heap \<Rightarrow> 'a ConvBackward \<Rightarrow> 'a Variable list \<Rightarrow> error + 'a tensor list" where
  "ConvBackward_apply bld lib h this grad_outputs =
     bind (check_input_variables grad_outputs 1 1) (\<lambda>_.
     if is_padding_neg this then Inl UnsupportedConfigurationError
     else if is_output_padding_neg this then Inl UnsupportedConfigurationError
     else
       bind (unpack h (saved_input this) None) (\<lambda>input_var.
       bind (unpack h (saved_weight this) None) (\<lambda>weight_var.
       bind (unpack h (saved_bias this) None) (\<lambda>bias_var.
       bind (deref input_var) (\<lambda>iv.
       bind (deref weight_var) (\<lambda>wv.
       let bias = opt_data bias_var;
           input = contiguous (v_data iv);
           weight = v_data wv
       in
       bind (deref (grad_outputs ! 0)) (\<lambda>gov.
         backward_gradients bld lib this input weight bias
           (contiguous (v_data gov)))))))))"

definition ConvBackward_releaseVariables :: "'a ConvBackward \<Rightarrow> 'a ConvBackward" where
  "ConvBackward_releaseVariables this =
     this\<lparr>saved_input := reset_data (saved_input this),
          saved_weight := reset_data (saved_weight this),
          saved_bias := reset_data (saved_bias this)\<rparr>"

text \<open>The node of the second derivative, of which only the release is modelled.\<close>

record 'a ConvBackwardBackward = ConvParams +
  bb_saved_input :: "'a saved_variable"
  bb_saved_weight :: "'a saved_variable"
  bb_saved_bias :: "'a saved_variable"
  bb_saved_grad_output :: "'a saved_variable"

definition ConvBackwardBackward_releaseVariables ::
  "'a ConvBackwardBackward \<Rightarrow> 'a ConvBackwardBackward" where
  "ConvBackwardBackward_releaseVariables this =
     this\<lparr>bb_saved_input := reset_data (bb_saved_input this),
          bb_saved_weight := reset_data (bb_saved_weight this),
          bb_saved_bias := reset_data (bb_saved_bias this),
          bb_saved_grad_output := reset_data (bb_saved_grad_output this)\<rparr>"


text \<open>
  Modelled from the spec: one backward pass over the node by the engine (absent): the
  node is applied and, unless the graph is retained, its saved values are released
  ("call \<open>releaseVariables()\<close> after a single backward invocation"; "an explicit retain
  mode skips release"). A node whose \<open>apply\<close> throws ends the pass as it is.
\<close>

definition backward_pass ::
  "bool \<Rightarrow> build \<Rightarrow> 'a aten \<Rightarrow> heap \<Rightarrow> 'a ConvBackward \<Rightarrow> 'a Variable list
   \<Rightarrow> (error + 'a tensor list) \<times> 'a ConvBackward" where
  "backward_pass retain bld lib h this grad_outputs =
     (case ConvBackward_apply bld lib h this grad_outputs of
        Inl e \<Rightarrow> (Inl e, this)
      | Inr r \<Rightarrow> (Inr r, if retain then this else ConvBackward_releaseVariables this))"

subsection \<open>The grouped convolution done by hand\<close>

text \<open>
  The definitions of this part follow the words of the specification, not the source:
  "manually splitting channels, running [...] group=1 convolutions, and concatenating".
  They are what the grouped paths of the two nodes are compared with. The slice and the
  concatenation are written out on the row-major buffer of a tensor; they use neither
  \<^const>\<open>subtensor\<close> and \<^const>\<open>narrow\<close> nor \<^const>\<open>cat\<close> and the kernel behind it.

  The index along dimension \<open>d\<close> of the element at position \<open>i\<close> of the buffer:
\<close>

definition coordinate :: "int list \<Rightarrow> nat \<Rightarrow> nat \<Rightarrow> nat" where
  "coordinate sizes d i = (i div nat (prod_list (drop (Suc d) sizes))) mod nat (sizes ! d)"

text \<open>
  The \<open>g\<close>-th of \<open>G\<close> slices of equal size along dimension \<open>d\<close>: with \<open>n\<close> the size of that
  dimension divided by \<open>G\<close>, the elements whose index along \<open>d\<close> is one of
  \<open>g * n, ..., g * n + n - 1\<close>, in the order of the buffer.
\<close>

definition channel_slice :: "'a tensor_impl \<Rightarrow> nat \<Rightarrow> int \<Rightarrow> nat \<Rightarrow> 'a tensor_impl" where
  "channel_slice t d G g =
     (let n = nat (t_sizes t ! d div G) in
      \<lparr>t_type = t_type t,
       t_sizes = (t_sizes t)[d := int n],
       t_elems = map (\<lambda>i. t_elems t ! i)
                   (filter (\<lambda>i. g * n \<le> coordinate (t_sizes t) d i
                                \<and> coordinate (t_sizes t) d i < g * n + n)
                      [0..<length (t_elems t)])\<rparr>)"

text \<open>
  The concatenation of tensors along dimension \<open>d\<close>, in the order of the list: the size of
  dimension \<open>d\<close> is the sum of theirs, and for every index of the dimensions before \<open>d\<close>
  the block of the first tensor is followed by the block of the second, and so on.
\<close>

definition concat_dim :: "nat \<Rightarrow> 'a tensor_impl list \<Rightarrow> 'a tensor_impl" where
  "concat_dim d ts =
     \<lparr>t_type = t_type (hd ts),
      t_sizes = (t_sizes (hd ts))[d := sum_list (map (\<lambda>t. t_sizes t ! d) ts)],
      t_elems = concat (map (\<lambda>out. concat (map (\<lambda>t.
                    let block = nat (prod_list (drop d (t_sizes t)))
                    in take block (drop (out * block) (t_elems t))) ts))
                  [0..<nat (prod_list (take d (t_sizes (hd ts))))])\<rparr>"

text \<open>
  What the comparison asks of the library: \<^verbatim>\<open>at::cat_out\<close>, called on an empty tensor of
  the type of the first tensor, concatenates.
\<close>

definition cat_out_concatenates :: "'a aten \<Rightarrow> bool" where
  "cat_out_concatenates lib \<longleftrightarrow>
     (\<forall>ts d. ts \<noteq> [] \<longrightarrow>
        kernel1 lib cat_out [AT (Some (empty_tensor (t_type (hd ts)))), ATs (map Some ts),
                             AI (int d)]
          = Some (Some (concat_dim d ts)))"

text \<open>
  A tensor that can be cut into \<open>G\<close> slices along dimension \<open>d\<close>: it has that dimension,
  of size \<open>G\<close> at least, no size is negative, and the buffer holds as many elements as the
  sizes say.
\<close>

definition sliceable :: "'a tensor_impl \<Rightarrow> nat \<Rightarrow> int \<Rightarrow> bool" where
  "sliceable t d G \<longleftrightarrow>
     d < ndimension t \<and> list_all (\<lambda>s. 0 \<le> s) (t_sizes t) \<and> G \<le> t_sizes t ! d
     \<and> length (t_elems t) = nat (prod_list (t_sizes t))"

text \<open>
  The two nodes view a 3-dimensional tensor (of a convolution over one dimension) as a
  4-dimensional one before they choose a strategy.
\<close>

definition as_4d :: "'a tensor_impl \<Rightarrow> 'a tensor_impl" where
  "as_4d t = (if ndimension t = 3 then unsqueeze t 2 else t)"

text \<open>The slice of the data of a value, and of the data that a guard holds.\<close>

definition slice_of :: "'a Variable \<Rightarrow> nat \<Rightarrow> int \<Rightarrow> nat \<Rightarrow> 'a Variable" where
  "slice_of var d G g = map_option (\<lambda>v. v\<lparr>v_data := channel_slice (v_data v) d G g\<rparr>) var"

definition slice_of_saved :: "'a saved_variable \<Rightarrow> nat \<Rightarrow> int \<Rightarrow> nat \<Rightarrow> 'a saved_variable" where
  "slice_of_saved s d G g = s\<lparr>sv_data := map_option (\<lambda>t. channel_slice t d G g) (sv_data s)\<rparr>"

text \<open>
  Forward: for each group in turn, a node with a single group is applied to the slices
  of the input (dimension 1), of the weight and of the bias (dimension 0); the outputs
  are concatenated along dimension 1.
\<close>

definition forward_by_hand ::
  "build \<Rightarrow> 'a aten \<Rightarrow> 'z ConvParams_scheme \<Rightarrow> 'a Variable list \<Rightarrow> error + 'a tensor" where
  "forward_by_hand bld lib this inputs =
     bind (mapM
             (\<lambda>g.
                bind (ConvForward_apply bld lib (this\<lparr>groups := 1\<rparr>)
                        [slice_of (inputs ! 0) 1 (groups this) g,
                         slice_of (inputs ! 1) 0 (groups this) g,
                         slice_of (inputs ! 2) 0 (groups this) g])
                  deref)
             [0..<nat (groups this)])
       (\<lambda>outputs. Inr (Some (concat_dim 1 outputs)))"

text \<open>
  Backward: for each group in turn, a backward node with a single group, which has saved
  the slices of the input (dimension 1), of the weight and of the bias (dimension 0) and
  holds the buffers of that group, is applied to the slice of the gradient of the output
  (dimension 1); of the three gradients, those that are asked for are concatenated,
  along dimension 1 for the input and dimension 0 for the weight and the bias.
\<close>

definition concat_nth :: "nat \<Rightarrow> nat \<Rightarrow> 'a tensor list list \<Rightarrow> error + 'a tensor" where
  "concat_nth d i grads =
     bind (mapM (\<lambda>r. deref (r ! i)) grads) (\<lambda>ts. Inr (Some (concat_dim d ts)))"

definition backward_by_hand ::
  "build \<Rightarrow> 'a aten \<Rightarrow> heap \<Rightarrow> 'a ConvBackward \<Rightarrow> 'a Variable list \<Rightarrow> error + 'a tensor list" where
  "backward_by_hand bld lib h this grad_outputs =
     bind (mapM
             (\<lambda>g.
                bind (at_index (columns this) g) (\<lambda>columns_g.
                bind (at_index (ones this) g) (\<lambda>ones_g.
                  ConvBackward_apply bld lib h
                    (this\<lparr>groups := 1,
                          saved_input := slice_of_saved (saved_input this) 1 (groups this) g,
                          saved_weight := slice_of_saved (saved_weight this) 0 (groups this) g,
                          saved_bias := slice_of_saved (saved_bias this) 0 (groups this) g,
                          columns := [columns_g], ones := [ones_g]\<rparr>)
                    [slice_of (grad_outputs ! 0) 1 (groups this) g])))
             [0..<nat (groups this)])
       (\<lambda>grads.
          bind (if should_compute_output this 0 then concat_nth 1 0 grads else Inr None)
            (\<lambda>grad_input.
          bind (if should_compute_output this 1 then concat_nth 0 1 grads else Inr None)
            (\<lambda>grad_weight.
          bind (if should_compute_output this 2 \<and> t_defined (sv_data (saved_bias this))
                then concat_nth 0 2 grads else Inr None)
            (\<lambda>grad_bias.
            Inr [grad_input, grad_weight, grad_bias]))))"

section \<open>The staged interpreter (\<^verbatim>\<open>interpreter_autograd_function.cpp\<close>)\<close>

text \<open>
  Modelled from the spec: the flags of a value, \<^verbatim>\<open>VariableFlags\<close> (declared in an absent
  header): whether it is defined and whether it requires grad. An undefined value does
  not require grad.
\<close>

record VariableFlags =
  vf_defined :: bool
  vf_requires_grad :: bool

definition VariableFlags_of :: "'a Variable \<Rightarrow> VariableFlags" where
  "VariableFlags_of var =
     \<lparr>vf_defined = (var \<noteq> None),
      vf_requires_grad = (case var of None \<Rightarrow> False | Some v \<Rightarrow> v_requires_grad v)\<rparr>"

text \<open>
  Modelled from the spec: the Staged Program State, \<^verbatim>\<open>StageDetails\<close> of the absent header:
  "which inputs/outputs require grad at that stage, which inputs are actually used, and
  which edges must be copied forward from the previous stage".
\<close>

record StageDetails =
  input_flags :: "VariableFlags list"
  output_flags :: "VariableFlags list"
  copied_next_fns :: "nat list"
  used_inputs :: "bool list"

type_synonym edge = "fn_ref option \<times> int"

text \<open>
  Modelled from the spec: the node, \<^verbatim>\<open>InterpreterAutogradFunction\<close> of the absent header.
  The members \<^verbatim>\<open>interp_\<close>, \<^verbatim>\<open>stage_details_\<close>, \<^verbatim>\<open>stage_\<close>, \<^verbatim>\<open>used_\<close> and \<^verbatim>\<open>keep_graph_\<close> lose
  their underscore; \<open>num_inputs\<close> and \<open>next_functions\<close> are members of every node.
\<close>

record 'i InterpreterAutogradFunction =
  interp :: 'i
  stage_details :: "StageDetails list"
  stage :: nat
  used :: bool
  keep_graph :: bool
  num_inputs :: int
  next_functions :: "edge list"

record TensorType =
  tt_device :: int
  tt_scalarType :: scalar_type
  tt_sizes :: "int list"

text \<open>
  The interpreter of the traced program is external: \<open>runOneStage\<close> advances its state
  and returns the outputs of the stage (\<open>None\<close> when it raises an error),
  \<open>tensorTypeForInput\<close> is the traced type of an input of the coming stage.
\<close>

record ('i, 'a) jit =
  runOneStage :: "'i \<Rightarrow> 'a tensor list \<Rightarrow> ('i \<times> 'a tensor list) option"
  tensorTypeForInput :: "'i \<Rightarrow> nat \<Rightarrow> TensorType"

definition zeroTensorWithType :: "TensorType \<Rightarrow> ('a::zero) tensor" where
  "zeroTensorWithType ty =
     Some \<lparr>t_type = \<lparr>is_cuda = (\<not> tt_device ty < 0), scalarType = tt_scalarType ty\<rparr>,
           t_sizes = tt_sizes ty,
           t_elems = replicate (nat (prod_list (tt_sizes ty))) 0\<rparr>"

text \<open>
  The validation loop of \<^verbatim>\<open>apply\<close>: input \<open>i\<close> is checked against the flags of the trace
  and its tensor appended to \<^verbatim>\<open>tinputs\<close>. The source has asserted before the loop that
  there are as many flags as inputs.
\<close>

fun validate_inputs ::
  "('i, 'a::zero) jit \<Rightarrow> 'i \<Rightarrow> VariableFlags list \<Rightarrow> nat \<Rightarrow> 'a Variable list
   \<Rightarrow> error + 'a tensor list" where
  "validate_inputs lib ip flags i [] = Inr []"
| "validate_inputs lib ip flags i (inp # rest) =
     (let actual_flags = VariableFlags_of inp; traced_flags = flags ! i in
      if \<not> vf_defined traced_flags \<and> vf_defined actual_flags then
        Inl (StageMismatchError DefinedButTracedUndefined)
      else if \<not> vf_requires_grad traced_flags \<and> vf_requires_grad actual_flags then
        Inl (StageMismatchError RequiresGradButTracedNot)
      else
        let t = (if \<not> vf_defined actual_flags then
                   (if vf_defined traced_flags
                    then zeroTensorWithType (tensorTypeForInput lib ip i)
                    else None)
                 else opt_data inp)
        in bind (validate_inputs lib ip flags (Suc i) rest) (\<lambda>ts. Inr (t # ts)))"

text \<open>
  For one position of that loop: the condition under which it throws, and the tensor
  that it appends otherwise.
\<close>

definition mismatched :: "'a Variable \<Rightarrow> VariableFlags \<Rightarrow> bool" where
  "mismatched inp traced =
     ((inp \<noteq> None \<and> \<not> vf_defined traced)
      \<or> (vf_requires_grad (VariableFlags_of inp) \<and> \<not> vf_requires_grad traced))"

definition tensor_for :: "('i, 'a::zero) jit \<Rightarrow> 'i \<Rightarrow> VariableFlags list \<Rightarrow> 'a Variable list \<Rightarrow> nat \<Rightarrow> 'a tensor" where
  "tensor_for lib ip flags inputs i =
     (if inputs ! i = None \<and> vf_defined (flags ! i)
      then zeroTensorWithType (tensorTypeForInput lib ip i)
      else opt_data (inputs ! i))"

text \<open>
  Modelled from the spec: the node that \<^verbatim>\<open>grad_accumulator()\<close> gives to a caller who keeps
  it: the cached sink if it is still there, a newly constructed one (\<open>fresh\<close>) otherwise.
\<close>

definition grad_accumulator_kept :: "heap \<Rightarrow> fn_ref \<Rightarrow> 'a variable_impl \<Rightarrow> fn_ref option" where
  "grad_accumulator_kept h fresh v =
     (if \<not> v_requires_grad v then None
      else case v_grad_accumulator v of
             None \<Rightarrow> Some fresh
           | Some a \<Rightarrow> if h_alive h a then Some a else Some fresh)"

text \<open>
  The second loop of \<^verbatim>\<open>make_grad_fn\<close>: the edge of input \<open>i\<close>, for the inputs that are
  used and whose gradient the trace computes.
\<close>

fun input_edges ::
  "heap \<Rightarrow> fn_ref \<Rightarrow> StageDetails \<Rightarrow> nat \<Rightarrow> 'a Variable list \<Rightarrow> error + edge list" where
  "input_edges h fresh details i [] = Inr []"
| "input_edges h fresh details i (inp # rest) =
     bind (at_index (used_inputs details) i) (\<lambda>is_used.
       if \<not> is_used then input_edges h fresh details (Suc i) rest
       else if \<not> vf_requires_grad (input_flags details ! i) then
         input_edges h fresh details (Suc i) rest
       else
         bind (input_edges h (Suc fresh) details (Suc i) rest) (\<lambda>es.
           case inp of
             None \<Rightarrow> Inr ((None, 0) # es)
           | Some v \<Rightarrow>
               if \<not> v_requires_grad v then Inr ((None, 0) # es)
               else Inr ((case v_grad_fn v of
                            Some f \<Rightarrow> Some f
                          | None \<Rightarrow> grad_accumulator_kept h fresh v,
                          v_output_nr v) # es)))"

text \<open>
  \<^verbatim>\<open>make_grad_fn\<close>: the node of the next stage (\<open>num_bound\<close> outputs will be bound to it).
  When the next stage was not compiled the node is returned as it was constructed, without
  edges; no error is raised here.
\<close>

definition make_grad_fn ::
  "heap \<Rightarrow> fn_ref \<Rightarrow> 'i InterpreterAutogradFunction \<Rightarrow> 'i \<Rightarrow> StageDetails
   \<Rightarrow> 'a Variable list \<Rightarrow> nat \<Rightarrow> error + 'i InterpreterAutogradFunction" where
  "make_grad_fn h fresh this ip details inputs num_bound =
     (let grad_fn = \<lparr>interp = ip, stage_details = stage_details this,
                     stage = stage this + 1, used = False, keep_graph = True,
                     num_inputs = int num_bound, next_functions = []\<rparr>
      in
        if stage this + 1 = length (stage_details this) then Inr grad_fn
        else
          bind (at_index (stage_details this) (stage this + 1)) (\<lambda>next_details.
          bind (mapM (at_index (next_functions this)) (copied_next_fns next_details))
            (\<lambda>copied.
          bind (input_edges h fresh details 0 inputs) (\<lambda>es.
            Inr (grad_fn\<lparr>next_functions := copied @ es\<rparr>)))))"

text \<open>
  What \<^verbatim>\<open>apply\<close> returns: each output tensor with the node it is bound to (none for an
  output that does not require grad), and that node, if it was made.
\<close>

record ('i, 'a) applied =
  result :: "('a tensor \<times> fn_ref option) list"
  grad_fn :: "'i InterpreterAutogradFunction option"
  ran :: 'i

text \<open>
  The end of \<^verbatim>\<open>apply\<close>, which wraps the outputs of the stage: the outputs that require
  grad are bound to the node of the next stage, which is made when the first of them is
  met. \<open>fresh\<close> is the identity that this node gets; the accumulators made for its edges
  follow it.
\<close>

definition wrap_the_outputs ::
  "heap \<Rightarrow> fn_ref \<Rightarrow> 'i InterpreterAutogradFunction \<Rightarrow> StageDetails \<Rightarrow> 'a Variable list
   \<Rightarrow> 'i \<Rightarrow> 'a tensor list \<Rightarrow> error + ('i, 'a) applied" where
  "wrap_the_outputs h fresh this details inputs ip toutputs =
     (if length toutputs \<noteq> length (output_flags details) then Inl AssertionError
      else
        let bound = map vf_requires_grad (output_flags details) in
        if list_ex (\<lambda>b. b) bound then
          bind (make_grad_fn h (Suc fresh) this ip details inputs
                  (length (filter (\<lambda>b. b) bound))) (\<lambda>g.
            Inr \<lparr>result = map (\<lambda>(t, b). (t, if b then Some fresh else None))
                               (zip toutputs bound),
                 grad_fn = Some g, ran = ip\<rparr>)
        else
          Inr \<lparr>result = map (\<lambda>t. (t, None)) toutputs, grad_fn = None, ran = ip\<rparr>)"

text \<open>The body of \<^verbatim>\<open>apply\<close> after the two initial checks.\<close>

definition apply_stage ::
  "('i, 'a::zero) jit \<Rightarrow> heap \<Rightarrow> fn_ref \<Rightarrow> 'i InterpreterAutogradFunction \<Rightarrow> 'a Variable list
   \<Rightarrow> error + ('i, 'a) applied" where
  "apply_stage lib h fresh this inputs =
     bind (at_index (stage_details this) (stage this)) (\<lambda>details.
     if int (length inputs) \<noteq> num_inputs this then Inl AssertionError
     else if length inputs \<noteq> length (input_flags details) then Inl AssertionError
     else
       bind (validate_inputs lib (interp this) (input_flags details) 0 inputs) (\<lambda>tinputs.
       bind (raised (runOneStage lib (interp this) tinputs)) (\<lambda>(ip, toutputs).
         wrap_the_outputs h fresh this details inputs ip toutputs)))"

text \<open>
  \<^verbatim>\<open>InterpreterAutogradFunction::apply\<close>: the node after the call, and what the call
  returns or throws. The message of the first error names \<^verbatim>\<open>stage_details_.size() - 1\<close>,
  computed in \<^verbatim>\<open>size_t\<close>, where it wraps around for an empty vector. A node that is not kept runs its own interpreter state, a kept
  one a copy.
\<close>

definition InterpreterAutogradFunction_apply ::
  "('i, 'a::zero) jit \<Rightarrow> heap \<Rightarrow> fn_ref \<Rightarrow> 'i InterpreterAutogradFunction \<Rightarrow> 'a Variable list
   \<Rightarrow> 'i InterpreterAutogradFunction \<times> (error + ('i, 'a) applied)" where
  "InterpreterAutogradFunction_apply lib h fresh this inputs =
     (if stage this = length (stage_details this) then
        (this, Inl (DerivativeLimitError
                      (if stage_details this = [] then 2 ^ 64 - 1
                       else length (stage_details this) - 1)))
      else if used this then (this, Inl ReusedAfterReleaseError)
      else
        let this = this\<lparr>used := (used this \<or> \<not> keep_graph this)\<rparr> in
        case apply_stage lib h fresh this inputs of
          Inl e \<Rightarrow> (this, Inl e)
        | Inr r \<Rightarrow> ((if keep_graph this then this else this\<lparr>interp := ran r\<rparr>), Inr r))"

text \<open>
  Modelled from the spec: before a backward pass that does not retain the graph the
  engine tells the node that its buffers will be released ("by default each node's
  guards are released immediately after use").
\<close>

definition willReleaseVariables :: "'i InterpreterAutogradFunction \<Rightarrow> 'i InterpreterAutogradFunction" where
  "willReleaseVariables this = this\<lparr>keep_graph := False\<rparr>"


section \<open>Concrete values\<close>

text \<open>The values at which the theorems below are evaluated.\<close>

definition heap0 :: heap where
  "heap0 = \<lparr>h_version = (\<lambda>_. 0), h_alive = (\<lambda>_. True)\<rparr>"

definition tensor1 :: "int tensor_impl" where
  "tensor1 = \<lparr>t_type = CPUFloat, t_sizes = [2], t_elems = [3, 4]\<rparr>"

text \<open>A leaf that requires grad (its accumulator is node 5), and an output of node 7.\<close>

definition leaf1 :: "int variable_impl" where
  "leaf1 = \<lparr>v_data = tensor1, v_requires_grad = True, v_grad_fn = None, v_output_nr = 0,
            v_version_counter = 1, v_grad_accumulator = Some 5, v_tracing_state = None\<rparr>"

definition nonleaf1 :: "int variable_impl" where
  "nonleaf1 = \<lparr>v_data = tensor1, v_requires_grad = True, v_grad_fn = Some 7, v_output_nr = 0,
               v_version_counter = 2, v_grad_accumulator = None, v_tracing_state = None\<rparr>"


text \<open>A leaf that does not require grad, wrapping a tensor.\<close>

definition leaf_of :: "'a tensor_impl \<Rightarrow> vc_ref \<Rightarrow> 'a variable_impl" where
  "leaf_of t b = make_variable_leaf t False b"

text \<open>A build without cuDNN and NNPACK, and one with cuDNN.\<close>

definition cpu_build :: build where
  "cpu_build = \<lparr>WITH_CUDNN = False, WITH_NNPACK = False, CUDNN_VERSION = 0, device_major = 0\<rparr>"

definition cudnn_build :: build where
  "cudnn_build = \<lparr>WITH_CUDNN = True, WITH_NNPACK = False, CUDNN_VERSION = 7005, device_major = 6\<rparr>"

text \<open>
  A library without arithmetic, to run the nodes on: a kernel hands back some of its
  tensor arguments (a backward kernel the input, the weight and the gradient of the
  output, as far as its mask asks), \<^verbatim>\<open>cat_out\<close> strings the elements of its tensors
  together.
\<close>

fun stub_mask :: "'a arg list \<Rightarrow> bool list" where
  "stub_mask [] = []"
| "stub_mask (a # rest) = (case a of AM m \<Rightarrow> m | _ \<Rightarrow> stub_mask rest)"

definition stub_tensors :: "'a arg list \<Rightarrow> 'a tensor list" where
  "stub_tensors args =
     concat (map (\<lambda>a. case a of AT t \<Rightarrow> [t] | ATs ts \<Rightarrow> ts | _ \<Rightarrow> []) args)"

definition stub_cat :: "'a tensor list \<Rightarrow> 'a tensor" where
  "stub_cat ts =
     (case ts of
        Some out # rest \<Rightarrow>
          Some (out\<lparr>t_sizes := [int (length rest)],
                    t_elems := concat (map (\<lambda>t. case t of None \<Rightarrow> [] | Some x \<Rightarrow> t_elems x)
                                           rest)\<rparr>)
      | _ \<Rightarrow> None)"

definition stub_kernel1 :: "kernel \<Rightarrow> 'a arg list \<Rightarrow> 'a tensor option" where
  "stub_kernel1 k args =
     (if k = cat_out then Some (stub_cat (stub_tensors args))
      else case stub_tensors args of [] \<Rightarrow> None | t # _ \<Rightarrow> Some t)"

definition stub_kernel3 ::
  "kernel \<Rightarrow> 'a arg list \<Rightarrow> ('a tensor \<times> 'a tensor \<times> 'a tensor) option" where
  "stub_kernel3 k args =
     (case stub_tensors args of
        go # inp # w # _ \<Rightarrow>
          Some (if stub_mask args ! 0 then inp else None,
                if stub_mask args ! 1 then w else None,
                if stub_mask args ! 2 then go else None)
      | _ \<Rightarrow> None)"

definition stub_kernel2 :: "kernel \<Rightarrow> 'a arg list \<Rightarrow> ('a tensor \<times> 'a tensor) option" where
  "stub_kernel2 k args =
     (case stub_tensors args of
        go # inp # w # _ \<Rightarrow>
          Some (if stub_mask args ! 0 then inp else None,
                if stub_mask args ! 1 then w else None)
      | _ \<Rightarrow> None)"

definition stub_kernel_out :: "kernel \<Rightarrow> 'a arg list \<Rightarrow> 'a list option" where
  "stub_kernel_out k args =
     (case stub_tensors args of Some t # _ \<Rightarrow> Some (t_elems t) | _ \<Rightarrow> None)"

definition stub :: "'a aten" where
  "stub = \<lparr>kernel1 = stub_kernel1, kernel2 = stub_kernel2, kernel3 = stub_kernel3,
           kernel_out = stub_kernel_out\<rparr>"

text \<open>
  A convolution of two groups without bias: an input of two channels, a weight of two
  output channels, the gradient of the output, and the backward node that has saved them.
\<close>

definition input1 :: "int tensor_impl" where
  "input1 = \<lparr>t_type = CPUFloat, t_sizes = [1, 2, 1, 1], t_elems = [3, 4]\<rparr>"

definition weight1 :: "int tensor_impl" where
  "weight1 = \<lparr>t_type = CPUFloat, t_sizes = [2, 1, 1, 1], t_elems = [5, 6]\<rparr>"

definition bias1 :: "int tensor_impl" where
  "bias1 = \<lparr>t_type = CPUFloat, t_sizes = [2], t_elems = [1, 2]\<rparr>"

definition grad1 :: "int tensor_impl" where
  "grad1 = \<lparr>t_type = CPUFloat, t_sizes = [1, 2, 1, 1], t_elems = [7, 8]\<rparr>"

definition conv_params :: ConvParams where
  "conv_params =
     \<lparr>stride = [1, 1], padding = [0, 0], dilation = [1, 1], transposed = False,
      output_padding = [0, 0], groups = 2, benchmark = False, deterministic = False,
      cudnn_enabled = True\<rparr>"

definition all_outputs :: "nat \<Rightarrow> bool" where
  "all_outputs i = True"

definition conv_node :: "int ConvBackward" where
  "conv_node =
     \<lparr>stride = [1, 1], padding = [0, 0], dilation = [1, 1], transposed = False,
      output_padding = [0, 0], groups = 2, benchmark = False, deterministic = False,
      cudnn_enabled = True,
      should_compute_output = all_outputs,
      saved_input = SavedVariable heap0 (Some (leaf_of input1 10)) False,
      saved_weight = SavedVariable heap0 (Some (leaf_of weight1 11)) False,
      saved_bias = SavedVariable heap0 None False,
      columns = [Some (empty_tensor CPUFloat), Some (empty_tensor CPUFloat)],
      ones = [Some (empty_tensor CPUFloat), Some (empty_tensor CPUFloat)],
      convolution = None\<rparr>"

text \<open>
  A program compiled for one derivative: stage 0 is the forward pass, stage 1 its
  derivative. The stub of the interpreter returns its inputs.
\<close>

definition stub_run :: "nat \<Rightarrow> int tensor list \<Rightarrow> (nat \<times> int tensor list) option" where
  "stub_run ip ts = Some (Suc ip, ts)"

definition stub_type :: "nat \<Rightarrow> nat \<Rightarrow> TensorType" where
  "stub_type ip i = \<lparr>tt_device = -1, tt_scalarType = Float, tt_sizes = [2]\<rparr>"

definition stub_jit :: "(nat, int) jit" where
  "stub_jit = \<lparr>runOneStage = stub_run, tensorTypeForInput = stub_type\<rparr>"

definition details0 :: StageDetails where
  "details0 = \<lparr>input_flags = [\<lparr>vf_defined = True, vf_requires_grad = True\<rparr>],
                output_flags = [\<lparr>vf_defined = True, vf_requires_grad = True\<rparr>],
                copied_next_fns = [], used_inputs = [True]\<rparr>"

definition details1 :: StageDetails where
  "details1 = \<lparr>input_flags = [\<lparr>vf_defined = True, vf_requires_grad = False\<rparr>],
                output_flags = [\<lparr>vf_defined = True, vf_requires_grad = True\<rparr>],
                copied_next_fns = [], used_inputs = [True]\<rparr>"

definition staged0 :: "nat InterpreterAutogradFunction" where
  "staged0 = \<lparr>interp = 0, stage_details = [details0, details1], stage = 0, used = False,
               keep_graph = False, num_inputs = 1, next_functions = []\<rparr>"

definition staged1 :: "nat InterpreterAutogradFunction" where
  "staged1 = \<lparr>interp = 1, stage_details = [details0, details1], stage = 1, used = False,
               keep_graph = False, num_inputs = 1, next_functions = [(Some 5, 0)]\<rparr>"

text \<open>The node of stage 2, which was not compiled.\<close>

definition staged2 :: "nat InterpreterAutogradFunction" where
  "staged2 = \<lparr>interp = 2, stage_details = [details0, details1], stage = 2,
                            used = False, keep_graph = True, num_inputs = 1,
                            next_functions = []\<rparr>"

text \<open>The same convolution with a bias, and the node of its second derivative.\<close>

definition conv_node_bias :: "int ConvBackward" where
  "conv_node_bias = conv_node\<lparr>saved_bias := SavedVariable heap0 (Some (leaf_of bias1 13)) False\<rparr>"

definition conv_bb_node :: "int ConvBackwardBackward" where
  "conv_bb_node =
     \<lparr>stride = [1, 1], padding = [0, 0], dilation = [1, 1], transposed = False,
      output_padding = [0, 0], groups = 2, benchmark = False, deterministic = False,
      cudnn_enabled = True,
      bb_saved_input = SavedVariable heap0 (Some (leaf_of input1 10)) False,
      bb_saved_weight = SavedVariable heap0 (Some (leaf_of weight1 11)) False,
      bb_saved_bias = SavedVariable heap0 None False,
      bb_saved_grad_output = SavedVariable heap0 (Some (leaf_of grad1 12)) False\<rparr>"

text \<open>
  A convolution of a single group with a bias, on CUDA tensors, of which only the
  gradient of the bias is asked for.
\<close>

definition CUDAFloat :: ttype where
  "CUDAFloat = \<lparr>is_cuda = True, scalarType = Float\<rparr>"

definition cuda_input :: "int tensor_impl" where
  "cuda_input = \<lparr>t_type = CUDAFloat, t_sizes = [1, 2, 1, 1], t_elems = [3, 4]\<rparr>"

definition cuda_weight :: "int tensor_impl" where
  "cuda_weight = \<lparr>t_type = CUDAFloat, t_sizes = [2, 2, 1, 1], t_elems = [5, 6, 7, 8]\<rparr>"

definition cuda_bias :: "int tensor_impl" where
  "cuda_bias = \<lparr>t_type = CUDAFloat, t_sizes = [2], t_elems = [1, 2]\<rparr>"

definition cuda_grad :: "int tensor_impl" where
  "cuda_grad = \<lparr>t_type = CUDAFloat, t_sizes = [1, 2, 1, 1], t_elems = [9, 10]\<rparr>"

definition only_bias :: "nat \<Rightarrow> bool" where
  "only_bias i = (i = 2)"

definition cudnn_node :: "int ConvBackward" where
  "cudnn_node =
     \<lparr>stride = [1, 1], padding = [0, 0], dilation = [1, 1], transposed = False,
      output_padding = [0, 0], groups = 1, benchmark = False, deterministic = False,
      cudnn_enabled = True,
      should_compute_output = only_bias,
      saved_input = SavedVariable heap0 (Some (leaf_of cuda_input 10)) False,
      saved_weight = SavedVariable heap0 (Some (leaf_of cuda_weight 11)) False,
      saved_bias = SavedVariable heap0 (Some (leaf_of cuda_bias 13)) False,
      columns = [Some (empty_tensor CUDAFloat)],
      ones = [Some (empty_tensor CUDAFloat)],
      convolution = Some 0\<rparr>"

section \<open>Snapshot guards: what \<open>unpack\<close> checks\<close>

lemma mutate_inplace_version:
  "h_version (mutate_inplace n b h) b = h_version h b + int n"
  by (induction n arbitrary: h) (simp_all add: increment_def)

lemma unpack_released:
  "sv_defined (sv_version s) \<Longrightarrow>
   unpack h (reset_data s) saved_for = Inl ReusedAfterReleaseError"
  by (simp add: unpack_def reset_data_def)

lemma unpack_empty_released:
  "unpack h (reset_data (SavedVariable h' None is_output)) saved_for = Inr None"
  by (simp add: unpack_def reset_data_def SavedVariable_def SavedVariable_empty_def
      SavedVersion_empty_def sv_defined_def)

lemma captured_version_defined:
  "sv_defined (sv_version (SavedVariable h (Some v) is_output))"
  by (simp add: SavedVariable_def sv_defined_def save_def)

text \<open>
  Claim C2, as stated: a value mutated in place after capture makes \<open>unpack\<close> fail with
  \<open>StaleVersionError\<close>, and without a mutation between capture and \<open>unpack\<close>, \<open>unpack\<close>
  succeeds. The second half fails: the guard of an output of node 7, captured with
  \<open>is_output\<close> and unpacked without a node, was never mutated, and \<open>unpack\<close> throws
  \<open>MissingProducerError\<close>.
\<close>

theorem unmutated_unpack_fails:
  "unpack heap0 (SavedVariable heap0 (Some nonleaf1) True) None = Inl MissingProducerError"
  by (simp add: unpack_def SavedVariable_def heap0_def nonleaf1_def is_leaf_def save_def
      is_modified_def data_def current_version_def)

text \<open>
  Claim C2, amended: for every captured value, whatever became of the nodes since the
  capture (\<open>al\<close>): after one or more in-place mutations \<open>unpack\<close> fails with
  \<open>StaleVersionError\<close>; without a mutation it does not fail with \<open>StaleVersionError\<close>, and it
  returns the value whenever the producing node is stored or supplied (the value is a
  leaf, or was not captured as an output, or \<open>saved_for\<close> is given) and the accumulator of
  a leaf that requires grad has not expired.
\<close>

theorem unpack_version_check:
  "unpack ((mutate_inplace (Suc n) (v_version_counter v) h)\<lparr>h_alive := al\<rparr>)
          (SavedVariable h (Some v) is_output) saved_for = Inl StaleVersionError
   \<and> unpack (h\<lparr>h_alive := al\<rparr>) (SavedVariable h (Some v) is_output) saved_for
        \<noteq> Inl StaleVersionError
   \<and> ((is_leaf v \<or> \<not> is_output \<or> saved_for \<noteq> None)
        \<and> (is_leaf v \<and> v_requires_grad v
             \<longrightarrow> \<not> expired (h\<lparr>h_alive := al\<rparr>) (grad_accumulator v))
       \<longrightarrow> (\<exists>var. unpack (h\<lparr>h_alive := al\<rparr>) (SavedVariable h (Some v) is_output) saved_for
                    = Inr (Some var) \<and> v_data var = v_data v))"
  by (auto simp: unpack_def SavedVariable_def data_def is_modified_def save_def
        mutate_inplace_version Let_def make_variable_fn_def make_variable_leaf_def is_leaf_def
      simp del: mutate_inplace.simps split: option.splits)

theorem unpack_version_check_witness:
  "is_leaf leaf1 \<and> v_requires_grad leaf1
   \<and> \<not> expired (heap0\<lparr>h_alive := h_alive heap0\<rparr>) (grad_accumulator leaf1)
   \<and> unpack ((mutate_inplace (Suc 0) (v_version_counter leaf1) heap0)\<lparr>h_alive := h_alive heap0\<rparr>)
          (SavedVariable heap0 (Some leaf1) False) None = Inl StaleVersionError
   \<and> (\<exists>var. unpack (heap0\<lparr>h_alive := h_alive heap0\<rparr>)
               (SavedVariable heap0 (Some leaf1) False) None
             = Inr (Some var) \<and> v_data var = v_data leaf1)"
  using unpack_version_check [where n = 0 and v = leaf1 and h = heap0 and al = "h_alive heap0"
                                and is_output = False and saved_for = None]
  by (simp add: is_leaf_def leaf1_def expired_def grad_accumulator_def heap0_def)

text \<open>
  Claim C7: a guard captured with \<open>is_output\<close> stores no producing node. For such a guard
  of a value that is not a leaf, unpacked when the value has not been mutated since:
  without \<open>saved_for\<close>, \<open>unpack\<close> fails with \<open>MissingProducerError\<close>; with \<open>saved_for = f\<close> it
  returns the value bound to \<open>f\<close>, with the data and the output index of the captured one.
\<close>

theorem unpack_output_guard:
  "sv_grad_fn (SavedVariable h (variable :: 'a Variable) True) = None
   \<and> (\<not> is_leaf (v :: 'a variable_impl) \<longrightarrow>
        unpack (h\<lparr>h_alive := al\<rparr>) (SavedVariable h (Some v) True) None
          = Inl MissingProducerError
        \<and> (\<exists>var. unpack (h\<lparr>h_alive := al\<rparr>) (SavedVariable h (Some v) True) (Some f)
                    = Inr (Some var)
                  \<and> v_grad_fn var = Some f \<and> v_data var = v_data v
                  \<and> v_output_nr var = v_output_nr v))"
  by (auto simp: unpack_def SavedVariable_def SavedVariable_empty_def data_def is_modified_def
        save_def Let_def make_variable_fn_def is_leaf_def split: option.splits)

theorem unpack_output_guard_witness:
  "\<not> is_leaf nonleaf1
   \<and> unpack (heap0\<lparr>h_alive := h_alive heap0\<rparr>) (SavedVariable heap0 (Some nonleaf1) True) None
       = Inl MissingProducerError
   \<and> (\<exists>var. unpack (heap0\<lparr>h_alive := h_alive heap0\<rparr>)
               (SavedVariable heap0 (Some nonleaf1) True) (Some 9) = Inr (Some var)
             \<and> v_grad_fn var = Some 9 \<and> v_data var = v_data nonleaf1
             \<and> v_output_nr var = v_output_nr nonleaf1)"
  using unpack_output_guard [where v = nonleaf1 and h = heap0 and al = "h_alive heap0"
                               and f = 9 and variable = None]
  by (simp add: is_leaf_def nonleaf1_def)

text \<open>
  Claim C8: the guard of a leaf records the accumulator that the value gives at capture
  (for a leaf that requires grad, its sink node). When a guard that has data and is not
  stale rebuilds a leaf that requires grad, \<open>unpack\<close> fails with \<open>MissingAccumulatorError\<close>
  if the recorded accumulator has expired, and returns the value if it has not: where the
  graph keeps the accumulator alive, the failure cannot happen.
\<close>

theorem unpack_leaf_accumulator:
  "(is_leaf v \<longrightarrow>
      sv_grad_accumulator (SavedVariable h (Some v) is_output) = grad_accumulator v)
   \<and> (sv_data s \<noteq> None \<and> is_modified h' (sv_version s) = Inr False
        \<and> sv_requires_grad s \<and> \<not> sv_has_grad_fn s \<and> sv_grad_fn s = None
      \<longrightarrow> (expired h' (sv_grad_accumulator s)
             \<longrightarrow> unpack h' s saved_for = Inl MissingAccumulatorError)
        \<and> (\<not> expired h' (sv_grad_accumulator s)
             \<longrightarrow> (\<exists>var. unpack h' s saved_for = Inr (Some var))))"
  by (auto simp: unpack_def SavedVariable_def data_def
        save_def Let_def make_variable_leaf_def is_leaf_def split: option.splits)

theorem unpack_leaf_accumulator_witness:
  "is_leaf leaf1
   \<and> sv_data (SavedVariable heap0 (Some leaf1) False) \<noteq> None
   \<and> is_modified heap0 (sv_version (SavedVariable heap0 (Some leaf1) False)) = Inr False
   \<and> sv_requires_grad (SavedVariable heap0 (Some leaf1) False)
   \<and> \<not> sv_has_grad_fn (SavedVariable heap0 (Some leaf1) False)
   \<and> sv_grad_fn (SavedVariable heap0 (Some leaf1) False) = None
   \<and> \<not> expired heap0 (sv_grad_accumulator (SavedVariable heap0 (Some leaf1) False))
   \<and> expired (heap0\<lparr>h_alive := (h_alive heap0)(5 := False)\<rparr>)
         (sv_grad_accumulator (SavedVariable heap0 (Some leaf1) False))
   \<and> sv_grad_accumulator (SavedVariable heap0 (Some leaf1) False) = grad_accumulator leaf1
   \<and> unpack (heap0\<lparr>h_alive := (h_alive heap0)(5 := False)\<rparr>)
         (SavedVariable heap0 (Some leaf1) False) None = Inl MissingAccumulatorError
   \<and> (\<exists>var. unpack heap0 (SavedVariable heap0 (Some leaf1) False) None = Inr (Some var))"
  using unpack_leaf_accumulator
          [where v = leaf1 and h = heap0 and is_output = False and h' = heap0
             and s = "SavedVariable heap0 (Some leaf1) False" and saved_for = None]
        unpack_leaf_accumulator
          [where v = leaf1 and h = heap0 and is_output = False
             and h' = "heap0\<lparr>h_alive := (h_alive heap0)(5 := False)\<rparr>"
             and s = "SavedVariable heap0 (Some leaf1) False" and saved_for = None]
  by (simp add: is_leaf_def leaf1_def SavedVariable_def heap0_def data_def save_def
        is_modified_def expired_def grad_accumulator_def)


section \<open>Release, and the second backward pass\<close>

lemma unpack_Some_version_defined:
  "unpack h s saved_for = Inr (Some var) \<Longrightarrow> sv_defined (sv_version s)"
  by (auto simp: unpack_def sv_defined_def is_modified_def split: option.splits if_splits)

lemma ConvBackward_apply_Inr:
  assumes "ConvBackward_apply bld lib h n gos = Inr r"
  shows "sv_defined (sv_version (saved_input n)) \<and> sv_defined (sv_version (saved_weight n))
         \<and> \<not> is_padding_neg n \<and> \<not> is_output_padding_neg n"
proof -
  from assms obtain iv_opt wv_opt iv wv where
    "unpack h (saved_input n) None = Inr iv_opt" "deref iv_opt = Inr iv"
    "unpack h (saved_weight n) None = Inr wv_opt" "deref wv_opt = Inr wv"
    "\<not> is_padding_neg n" "\<not> is_output_padding_neg n"
    by (auto simp: ConvBackward_apply_def bind_def split: sum.splits if_splits)
  then show ?thesis
    by (auto simp: deref_def split: option.splits dest: unpack_Some_version_defined)
qed

lemma released_params:
  "is_padding_neg (ConvBackward_releaseVariables n) = is_padding_neg n"
  "is_output_padding_neg (ConvBackward_releaseVariables n) = is_output_padding_neg n"
  by (simp_all add: ConvBackward_releaseVariables_def is_padding_neg_def
      is_output_padding_neg_def)

lemma ConvBackward_apply_released:
  assumes "sv_defined (sv_version (saved_input n))"
    and "check_input_variables gos 1 1 = Inr ()"
    and "\<not> is_padding_neg n" and "\<not> is_output_padding_neg n"
  shows "ConvBackward_apply bld lib h (ConvBackward_releaseVariables n) gos
           = Inl ReusedAfterReleaseError"
  using assms
  by (simp add: ConvBackward_apply_def bind_def released_params)
     (simp add: ConvBackward_releaseVariables_def unpack_released)

lemma apply_twice:
  assumes "\<not> keep_graph f" and "stage f \<noteq> length (stage_details f)"
  shows "snd (InterpreterAutogradFunction_apply lib' h' fresh'
                (fst (InterpreterAutogradFunction_apply lib h fresh f inputs)) inputs')
         = Inl ReusedAfterReleaseError"
  using assms
  by (auto simp: InterpreterAutogradFunction_apply_def Let_def split: sum.splits)

lemma conv_node_pass:
  "ConvBackward_apply cpu_build stub heap0 conv_node [Some (leaf_of grad1 12)]
     = Inr [Some \<lparr>t_type = CPUFloat, t_sizes = [2], t_elems = [3, 4]\<rparr>,
            Some \<lparr>t_type = CPUFloat, t_sizes = [2], t_elems = [5, 6]\<rparr>, None]"
  by code_simp

text \<open>
  Claim C1, as stated: for every snapshot guard whose node has been released, a later
  \<open>unpack\<close> fails with \<open>ReusedAfterReleaseError\<close>. It fails for the guard of an undefined
  value (the bias of a convolution without bias): it holds no version, and after the
  release \<open>unpack\<close> returns the undefined value as before.
\<close>

theorem released_empty_guard_unpacks:
  "unpack heap0 (reset_data (SavedVariable heap0 (None :: int Variable) False)) None = Inr None"
  by (rule unpack_empty_released)

text \<open>
  Claim C1, amended: for every snapshot guard that captured a defined value (so that a
  version is recorded) and whose data has been released, \<open>unpack\<close> fails with
  \<open>ReusedAfterReleaseError\<close>; after a backward pass over a convolution node without the
  retain option that succeeded, a second pass fails with that error; and \<open>apply\<close> of a
  node of the staged interpreter that is not kept fails with that error when it is
  invoked a second time.
\<close>

theorem second_backward_fails:
  "(sv_defined (sv_version s) \<longrightarrow>
      unpack h (reset_data s) saved_for = Inl ReusedAfterReleaseError)
   \<and> sv_defined (sv_version (SavedVariable h0 (Some v) is_output))
   \<and> (fst (backward_pass False bld lib h1 n gos) = Inr r
        \<and> check_input_variables gos' 1 1 = Inr ()
      \<longrightarrow> fst (backward_pass False bld' lib' h2
                  (snd (backward_pass False bld lib h1 n gos)) gos')
            = Inl ReusedAfterReleaseError)
   \<and> (\<not> keep_graph f \<and> stage f \<noteq> length (stage_details f)
      \<longrightarrow> snd (InterpreterAutogradFunction_apply jit2 h4 fresh2
                  (fst (InterpreterAutogradFunction_apply jit1 h3 fresh1 f inputs1)) inputs2)
            = Inl ReusedAfterReleaseError)"
proof (intro conjI impI)
  show "sv_defined (sv_version s) \<Longrightarrow>
        unpack h (reset_data s) saved_for = Inl ReusedAfterReleaseError"
    by (rule unpack_released)
  show "sv_defined (sv_version (SavedVariable h0 (Some v) is_output))"
    by (rule captured_version_defined)
next
  assume a: "fst (backward_pass False bld lib h1 n gos) = Inr r
             \<and> check_input_variables gos' 1 1 = Inr ()"
  then have ok: "ConvBackward_apply bld lib h1 n gos = Inr r"
    by (auto simp: backward_pass_def split: sum.splits)
  then have n': "snd (backward_pass False bld lib h1 n gos) = ConvBackward_releaseVariables n"
    by (simp add: backward_pass_def)
  from ConvBackward_apply_Inr [OF ok] a
  have "ConvBackward_apply bld' lib' h2 (ConvBackward_releaseVariables n) gos'
          = Inl ReusedAfterReleaseError"
    by (intro ConvBackward_apply_released) simp_all
  then show "fst (backward_pass False bld' lib' h2
                  (snd (backward_pass False bld lib h1 n gos)) gos')
            = Inl ReusedAfterReleaseError"
    unfolding n' by (simp add: backward_pass_def)
next
  assume "\<not> keep_graph f \<and> stage f \<noteq> length (stage_details f)"
  then show "snd (InterpreterAutogradFunction_apply jit2 h4 fresh2
                  (fst (InterpreterAutogradFunction_apply jit1 h3 fresh1 f inputs1)) inputs2)
            = Inl ReusedAfterReleaseError"
    by (intro apply_twice) simp_all
qed

theorem second_backward_fails_witness:
  "sv_defined (sv_version (SavedVariable heap0 (Some leaf1) False))
   \<and> unpack heap0 (reset_data (SavedVariable heap0 (Some leaf1) False)) None
        = Inl ReusedAfterReleaseError
   \<and> fst (backward_pass False cpu_build stub heap0 conv_node [Some (leaf_of grad1 12)])
        = Inr [Some \<lparr>t_type = CPUFloat, t_sizes = [2], t_elems = [3, 4]\<rparr>,
               Some \<lparr>t_type = CPUFloat, t_sizes = [2], t_elems = [5, 6]\<rparr>, None]
   \<and> check_input_variables [Some (leaf_of grad1 12)] 1 1 = Inr ()
   \<and> fst (backward_pass False cpu_build stub heap0
            (snd (backward_pass False cpu_build stub heap0 conv_node [Some (leaf_of grad1 12)]))
            [Some (leaf_of grad1 12)])
        = Inl ReusedAfterReleaseError
   \<and> \<not> keep_graph staged0 \<and> stage staged0 \<noteq> length (stage_details staged0)
   \<and> snd (InterpreterAutogradFunction_apply stub_jit heap0 20
            (fst (InterpreterAutogradFunction_apply stub_jit heap0 20 staged0 [Some leaf1]))
            [Some leaf1])
        = Inl ReusedAfterReleaseError"
proof -
  have p: "fst (backward_pass False cpu_build stub heap0 conv_node [Some (leaf_of grad1 12)])
        = Inr [Some \<lparr>t_type = CPUFloat, t_sizes = [2], t_elems = [3, 4]\<rparr>,
               Some \<lparr>t_type = CPUFloat, t_sizes = [2], t_elems = [5, 6]\<rparr>, None]"
    by (simp add: backward_pass_def conv_node_pass)
  have c: "check_input_variables [Some (leaf_of grad1 12)] 1 1 = Inr ()"
    by (simp add: check_input_variables_def)
  have k: "\<not> keep_graph staged0 \<and> stage staged0 \<noteq> length (stage_details staged0)"
    by (simp add: staged0_def)
  note t = second_backward_fails [where s = "SavedVariable heap0 (Some leaf1) False" and h = heap0
                 and saved_for = None and ?h0.0 = heap0 and v = leaf1 and is_output = False
                 and bld = cpu_build and lib = stub and ?h1.0 = heap0 and n = conv_node
                 and gos = "[Some (leaf_of grad1 12)]" and gos' = "[Some (leaf_of grad1 12)]"
                 and bld' = cpu_build and lib' = stub and ?h2.0 = heap0
                 and f = staged0 and ?jit1.0 = stub_jit and ?jit2.0 = stub_jit
                 and ?h3.0 = heap0 and ?h4.0 = heap0 and ?fresh1.0 = 20 and ?fresh2.0 = 20
                 and ?inputs1.0 = "[Some leaf1]" and ?inputs2.0 = "[Some leaf1]"
                 and r = "[Some \<lparr>t_type = CPUFloat, t_sizes = [2], t_elems = [3, 4]\<rparr>,
               Some \<lparr>t_type = CPUFloat, t_sizes = [2], t_elems = [5, 6]\<rparr>, None]"]
  from t p c k show ?thesis by simp
qed


section \<open>The staged interpreter: the compiled stages and the inputs of a stage\<close>

lemma make_grad_fn_last:
  "stage f + 1 = length (stage_details f) \<Longrightarrow>
   make_grad_fn h fresh f ip details inputs nb =
     Inr \<lparr>interp = ip, stage_details = stage_details f, stage = length (stage_details f),
          used = False, keep_graph = True, num_inputs = int nb, next_functions = []\<rparr>"
  by (simp add: make_grad_fn_def)

lemma apply_beyond:
  "stage g = length (stage_details g) \<Longrightarrow> length (stage_details g) = Suc N \<Longrightarrow>
   InterpreterAutogradFunction_apply lib h fresh g inputs = (g, Inl (DerivativeLimitError N))"
  by (auto simp: InterpreterAutogradFunction_apply_def)

lemma validate_inputs_no_limit:
  "validate_inputs lib ip flags i inputs \<noteq> Inl (DerivativeLimitError n)"
  by (induction inputs arbitrary: i) (auto simp: Let_def bind_def split: sum.splits)

lemma at_index_no_limit: "at_index xs i \<noteq> Inl (DerivativeLimitError n)"
  by (simp add: at_index_def)

lemma mapM_no_limit:
  "(\<And>x. f x \<noteq> Inl (DerivativeLimitError n)) \<Longrightarrow> mapM f xs \<noteq> Inl (DerivativeLimitError n)"
  by (induction xs) (auto simp: bind_def split: sum.splits)

lemma input_edges_no_limit:
  "input_edges h fresh details i inputs \<noteq> Inl (DerivativeLimitError n)"
  by (induction inputs arbitrary: i fresh)
     (auto simp: bind_def at_index_def split: sum.splits option.splits if_splits)

lemma make_grad_fn_no_limit:
  "make_grad_fn h fresh f ip details inputs nb \<noteq> Inl (DerivativeLimitError n)"
  by (auto simp: make_grad_fn_def bind_def Let_def mapM_no_limit at_index_no_limit
        input_edges_no_limit split: sum.splits)

lemma apply_stage_no_limit:
  "apply_stage lib h fresh f inputs \<noteq> Inl (DerivativeLimitError n)"
  by (auto simp: apply_stage_def wrap_the_outputs_def bind_def at_index_def raised_def Let_def
        validate_inputs_no_limit make_grad_fn_no_limit
      split: sum.splits option.splits prod.splits if_splits)

lemma apply_within:
  "stage f \<noteq> length (stage_details f) \<Longrightarrow>
   snd (InterpreterAutogradFunction_apply lib h fresh f inputs) \<noteq> Inl (DerivativeLimitError n)"
  by (auto simp: InterpreterAutogradFunction_apply_def Let_def apply_stage_no_limit
      split: sum.splits)

lemma apply_stage_grad_fn:
  assumes "apply_stage lib h fresh f inputs = Inr r"
  shows "(list_ex vf_requires_grad (output_flags (stage_details f ! stage f)) \<longrightarrow> grad_fn r \<noteq> None)
       \<and> (\<forall>g. grad_fn r = Some g \<longrightarrow> stage g = stage f + 1 \<and> stage_details g = stage_details f
             \<and> \<not> used g
             \<and> (stage f + 1 = length (stage_details f) \<longrightarrow> next_functions g = []))"
  using assms
  by (auto simp: apply_stage_def wrap_the_outputs_def bind_def at_index_def raised_def Let_def make_grad_fn_def list_ex_iff
      split: sum.splits option.splits prod.splits if_splits)

lemma apply_grad_fn:
  assumes "snd (InterpreterAutogradFunction_apply lib h fresh f inputs) = Inr r"
  shows "(list_ex vf_requires_grad (output_flags (stage_details f ! stage f)) \<longrightarrow> grad_fn r \<noteq> None)
       \<and> (\<forall>g. grad_fn r = Some g \<longrightarrow> stage g = stage f + 1 \<and> stage_details g = stage_details f
             \<and> \<not> used g
             \<and> (stage f + 1 = length (stage_details f) \<longrightarrow> next_functions g = []))"
proof -
  from assms have "apply_stage lib h fresh (f\<lparr>used := (used f \<or> \<not> keep_graph f)\<rparr>) inputs = Inr r"
    by (auto simp: InterpreterAutogradFunction_apply_def Let_def split: sum.splits if_splits)
  from apply_stage_grad_fn [OF this] show ?thesis by simp
qed

text \<open>
  Claim C4: let a program be compiled for \<open>N\<close> derivatives (stages \<open>0, ..., N\<close>). No
  \<open>apply\<close> at a stage up to \<open>N\<close> raises the derivative-limit error, and the node it makes is
  bound to the next stage. At the last stage \<open>N\<close> the node of stage \<open>N + 1\<close> is constructed
  without an error and without edges; when an output requires grad and \<open>apply\<close> returns,
  it returns that node, and every \<open>apply\<close> of that node fails with the derivative-limit
  error ("compiled only for \<open>N\<close> derivatives").
\<close>

theorem derivative_limit_deferred:
  assumes "length (stage_details f) = Suc N"
  shows
  "(stage f \<le> N \<longrightarrow>
      snd (InterpreterAutogradFunction_apply (lib :: ('i, 'a::zero) jit) h fresh f inputs)
        \<noteq> Inl (DerivativeLimitError n))
   \<and> (snd (InterpreterAutogradFunction_apply lib h fresh f inputs) = Inr r \<and> grad_fn r = Some g
        \<longrightarrow> stage g = stage f + 1 \<and> stage_details g = stage_details f)
   \<and> (stage f = N \<longrightarrow>
        (\<exists>g. make_grad_fn h fresh f ip details inputs nb = Inr g \<and> next_functions g = [])
        \<and> (snd (InterpreterAutogradFunction_apply lib h fresh f inputs) = Inr r
             \<and> list_ex vf_requires_grad (output_flags (stage_details f ! N))
           \<longrightarrow> (\<exists>g. grad_fn r = Some g \<and> stage g = Suc N \<and> next_functions g = []
                  \<and> (\<forall>lib' h' fresh' inputs'.
                        InterpreterAutogradFunction_apply (lib' :: ('i, 'a::zero) jit) h' fresh' g inputs'
                          = (g, Inl (DerivativeLimitError N))))))"
proof (intro conjI impI)
  assume "stage f \<le> N"
  with assms show "snd (InterpreterAutogradFunction_apply lib h fresh f inputs)
                     \<noteq> Inl (DerivativeLimitError n)"
    by (intro apply_within) simp
next
  assume "snd (InterpreterAutogradFunction_apply lib h fresh f inputs) = Inr r \<and> grad_fn r = Some g"
  with apply_grad_fn [of lib h fresh f inputs r]
  show "stage g = stage f + 1" and "stage_details g = stage_details f" by auto
next
  assume "stage f = N"
  with assms show "\<exists>g. make_grad_fn h fresh f ip details inputs nb = Inr g \<and> next_functions g = []"
    by (simp add: make_grad_fn_last)
next
  assume N: "stage f = N"
    and r: "snd (InterpreterAutogradFunction_apply lib h fresh f inputs) = Inr r
            \<and> list_ex vf_requires_grad (output_flags (stage_details f ! N))"
  from apply_grad_fn [of lib h fresh f inputs r] r N assms
  obtain g where g: "grad_fn r = Some g" "stage g = Suc N" "stage_details g = stage_details f"
      "next_functions g = []"
    by auto
  have "InterpreterAutogradFunction_apply lib' h' fresh' g inputs'
          = (g, Inl (DerivativeLimitError N))" for lib' :: "('i, 'a) jit" and h' fresh' inputs'
    using g assms by (intro apply_beyond) simp_all
  with g show "\<exists>g. grad_fn r = Some g \<and> stage g = Suc N \<and> next_functions g = []
                  \<and> (\<forall>lib' h' fresh' inputs'.
                        InterpreterAutogradFunction_apply (lib' :: ('i, 'a::zero) jit) h' fresh' g inputs'
                          = (g, Inl (DerivativeLimitError N)))"
    by blast
qed


lemma staged1_run:
  "snd (InterpreterAutogradFunction_apply stub_jit heap0 20 staged1 [Some (leaf_of tensor1 3)])
     = Inr \<lparr>result = [(Some tensor1, Some 20)],
            grad_fn = Some \<lparr>interp = 2, stage_details = [details0, details1], stage = 2,
                            used = False, keep_graph = True, num_inputs = 1,
                            next_functions = []\<rparr>,
            ran = 2\<rparr>"
  by code_simp

theorem derivative_limit_deferred_witness:
  "length (stage_details staged1) = Suc 1 \<and> stage staged1 = 1
   \<and> list_ex vf_requires_grad (output_flags (stage_details staged1 ! 1))
   \<and> snd (InterpreterAutogradFunction_apply stub_jit heap0 20 staged1 [Some (leaf_of tensor1 3)])
     = Inr \<lparr>result = [(Some tensor1, Some 20)], grad_fn = Some staged2, ran = 2\<rparr>
   \<and> stage staged2 = Suc 1 \<and> next_functions staged2 = []
   \<and> InterpreterAutogradFunction_apply stub_jit heap0 30 staged2 [Some (leaf_of tensor1 4)]
             = (staged2, Inl (DerivativeLimitError 1))"
proof -
  have a: "length (stage_details staged1) = Suc 1" "stage staged1 = 1"
    "list_ex vf_requires_grad (output_flags (stage_details staged1 ! 1))"
    by (simp_all add: staged1_def details1_def)
  have run: "snd (InterpreterAutogradFunction_apply stub_jit heap0 20 staged1 [Some (leaf_of tensor1 3)])
     = Inr \<lparr>result = [(Some tensor1, Some 20)], grad_fn = Some staged2, ran = 2\<rparr>"
    using staged1_run by (simp add: staged2_def)
  note t = derivative_limit_deferred [OF a(1), where lib = stub_jit and h = heap0 and fresh = 20
      and inputs = "[Some (leaf_of tensor1 3)]"
      and r = "\<lparr>result = [(Some tensor1, Some 20)], grad_fn = Some staged2, ran = 2\<rparr>"
      and g = staged2 and ip = 2 and details = details1 and nb = 1 and n = 0]
  from t a run have
    "\<exists>g. Some staged2 = Some g \<and> stage g = Suc 1 \<and> next_functions g = []
         \<and> (\<forall>lib' h' fresh' inputs'.
               InterpreterAutogradFunction_apply (lib' :: (nat, int) jit) h' fresh' g inputs'
                 = (g, Inl (DerivativeLimitError 1)))"
    by simp
  then have "stage staged2 = Suc 1 \<and> next_functions staged2 = []
     \<and> InterpreterAutogradFunction_apply stub_jit heap0 30 staged2 [Some (leaf_of tensor1 4)]
             = (staged2, Inl (DerivativeLimitError 1))"
    by blast
  with a run show ?thesis by simp
qed


lemma validate_inputs_mismatch:
  "\<exists>j<length inputs. mismatched (inputs ! j) (flags ! (i + j)) \<Longrightarrow>
   \<exists>m. validate_inputs lib ip flags i inputs = Inl (StageMismatchError m)"
proof (induction inputs arbitrary: i)
  case Nil
  then show ?case by simp
next
  case (Cons inp rest)
  show ?case
  proof (cases "mismatched inp (flags ! i)")
    case True
    then show ?thesis
      by (auto simp: mismatched_def VariableFlags_of_def Let_def)
  next
    case False
    from Cons.prems obtain j where j: "j < length (inp # rest)"
      "mismatched ((inp # rest) ! j) (flags ! (i + j))" by blast
    with False obtain j' where "j = Suc j'" by (cases j) auto
    with j have "\<exists>j<length rest. mismatched (rest ! j) (flags ! (Suc i + j))" by auto
    from Cons.IH [OF this] obtain m where
      "validate_inputs lib ip flags (Suc i) rest = Inl (StageMismatchError m)" by blast
    with False show ?thesis
      by (auto simp: mismatched_def VariableFlags_of_def Let_def bind_def)
  qed
qed

lemma validate_inputs_ok:
  "\<not> (\<exists>j<length inputs. mismatched (inputs ! j) (flags ! (i + j))) \<Longrightarrow>
   validate_inputs lib ip flags i inputs =
     Inr (map (\<lambda>j. if inputs ! j = None \<and> vf_defined (flags ! (i + j))
                    then zeroTensorWithType (tensorTypeForInput lib ip (i + j))
                    else opt_data (inputs ! j)) [0..<length inputs])"
proof (induction inputs arbitrary: i)
  case Nil
  then show ?case by simp
next
  case (Cons inp rest)
  from Cons.prems have here: "\<not> mismatched inp (flags ! i)" by fastforce
  from Cons.prems have "\<not> (\<exists>j<length rest. mismatched (rest ! j) (flags ! (Suc i + j)))"
    by fastforce
  from Cons.IH [OF this] have rest:
    "validate_inputs lib ip flags (Suc i) rest =
       Inr (map (\<lambda>j. if rest ! j = None \<and> vf_defined (flags ! (Suc i + j))
                    then zeroTensorWithType (tensorTypeForInput lib ip (Suc i + j))
                    else opt_data (rest ! j)) [0..<length rest])" .
  have shift: "[0..<length (inp # rest)] = 0 # map Suc [0..<length rest]"
    by (simp add: upt_conv_Cons map_Suc_upt del: upt_Suc)
  show ?case
    unfolding shift using here rest
    by (auto simp: mismatched_def VariableFlags_of_def Let_def bind_def opt_data_def comp_def
        split: option.splits)
qed

lemma zeroTensorWithType_zero:
  "\<exists>z. zeroTensorWithType ty = Some z
     \<and> is_cuda (t_type z) = (\<not> tt_device ty < 0) \<and> scalarType (t_type z) = tt_scalarType ty
     \<and> t_sizes z = tt_sizes ty
     \<and> t_elems z = replicate (nat (prod_list (tt_sizes ty))) 0"
  by (simp add: zeroTensorWithType_def)

text \<open>
  Claim C5: let \<open>apply\<close> reach the validation of its inputs (the stage is compiled, the
  node not yet used, the number of inputs as expected). If at some position the live
  input is defined and the stage was compiled with it undefined, or the live input
  requires grad and the stage was compiled with \<open>requires_grad\<close> false, \<open>apply\<close> fails with
  \<open>StageMismatchError\<close>. Otherwise the stage runs on these tensors: at a position where
  the stage expects a defined input and the live one is undefined, the tensor that
  \<^const>\<open>zeroTensorWithType\<close> makes of the traced type; at any other position the data of
  the live input. That tensor is on the traced device, of the traced scalar type and
  the traced sizes, and holds as many elements as the sizes say, every one of them zero.
\<close>

theorem stage_input_contract:
  assumes "stage f < length (stage_details f)" and "\<not> used f"
    and "int (length inputs) = num_inputs f"
    and "length inputs = length (input_flags (stage_details f ! stage f))"
  shows
  "((\<exists>i<length inputs. mismatched (inputs ! i) (input_flags (stage_details f ! stage f) ! i))
      \<longrightarrow> (\<exists>m. snd (InterpreterAutogradFunction_apply lib h fresh f inputs)
                  = Inl (StageMismatchError m)))
   \<and> (\<not> (\<exists>i<length inputs. mismatched (inputs ! i) (input_flags (stage_details f ! stage f) ! i))
      \<longrightarrow> validate_inputs lib (interp f) (input_flags (stage_details f ! stage f)) 0 inputs
            = Inr (map (tensor_for lib (interp f) (input_flags (stage_details f ! stage f)) inputs)
                       [0..<length inputs])
          \<and> snd (InterpreterAutogradFunction_apply lib h fresh f inputs)
            = bind (raised (runOneStage lib (interp f)
                      (map (tensor_for lib (interp f) (input_flags (stage_details f ! stage f)) inputs)
                           [0..<length inputs])))
                (\<lambda>(ip, toutputs).
                   wrap_the_outputs h fresh (f\<lparr>used := \<not> keep_graph f\<rparr>)
                     (stage_details f ! stage f) inputs ip toutputs))
   \<and> (\<exists>z. zeroTensorWithType ty = Some (z :: 'a::zero tensor_impl)
          \<and> is_cuda (t_type z) = (\<not> tt_device ty < 0) \<and> scalarType (t_type z) = tt_scalarType ty
          \<and> t_sizes z = tt_sizes ty
          \<and> t_elems z = replicate (nat (prod_list (tt_sizes ty))) 0)"
proof (intro conjI impI)
  assume "\<exists>i<length inputs. mismatched (inputs ! i) (input_flags (stage_details f ! stage f) ! i)"
  then have "\<exists>j<length inputs. mismatched (inputs ! j) (input_flags (stage_details f ! stage f) ! (0 + j))"
    by simp
  from validate_inputs_mismatch [OF this, where lib = lib and ip = "interp f"] obtain m where
    "validate_inputs lib (interp f) (input_flags (stage_details f ! stage f)) 0 inputs
       = Inl (StageMismatchError m)" by blast
  with assms show "\<exists>m. snd (InterpreterAutogradFunction_apply lib h fresh f inputs)
                  = Inl (StageMismatchError m)"
    by (auto simp: InterpreterAutogradFunction_apply_def apply_stage_def bind_def at_index_def Let_def)
next
  assume ok: "\<not> (\<exists>i<length inputs. mismatched (inputs ! i) (input_flags (stage_details f ! stage f) ! i))"
  then have "\<not> (\<exists>j<length inputs. mismatched (inputs ! j) (input_flags (stage_details f ! stage f) ! (0 + j)))"
    by simp
  from validate_inputs_ok [OF this, where lib = lib and ip = "interp f"]
  show v: "validate_inputs lib (interp f) (input_flags (stage_details f ! stage f)) 0 inputs
            = Inr (map (tensor_for lib (interp f) (input_flags (stage_details f ! stage f)) inputs)
                       [0..<length inputs])"
    by (simp add: tensor_for_def [abs_def])
  from assms v
  show "snd (InterpreterAutogradFunction_apply lib h fresh f inputs)
            = bind (raised (runOneStage lib (interp f)
                      (map (tensor_for lib (interp f) (input_flags (stage_details f ! stage f)) inputs)
                           [0..<length inputs])))
                (\<lambda>(ip, toutputs).
                   wrap_the_outputs h fresh (f\<lparr>used := \<not> keep_graph f\<rparr>)
                     (stage_details f ! stage f) inputs ip toutputs)"
    by (auto simp: InterpreterAutogradFunction_apply_def apply_stage_def bind_def at_index_def Let_def
        split: sum.splits)
next
  show "\<exists>z. zeroTensorWithType ty = Some (z :: 'a tensor_impl)
          \<and> is_cuda (t_type z) = (\<not> tt_device ty < 0) \<and> scalarType (t_type z) = tt_scalarType ty
          \<and> t_sizes z = tt_sizes ty
          \<and> t_elems z = replicate (nat (prod_list (tt_sizes ty))) 0"
    by (rule zeroTensorWithType_zero)
qed


theorem stage_input_contract_witness:
  "stage staged0 < length (stage_details staged0) \<and> \<not> used staged0
   \<and> int (length [None :: int Variable]) = num_inputs staged0
   \<and> length [None :: int Variable] = length (input_flags (stage_details staged0 ! stage staged0))
   \<and> mismatched (Some (leaf_of tensor1 3)) (input_flags (stage_details staged1 ! stage staged1) ! 0) = False
   \<and> mismatched (Some leaf1) (input_flags (stage_details staged1 ! stage staged1) ! 0)
   \<and> (\<exists>m. snd (InterpreterAutogradFunction_apply stub_jit heap0 20 staged1 [Some leaf1])
              = Inl (StageMismatchError m))
   \<and> validate_inputs stub_jit (interp staged0) (input_flags (stage_details staged0 ! stage staged0))
         0 [None]
       = Inr [Some \<lparr>t_type = CPUFloat, t_sizes = [2], t_elems = [0, 0]\<rparr>]
   \<and> validate_inputs stub_jit (interp staged1) (input_flags (stage_details staged1 ! stage staged1))
         0 [Some (leaf_of tensor1 3)]
       = Inr [Some tensor1]
   \<and> zeroTensorWithType \<lparr>tt_device = 0, tt_scalarType = Double, tt_sizes = [2, 3]\<rparr>
       = Some \<lparr>t_type = \<lparr>is_cuda = True, scalarType = Double\<rparr>, t_sizes = [2, 3],
               t_elems = [0, 0, 0, 0, 0, 0 :: int]\<rparr>"
proof -
  have a0: "stage staged0 < length (stage_details staged0)" "\<not> used staged0"
    "int (length [None :: int Variable]) = num_inputs staged0"
    "length [None :: int Variable] = length (input_flags (stage_details staged0 ! stage staged0))"
    by (simp_all add: staged0_def details0_def)
  have a1: "stage staged1 < length (stage_details staged1)" "\<not> used staged1"
    "int (length [Some leaf1]) = num_inputs staged1"
    "length [Some leaf1] = length (input_flags (stage_details staged1 ! stage staged1))"
    "int (length [Some (leaf_of tensor1 3)]) = num_inputs staged1"
    "length [Some (leaf_of tensor1 3)] = length (input_flags (stage_details staged1 ! stage staged1))"
    by (simp_all add: staged1_def details1_def)
  have m0: "\<not> (\<exists>i<length [None :: int Variable].
               mismatched ([None] ! i) (input_flags (stage_details staged0 ! stage staged0) ! i))"
    by (simp add: mismatched_def VariableFlags_of_def)
  have m1: "\<exists>i<length [Some leaf1].
               mismatched ([Some leaf1] ! i) (input_flags (stage_details staged1 ! stage staged1) ! i)"
    by (simp add: mismatched_def VariableFlags_of_def staged1_def details1_def leaf1_def)
  have m2: "\<not> (\<exists>i<length [Some (leaf_of tensor1 3)].
               mismatched ([Some (leaf_of tensor1 3)] ! i) (input_flags (stage_details staged1 ! stage staged1) ! i))"
    by (simp add: mismatched_def VariableFlags_of_def staged1_def details1_def leaf_of_def
        make_variable_leaf_def)
  note t0 = stage_input_contract [OF a0, where lib = stub_jit and h = heap0 and fresh = 20
      and ty = "\<lparr>tt_device = 0, tt_scalarType = Double, tt_sizes = [2, 3]\<rparr>"]
  from t0 obtain z :: "int tensor_impl" where z:
    "zeroTensorWithType \<lparr>tt_device = 0, tt_scalarType = Double, tt_sizes = [2, 3]\<rparr> = Some z"
    "is_cuda (t_type z)" "scalarType (t_type z) = Double" "t_sizes z = [2, 3]"
    "t_elems z = replicate (nat (prod_list [2, 3])) 0"
    by auto
  have "z = \<lparr>t_type = \<lparr>is_cuda = True, scalarType = Double\<rparr>, t_sizes = [2, 3],
             t_elems = [0, 0, 0, 0, 0, 0]\<rparr>"
    using z(2-5) by (cases z, cases "t_type z") (simp add: eval_nat_numeral)
  with z(1) have zt:
    "zeroTensorWithType \<lparr>tt_device = 0, tt_scalarType = Double, tt_sizes = [2, 3]\<rparr>
       = Some \<lparr>t_type = \<lparr>is_cuda = True, scalarType = Double\<rparr>, t_sizes = [2, 3],
               t_elems = [0, 0, 0, 0, 0, 0 :: int]\<rparr>"
    by simp
  note t1 = stage_input_contract [OF a1(1-4), where lib = stub_jit and h = heap0 and fresh = 20]
  note t2 = stage_input_contract [OF a1(1,2,5,6), where lib = stub_jit and h = heap0 and fresh = 20]
  from t0 m0 have v0': "validate_inputs stub_jit (interp staged0)
        (input_flags (stage_details staged0 ! stage staged0)) 0 [None]
       = Inr (map (tensor_for stub_jit (interp staged0)
                     (input_flags (stage_details staged0 ! stage staged0)) [None])
                  [0..<length [None :: int Variable]])"
    by blast
  have r0: "map (tensor_for stub_jit (interp staged0)
                     (input_flags (stage_details staged0 ! stage staged0)) [None])
                  [0..<length [None :: int Variable]]
            = [Some \<lparr>t_type = CPUFloat, t_sizes = [2], t_elems = [0, 0]\<rparr>]"
    by (simp add: tensor_for_def staged0_def details0_def stub_jit_def stub_type_def
        zeroTensorWithType_def CPUFloat_def eval_nat_numeral)
  from t1 m1 have e1: "\<exists>m. snd (InterpreterAutogradFunction_apply stub_jit heap0 20 staged1 [Some leaf1])
              = Inl (StageMismatchError m)"
    by blast
  from t2 m2 have v2': "validate_inputs stub_jit (interp staged1)
        (input_flags (stage_details staged1 ! stage staged1)) 0 [Some (leaf_of tensor1 3)]
       = Inr (map (tensor_for stub_jit (interp staged1)
                     (input_flags (stage_details staged1 ! stage staged1)) [Some (leaf_of tensor1 3)])
                  [0..<length [Some (leaf_of tensor1 3)]])"
    by blast
  have r2: "map (tensor_for stub_jit (interp staged1)
                     (input_flags (stage_details staged1 ! stage staged1)) [Some (leaf_of tensor1 3)])
                  [0..<length [Some (leaf_of tensor1 3)]]
            = [Some tensor1]"
    by (simp add: tensor_for_def opt_data_def data_def leaf_of_def make_variable_leaf_def)
  from m1 m2 have mm:
    "mismatched (Some (leaf_of tensor1 3)) (input_flags (stage_details staged1 ! stage staged1) ! 0) = False"
    "mismatched (Some leaf1) (input_flags (stage_details staged1 ! stage staged1) ! 0)"
    by simp_all
  from a0 mm e1 v0' [unfolded r0] v2' [unfolded r2] zt show ?thesis by (intro conjI)

qed


section \<open>The life of a guard\<close>

text \<open>
  Claim C9, as stated: without the retain option, after the first use of a guard its
  node releases it, and every later \<open>unpack\<close> of that guard fails. It fails for the guard
  of the bias of a convolution without bias: the pass succeeds, the node is released, and
  \<open>unpack\<close> of that guard returns the undefined value, as it did during the pass.
\<close>

theorem released_bias_guard_unpacks:
  "fst (backward_pass False cpu_build stub heap0 conv_node [Some (leaf_of grad1 12)])
     = Inr [Some \<lparr>t_type = CPUFloat, t_sizes = [2], t_elems = [3, 4]\<rparr>,
            Some \<lparr>t_type = CPUFloat, t_sizes = [2], t_elems = [5, 6]\<rparr>, None]
   \<and> unpack heap0
        (saved_bias (snd (backward_pass False cpu_build stub heap0 conv_node
                            [Some (leaf_of grad1 12)]))) None
     = Inr None"
  by (simp add: backward_pass_def conv_node_pass)
     (simp add: ConvBackward_releaseVariables_def conv_node_def unpack_empty_released)

text \<open>
  Claim C9, amended: after a backward pass over a convolution node without the retain
  option that succeeded, every later \<open>unpack\<close> of a guard of the node that captured a
  defined value fails with \<open>ReusedAfterReleaseError\<close> (the guards of the input and of the
  weight always, that of the bias when there is a bias); \<open>unpack\<close> records nothing in the
  guard, and a pass that retains the graph leaves the node as it was.
\<close>

theorem guards_single_use:
  "(fst (backward_pass False bld lib h n gos) = Inr r \<longrightarrow>
      unpack h' (saved_input (snd (backward_pass False bld lib h n gos))) saved_for
        = Inl ReusedAfterReleaseError
      \<and> unpack h' (saved_weight (snd (backward_pass False bld lib h n gos))) saved_for
        = Inl ReusedAfterReleaseError
      \<and> (sv_defined (sv_version (saved_bias n)) \<longrightarrow>
           unpack h' (saved_bias (snd (backward_pass False bld lib h n gos))) saved_for
             = Inl ReusedAfterReleaseError))
   \<and> snd (backward_pass True bld lib h n gos) = n"
proof (intro conjI impI)
  assume "fst (backward_pass False bld lib h n gos) = Inr r"
  then have ok: "ConvBackward_apply bld lib h n gos = Inr r"
    by (auto simp: backward_pass_def split: sum.splits)
  then have n': "snd (backward_pass False bld lib h n gos) = ConvBackward_releaseVariables n"
    by (simp add: backward_pass_def)
  from ConvBackward_apply_Inr [OF ok]
  show "unpack h' (saved_input (snd (backward_pass False bld lib h n gos))) saved_for
        = Inl ReusedAfterReleaseError"
    and "unpack h' (saved_weight (snd (backward_pass False bld lib h n gos))) saved_for
        = Inl ReusedAfterReleaseError"
    unfolding n' by (simp_all add: ConvBackward_releaseVariables_def unpack_released)
  assume "sv_defined (sv_version (saved_bias n))"
  then show "unpack h' (saved_bias (snd (backward_pass False bld lib h n gos))) saved_for
             = Inl ReusedAfterReleaseError"
    unfolding n' by (simp add: ConvBackward_releaseVariables_def unpack_released)
next
  show "snd (backward_pass True bld lib h n gos) = n"
    by (simp add: backward_pass_def split: sum.splits)
qed

lemma conv_node_bias_pass:
  "ConvBackward_apply cpu_build stub heap0 conv_node_bias [Some (leaf_of grad1 12)]
     = Inr [Some \<lparr>t_type = CPUFloat, t_sizes = [2], t_elems = [3, 4]\<rparr>,
            Some \<lparr>t_type = CPUFloat, t_sizes = [2], t_elems = [5, 6]\<rparr>,
            Some \<lparr>t_type = CPUFloat, t_sizes = [2], t_elems = [7, 8]\<rparr>]"
  by code_simp

theorem guards_single_use_witness:
  "fst (backward_pass False cpu_build stub heap0 conv_node_bias [Some (leaf_of grad1 12)])
     = Inr [Some \<lparr>t_type = CPUFloat, t_sizes = [2], t_elems = [3, 4]\<rparr>,
            Some \<lparr>t_type = CPUFloat, t_sizes = [2], t_elems = [5, 6]\<rparr>,
            Some \<lparr>t_type = CPUFloat, t_sizes = [2], t_elems = [7, 8]\<rparr>]
   \<and> sv_defined (sv_version (saved_bias conv_node_bias))
   \<and> unpack heap0 (saved_input (snd (backward_pass False cpu_build stub heap0 conv_node_bias
                                        [Some (leaf_of grad1 12)]))) None
       = Inl ReusedAfterReleaseError
   \<and> unpack heap0 (saved_weight (snd (backward_pass False cpu_build stub heap0 conv_node_bias
                                        [Some (leaf_of grad1 12)]))) None
       = Inl ReusedAfterReleaseError
   \<and> unpack heap0 (saved_bias (snd (backward_pass False cpu_build stub heap0 conv_node_bias
                                        [Some (leaf_of grad1 12)]))) None
       = Inl ReusedAfterReleaseError
   \<and> snd (backward_pass True cpu_build stub heap0 conv_node_bias [Some (leaf_of grad1 12)])
       = conv_node_bias"
proof -
  have p: "fst (backward_pass False cpu_build stub heap0 conv_node_bias [Some (leaf_of grad1 12)])
     = Inr [Some \<lparr>t_type = CPUFloat, t_sizes = [2], t_elems = [3, 4]\<rparr>,
            Some \<lparr>t_type = CPUFloat, t_sizes = [2], t_elems = [5, 6]\<rparr>,
            Some \<lparr>t_type = CPUFloat, t_sizes = [2], t_elems = [7, 8]\<rparr>]"
    by (simp add: backward_pass_def conv_node_bias_pass)
  have b: "sv_defined (sv_version (saved_bias conv_node_bias))"
    by (simp add: conv_node_bias_def captured_version_defined)
  note t = guards_single_use [where bld = cpu_build and lib = stub and h = heap0 and n = conv_node_bias
      and gos = "[Some (leaf_of grad1 12)]" and h' = heap0 and saved_for = None
      and r = "[Some \<lparr>t_type = CPUFloat, t_sizes = [2], t_elems = [3, 4]\<rparr>,
            Some \<lparr>t_type = CPUFloat, t_sizes = [2], t_elems = [5, 6]\<rparr>,
            Some \<lparr>t_type = CPUFloat, t_sizes = [2], t_elems = [7, 8]\<rparr>]"]
  from t p b show ?thesis by blast
qed

text \<open>
  Claim C10: \<open>releaseVariables\<close> of both backward nodes replaces the data reference of each
  saved guard by the undefined tensor and changes nothing else in the node; the saved
  version, \<open>requires_grad\<close> and the output index of a guard stay. So \<open>unpack\<close> of a released
  guard that holds a version throws \<open>ReusedAfterReleaseError\<close>, whereas a guard without a
  version (the guard of an undefined value is one) unpacks to the undefined value.
\<close>

theorem release_clears_data_only:
  "ConvBackward_releaseVariables n
     = n\<lparr>saved_input := (saved_input n)\<lparr>sv_data := None\<rparr>,
          saved_weight := (saved_weight n)\<lparr>sv_data := None\<rparr>,
          saved_bias := (saved_bias n)\<lparr>sv_data := None\<rparr>\<rparr>
   \<and> ConvBackwardBackward_releaseVariables m
     = m\<lparr>bb_saved_input := (bb_saved_input m)\<lparr>sv_data := None\<rparr>,
          bb_saved_weight := (bb_saved_weight m)\<lparr>sv_data := None\<rparr>,
          bb_saved_bias := (bb_saved_bias m)\<lparr>sv_data := None\<rparr>,
          bb_saved_grad_output := (bb_saved_grad_output m)\<lparr>sv_data := None\<rparr>\<rparr>
   \<and> sv_version (s\<lparr>sv_data := None\<rparr>) = sv_version s
   \<and> sv_requires_grad (s\<lparr>sv_data := None\<rparr>) = sv_requires_grad s
   \<and> sv_output_nr (s\<lparr>sv_data := None\<rparr>) = sv_output_nr s
   \<and> (sv_defined (sv_version s) \<longrightarrow>
        unpack h (s\<lparr>sv_data := None\<rparr>) saved_for = Inl ReusedAfterReleaseError)
   \<and> (\<not> sv_defined (sv_version s) \<longrightarrow> unpack h (s\<lparr>sv_data := None\<rparr>) saved_for = Inr None)
   \<and> \<not> sv_defined (sv_version (SavedVariable h0 None is_output))"
  by (simp add: ConvBackward_releaseVariables_def ConvBackwardBackward_releaseVariables_def
      reset_data_def unpack_def SavedVariable_def SavedVariable_empty_def SavedVersion_empty_def
      sv_defined_def)

theorem release_clears_data_only_witness:
  "sv_defined (sv_version (saved_input conv_node))
   \<and> \<not> sv_defined (sv_version (saved_bias conv_node))
   \<and> sv_version (saved_input (ConvBackward_releaseVariables conv_node))
       = sv_version (saved_input conv_node)
   \<and> sv_data (saved_input (ConvBackward_releaseVariables conv_node)) = None
   \<and> unpack heap0 (saved_input (ConvBackward_releaseVariables conv_node)) None
       = Inl ReusedAfterReleaseError
   \<and> unpack heap0 (saved_bias (ConvBackward_releaseVariables conv_node)) None = Inr None
   \<and> sv_version (bb_saved_grad_output (ConvBackwardBackward_releaseVariables conv_bb_node))
       = sv_version (bb_saved_grad_output conv_bb_node)"
proof -
  have a: "sv_defined (sv_version (saved_input conv_node))"
    "\<not> sv_defined (sv_version (saved_bias conv_node))"
    by (simp_all add: conv_node_def SavedVariable_def save_def
        SavedVariable_empty_def SavedVersion_empty_def sv_defined_def)
  note t1 = release_clears_data_only [where n = conv_node and s = "saved_input conv_node" and h = heap0
      and saved_for = None and m = conv_bb_node and ?h0.0 = heap0 and is_output = False]
  note t2 = release_clears_data_only [where n = conv_node and s = "saved_bias conv_node" and h = heap0
      and saved_for = None and m = conv_bb_node and ?h0.0 = heap0 and is_output = False]
  from a t1 t2 show ?thesis by (elim conjE) simp
qed


section \<open>Grouped convolution\<close>

lemma bind_Inr [simp]: "bind (Inr x) f = f x"
  by (simp add: bind_def)

lemma bind_Inl [simp]: "bind (Inl e) f = Inl e"
  by (simp add: bind_def)

lemma bind_return [simp]: "bind m Inr = m"
  by (cases m) simp_all

lemma bind_assoc: "bind (bind m f) g = bind m (\<lambda>x. bind (f x) g)"
  by (cases m) simp_all

lemma bind_cong_Inr:
  "(\<And>x. m = Inr x \<Longrightarrow> f x = g x) \<Longrightarrow> bind m f = bind m g"
  by (cases m) simp_all

lemma mapM_cong:
  "(\<And>x. x \<in> set xs \<Longrightarrow> f x = g x) \<Longrightarrow> mapM f xs = mapM g xs"
  by (induction xs) simp_all

lemma mapM_length: "mapM f xs = Inr ys \<Longrightarrow> length ys = length xs"
  by (induction xs arbitrary: ys) (auto simp: bind_def split: sum.splits)

lemma mapM_bind_Inr:
  "mapM (\<lambda>x. bind (f x) (\<lambda>y. Inr (k y))) xs = bind (mapM f xs) (\<lambda>ys. Inr (map k ys))"
  by (induction xs) (simp_all add: bind_def split: sum.splits)

lemma opt_data_Some: "opt_data (Some v) = Some (v_data v)"
  by (simp add: opt_data_def data_def)

text \<open>The loop over the groups stores the output of group \<open>g\<close> at index \<open>g\<close>.\<close>

lemma forward_groups_mapM:
  assumes "length outputs = nat (groups P)" and "g \<le> nat (groups P)"
  shows "forward_groups bld lib P input weight bias cols ons g outputs =
           bind (mapM (\<lambda>g.
                   bind (subtensor input 1 (groups P) (int g)) (\<lambda>input_g.
                   bind (subtensor weight 0 (groups P) (int g)) (\<lambda>weight_g.
                   bind (subtensor bias 0 (groups P) (int g)) (\<lambda>bias_g.
                     compute_output bld lib input_g weight_g bias_g (cols ! g) (ons ! g) P))))
                 [g..<nat (groups P)])
             (\<lambda>ys. Inr (take g outputs @ ys))"
  using assms
proof (induction "nat (groups P) - g" arbitrary: g outputs)
  case 0
  then have "g = nat (groups P)" by simp
  with 0 show ?case
    by (subst forward_groups.simps) simp
next
  case (Suc d)
  then have lt: "g < nat (groups P)" by simp
  then have up: "[g..<nat (groups P)] = g # [Suc g..<nat (groups P)]"
    by (simp add: upt_conv_Cons)
  have ih: "forward_groups bld lib P input weight bias cols ons (Suc g) (outputs[g := y]) =
           bind (mapM (\<lambda>g.
                   bind (subtensor input 1 (groups P) (int g)) (\<lambda>input_g.
                   bind (subtensor weight 0 (groups P) (int g)) (\<lambda>weight_g.
                   bind (subtensor bias 0 (groups P) (int g)) (\<lambda>bias_g.
                     compute_output bld lib input_g weight_g bias_g (cols ! g) (ons ! g) P))))
                 [Suc g..<nat (groups P)])
             (\<lambda>ys. Inr (take (Suc g) (outputs[g := y]) @ ys))" for y
    using Suc lt by (intro Suc.hyps(1)) simp_all
  have tk: "take (Suc g) (outputs[g := y]) = take g outputs @ [y]" for y
    using lt Suc.prems(1) by (simp add: take_Suc_conv_app_nth)
  from lt have cond: "int g < groups P" by simp
  show ?case
    apply (subst forward_groups.simps)
    apply (simp only: cond if_True up mapM.simps ih tk)
    apply (simp add: bind_def split: sum.splits)
    done
qed

lemma subtensor_Some:
  assumes "subtensor (Some t) dim G g = Inr r"
  shows "\<exists>t'. r = Some t' \<and> t_type t' = t_type t
              \<and> t_sizes t' = (t_sizes t)[dim := t_sizes t ! dim div G]
              \<and> dim < length (t_sizes t) \<and> 0 < t_sizes t ! dim div G"
  using assms
  by (auto simp: subtensor_def at_index_def narrow_def contiguous_def Let_def bind_def
      split: if_splits sum.splits)

lemma subtensor_None [simp]: "subtensor None dim G g = Inr None"
  by (simp add: subtensor_def)

lemma compute_output_groups:
  "compute_output bld lib i w b c o' (P\<lparr>groups := n\<rparr>) = compute_output bld lib i w b c o' P"
proof -
  have osa: "output_size_at (P\<lparr>groups := n\<rparr>) = output_size_at P"
    by (simp add: fun_eq_iff output_size_at_def cong: if_cong)
  have os: "\<not> transposed P \<Longrightarrow> output_size (P\<lparr>groups := n\<rparr>) x y = output_size P x y" for x y :: "'a tensor_impl"
    by (simp add: output_size_def osa Let_def cong: if_cong)
  show ?thesis
    unfolding compute_output_def
    by (auto simp: is_dilated_def use_nnpack_def is_strided_def os Let_def
        intro!: bind_cong_Inr)
qed


lemma is_output_padding_big_loop_groups:
  "is_output_padding_big_loop (P\<lparr>groups := n\<rparr>) i k acc = is_output_padding_big_loop P i k acc"
  by (induction k arbitrary: i acc) (simp_all cong: if_cong)

lemma use_cudnn_slice:
  "t_type ig = t_type input \<Longrightarrow>
   use_cudnn bld (P\<lparr>groups := n\<rparr>) ig = use_cudnn bld P input"
  by (simp add: use_cudnn_def is_dilated_def is_output_padding_big_def
      is_output_padding_big_loop_groups)

lemma check_slices:
  assumes "check_input_shape_forward input weight bias G tr = Inr ()"
    and "subtensor (Some input) 1 G g = Inr (Some ig)"
    and "subtensor (Some weight) 0 G g = Inr (Some wg)"
    and "subtensor bias 0 G g = Inr bg"
  shows "check_input_shape_forward ig wg bg 1 tr = Inr ()"
proof -
  from subtensor_Some [OF assms(2)] have i:
    "t_sizes ig = (t_sizes input)[1 := t_sizes input ! 1 div G]" "1 < length (t_sizes input)"
    "0 < t_sizes input ! 1 div G" by auto
  from subtensor_Some [OF assms(3)] have w:
    "t_sizes wg = (t_sizes weight)[0 := t_sizes weight ! 0 div G]" "0 < length (t_sizes weight)"
    "0 < t_sizes weight ! 0 div G" by auto
  from i(3) have G: "G \<noteq> 0" by (cases "G = 0") simp_all
  show ?thesis
  proof (cases bias)
    case None
    with assms(1,4) i w G show ?thesis
      by (auto simp: check_input_shape_forward_def size_at_def ndimension_def Let_def
          split: if_splits)
  next
    case (Some b)
    with assms(4) obtain b' where b': "bg = Some b'" "subtensor (Some b) 0 G g = Inr (Some b')"
      using subtensor_Some [of b 0 G g bg] by auto
    from subtensor_Some [OF b'(2)] have b:
      "t_sizes b' = (t_sizes b)[0 := t_sizes b ! 0 div G]" by auto
    with Some b' assms(1) i w G show ?thesis
      by (auto simp: check_input_shape_forward_def size_at_def ndimension_def Let_def
          split: if_splits)
  qed
qed

lemma ConvForward_apply_single:
  assumes "check_input_shape_forward ig wg (opt_data bvar) 1 (transposed P) = Inr ()"
    and "ndimension ig \<noteq> 3"
    and "\<not> is_padding_neg P" and "\<not> is_output_padding_neg P"
    and "use_cudnn bld (P\<lparr>groups := 1\<rparr>) ig = Inr False"
  shows "ConvForward_apply bld lib (P\<lparr>groups := 1\<rparr>)
           [Some (x\<lparr>v_data := ig\<rparr>), Some (w\<lparr>v_data := wg\<rparr>), bvar]
         = compute_output bld lib (Some ig) (Some wg) (opt_data bvar)
             (Some (empty_tensor (t_type ig))) (Some (empty_tensor (t_type ig))) P"
  using assms
  by (simp add: ConvForward_apply_def check_input_variables_def deref_def contiguous_def
      is_padding_neg_def is_output_padding_neg_def is_depthwise_def forward_generic_def
      compute_output_groups Let_def)

text \<open>The loop over the groups stores the gradients of group \<open>g\<close> at index \<open>g\<close>.\<close>

lemma backward_groups_mapM:
  assumes "length gis = nat (groups n)" "length gws = nat (groups n)"
    "length gbs = nat (groups n)" and "g \<le> nat (groups n)"
  shows "backward_groups bld lib n input grad_output weight msk g (gis, gws, gbs) =
           bind (mapM (\<lambda>g.
                   bind (subtensor input 1 (groups n) (int g)) (\<lambda>input_g.
                   bind (subtensor grad_output 1 (groups n) (int g)) (\<lambda>grad_output_g.
                   bind (subtensor weight 0 (groups n) (int g)) (\<lambda>weight_g.
                   bind (at_index (columns n) g) (\<lambda>columns_g.
                   bind (at_index (ones n) g) (\<lambda>ones_g.
                     compute_backward bld lib input_g grad_output_g weight_g columns_g ones_g
                       n msk))))))
                 [g..<nat (groups n)])
             (\<lambda>rs. Inr (take g gis @ map fst rs, take g gws @ map (\<lambda>r. fst (snd r)) rs,
                         take g gbs @ map (\<lambda>r. snd (snd r)) rs))"
  using assms
proof (induction "nat (groups n) - g" arbitrary: g gis gws gbs)
  case 0
  then have "g = nat (groups n)" by simp
  with 0 show ?case
    by (subst backward_groups.simps) simp
next
  case (Suc d)
  then have lt: "g < nat (groups n)" by simp
  then have up: "[g..<nat (groups n)] = g # [Suc g..<nat (groups n)]"
    by (simp add: upt_conv_Cons)
  have ih: "backward_groups bld lib n input grad_output weight msk (Suc g)
              (gis[g := a], gws[g := b], gbs[g := c]) =
           bind (mapM (\<lambda>g.
                   bind (subtensor input 1 (groups n) (int g)) (\<lambda>input_g.
                   bind (subtensor grad_output 1 (groups n) (int g)) (\<lambda>grad_output_g.
                   bind (subtensor weight 0 (groups n) (int g)) (\<lambda>weight_g.
                   bind (at_index (columns n) g) (\<lambda>columns_g.
                   bind (at_index (ones n) g) (\<lambda>ones_g.
                     compute_backward bld lib input_g grad_output_g weight_g columns_g ones_g
                       n msk))))))
                 [Suc g..<nat (groups n)])
             (\<lambda>rs. Inr (take (Suc g) (gis[g := a]) @ map fst rs,
                         take (Suc g) (gws[g := b]) @ map (\<lambda>r. fst (snd r)) rs,
                         take (Suc g) (gbs[g := c]) @ map (\<lambda>r. snd (snd r)) rs))" for a b c
    using Suc lt by (intro Suc.hyps(1)) simp_all
  have tk: "take (Suc g) (xs[g := y]) = take g xs @ [y]" if "length xs = nat (groups n)"
    for y :: "'a tensor" and xs
    using lt that by (simp add: take_Suc_conv_app_nth)
  from lt have cond: "int g < groups n" by simp
  show ?case
    apply (subst backward_groups.simps)
    apply (simp only: cond if_True up mapM.simps)
    apply (simp add: bind_def ih tk Suc.prems split: sum.splits prod.splits)
    done
qed

lemma unpack_data:
  "unpack h s saved_for = Inr var \<Longrightarrow> opt_data var = sv_data s"
  by (auto simp: unpack_def opt_data_def data_def Let_def make_variable_fn_def
      make_variable_leaf_def split: option.splits sum.splits if_splits bool.splits)

lemma unpack_data_update:
  "unpack h s saved_for = Inr (Some v) \<Longrightarrow>
   unpack h (s\<lparr>sv_data := Some d\<rparr>) saved_for = Inr (Some (v\<lparr>v_data := d\<rparr>))"
  by (auto simp: unpack_def Let_def make_variable_fn_def
      make_variable_leaf_def split: option.splits sum.splits if_splits bool.splits)

lemma is_output_padding_big_loop_params:
  assumes "stride P' = stride P" "dilation P' = dilation P" "output_padding P' = output_padding P"
  shows "is_output_padding_big_loop P' i k acc = is_output_padding_big_loop P i k acc"
  using assms by (induction k arbitrary: i acc) (simp_all cong: if_cong)

lemma use_cudnn_params:
  assumes "stride P' = stride P" "dilation P' = dilation P" "output_padding P' = output_padding P"
    "cudnn_enabled P' = cudnn_enabled P" "deterministic P' = deterministic P"
    "t_type i' = t_type i"
  shows "use_cudnn bld P' i' = use_cudnn bld P i"
  using assms
  by (simp add: use_cudnn_def is_dilated_def is_output_padding_big_def
      is_output_padding_big_loop_params [of P' P])

lemma use_nnpack_params:
  assumes "stride P' = stride P" "dilation P' = dilation P" "transposed P' = transposed P"
  shows "use_nnpack bld P' x = use_nnpack bld P x"
  using assms by (simp add: use_nnpack_def is_dilated_def is_strided_def)

lemma compute_backward_params:
  assumes "stride P' = stride P" "dilation P' = dilation P" "output_padding P' = output_padding P"
    "padding P' = padding P" "transposed P' = transposed P"
  shows "compute_backward bld lib i go w c o' P' m = compute_backward bld lib i go w c o' P m"
  using assms
proof -
  have d: "is_dilated P' = is_dilated P" using assms by (simp add: is_dilated_def)
  note np = use_nnpack_params [OF assms(1,2,5)]
  show ?thesis
    unfolding compute_backward_def d np assms ..
qed


lemma as_list_nth:
  "(\<lambda>r. r ! 0) \<circ> as_list = fst"
  "(\<lambda>r. r ! Suc 0) \<circ> as_list = (\<lambda>r. fst (snd r))"
  "(\<lambda>r. r ! 2) \<circ> as_list = (\<lambda>r. snd (snd r))"
  by (simp_all add: fun_eq_iff as_list_def eval_nat_numeral)

lemma backward_gradients_generic:
  assumes "ndimension input \<noteq> 3"
    and "is_depthwise n input weight (groups n) = Inr False"
    and "use_cudnn bld n input = Inr False"
  shows "backward_gradients bld lib n input weight bias grad_output =
           bind (backward_generic bld lib n input weight grad_output
                   [should_compute_output n 0, should_compute_output n 1,
                    should_compute_output n 2 \<and> t_defined bias])
             (\<lambda>r. Inr (as_list r))"
  using assms
  by (simp add: backward_gradients_def Let_def as_list_def split_def)

lemma ConvBackward_apply_unpacked:
  assumes "\<not> is_padding_neg n" "\<not> is_output_padding_neg n"
    and "unpack h (saved_input n) None = Inr (Some iv)"
    and "unpack h (saved_weight n) None = Inr (Some wv)"
    and "unpack h (saved_bias n) None = Inr bv"
  shows "ConvBackward_apply bld lib h n [Some gov] =
           backward_gradients bld lib n (v_data iv) (v_data wv) (opt_data bv) (v_data gov)"
  using assms
  by (simp add: ConvBackward_apply_def check_input_variables_def deref_def contiguous_def)

text \<open>
  The slice that \<^const>\<open>subtensor\<close> cuts out is the slice of the specification. The
  library takes block after block of the buffer; the specification selects the elements
  by their index along the dimension.
\<close>

lemma filter_interval:
  "filter (\<lambda>i. a \<le> i \<and> i < b) [l..<u] = [max l a..<min u (b::nat)]"
proof (induction u)
  case 0
  then show ?case by simp
next
  case (Suc u)
  show ?case
  proof (cases "l \<le> u")
    case True
    then show ?thesis using Suc
      by (auto simp: max_def min_def not_less_eq_eq)
  next
    case False
    then show ?thesis by simp
  qed
qed

lemma map_nth_interval:
  "b \<le> length xs \<Longrightarrow> map (\<lambda>i. xs ! i) [a..<b] = take (b - a) (drop a xs)"
  by (rule nth_equalityI) simp_all

lemma coordinate_block:
  assumes "0 < inner" and "j < sz * inner"
  shows "((m * (sz * inner) + j) div inner) mod sz = j div (inner::nat)"
proof -
  have "(m * (sz * inner) + j) div inner = m * sz + j div inner"
    using assms(1) by (simp add: mult.commute mult.left_commute)
  moreover have "j div inner < sz"
    using assms by (simp add: less_mult_imp_div_less)
  ultimately show ?thesis by simp
qed

lemma filter_block:
  assumes "start + len \<le> sz"
  shows "filter (\<lambda>i. start \<le> (i div inner) mod sz \<and> (i div inner) mod sz < start + len)
           [m * (sz * inner)..<m * (sz * inner) + sz * inner]
         = [m * (sz * inner) + start * inner..<m * (sz * inner) + (start + len) * inner]"
proof (cases "inner = 0")
  case True
  then show ?thesis by simp
next
  case False
  then have pos: "0 < inner" by simp
  let ?B = "sz * inner"
  have "filter (\<lambda>i. start \<le> (i div inner) mod sz \<and> (i div inner) mod sz < start + len)
           [m * ?B..<m * ?B + ?B]
        = filter (\<lambda>i. m * ?B + start * inner \<le> i \<and> i < m * ?B + (start + len) * inner)
           [m * ?B..<m * ?B + ?B]"
  proof (rule filter_cong [OF refl])
    fix i assume "i \<in> set [m * ?B..<m * ?B + ?B]"
    then have "m * ?B \<le> i" "i < m * ?B + ?B" by simp_all
    then have "i = m * ?B + (i - m * ?B)" "i - m * ?B < ?B" by linarith+
    then obtain j where i: "i = m * ?B + j" and j: "j < ?B" by blast
    have c: "(i div inner) mod sz = j div inner"
      unfolding i using pos j by (rule coordinate_block)
    have s: "start \<le> j div inner \<longleftrightarrow> start * inner \<le> j"
      using pos by (simp add: less_eq_div_iff_mult_less_eq)
    have e: "j div inner < start + len \<longleftrightarrow> j < (start + len) * inner"
      using pos by (simp add: div_less_iff_less_mult)
    show "(start \<le> (i div inner) mod sz \<and> (i div inner) mod sz < start + len)
        \<longleftrightarrow> (m * ?B + start * inner \<le> i \<and> i < m * ?B + (start + len) * inner)"
      unfolding c s e unfolding i by simp
  qed
  also have "\<dots> = [max (m * ?B) (m * ?B + start * inner)..<
                    min (m * ?B + ?B) (m * ?B + (start + len) * inner)]"
    by (rule filter_interval)
  also have "max (m * ?B) (m * ?B + start * inner) = m * ?B + start * inner" by simp
  also have "min (m * ?B + ?B) (m * ?B + (start + len) * inner) = m * ?B + (start + len) * inner"
  proof -
    have "(start + len) * inner \<le> sz * inner" using assms by (rule mult_le_mono1)
    then show ?thesis by linarith
  qed
  finally show ?thesis .
qed

lemma narrow_blocks:
  assumes "start + len \<le> sz" and "m * (sz * inner) \<le> length xs"
  shows "concat (map (\<lambda>out. take (len * inner) (drop ((out * sz + start) * inner) xs)) [0..<m])
         = map (\<lambda>i. xs ! i)
             (filter (\<lambda>i. start \<le> (i div inner) mod sz \<and> (i div inner) mod sz < start + len)
                [0..<m * (sz * inner)])"
  using assms(2)
proof (induction m)
  case 0
  then show ?case by simp
next
  case (Suc m)
  let ?B = "sz * inner"
  let ?P = "\<lambda>i. start \<le> (i div inner) mod sz \<and> (i div inner) mod sz < start + len"
  have SB: "Suc m * ?B = m * ?B + ?B" by simp
  from Suc.prems have le: "m * ?B + ?B \<le> length xs" unfolding SB .
  then have le': "m * ?B \<le> length xs" by simp
  have split: "[0..<Suc m * ?B] = [0..<m * ?B] @ [m * ?B..<m * ?B + ?B]"
    unfolding SB by (rule upt_add_eq_append) simp
  have hi: "m * ?B + (start + len) * inner \<le> length xs"
  proof -
    have "(start + len) * inner \<le> ?B" using assms(1) by simp
    with le show ?thesis by linarith
  qed
  have "map (\<lambda>i. xs ! i) (filter ?P [m * ?B..<m * ?B + ?B])
        = map (\<lambda>i. xs ! i) [m * ?B + start * inner..<m * ?B + (start + len) * inner]"
    by (simp only: filter_block [OF assms(1)])
  also have "\<dots> = take (m * ?B + (start + len) * inner - (m * ?B + start * inner))
                     (drop (m * ?B + start * inner) xs)"
    using hi by (rule map_nth_interval)
  also have "m * ?B + (start + len) * inner - (m * ?B + start * inner) = len * inner"
    by (simp add: add_mult_distrib)
  also have "m * ?B + start * inner = (m * sz + start) * inner"
    by (simp add: add_mult_distrib mult.assoc)
  finally have last: "map (\<lambda>i. xs ! i) (filter ?P [m * ?B..<m * ?B + ?B])
        = take (len * inner) (drop ((m * sz + start) * inner) xs)" .
  show ?case
    unfolding split using Suc.IH [OF le'] last by simp
qed


lemma int_div_ge1: "0 < G \<Longrightarrow> G \<le> sz \<Longrightarrow> 1 \<le> sz div (G::int)"
  using pos_imp_zdiv_pos_iff [of G sz] by linarith

lemma int_div_mult_le: "0 < G \<Longrightarrow> (sz div G) * G \<le> (sz::int)"
  using div_mult_mod_eq [of sz G] pos_mod_sign [of G sz] by linarith

lemma nat_slice_range:
  assumes "1 \<le> (n::int)" and "n * int g + n \<le> sz"
  shows "g * nat n + nat n \<le> nat sz"
proof -
  from assms(1) have "int (g * nat n + nat n) = n * int g + n" by (simp add: mult.commute)
  with assms(2) show ?thesis by linarith
qed

lemma nat_slice_start: "1 \<le> (n::int) \<Longrightarrow> nat (n * int g) = g * nat n"
  by (simp add: nat_mult_distrib mult.commute)

lemma prod_list_nonneg:
  "list_all (\<lambda>s. 0 \<le> s) xs \<Longrightarrow> 0 \<le> prod_list (xs :: int list)"
  by (induction xs) simp_all

lemma list_all_take_drop:
  "list_all P xs \<Longrightarrow> list_all P (take n xs) \<and> list_all P (drop n xs)"
  by (metis append_take_drop_id list_all_append)

lemma nat_prod_split:
  assumes "list_all (\<lambda>s. 0 \<le> s) sizes" and "d < length sizes"
  shows "nat (prod_list sizes)
         = nat (prod_list (take d sizes)) * (nat (sizes ! d) * nat (prod_list (drop (Suc d) sizes)))"
proof -
  have "sizes = take d sizes @ sizes ! d # drop (Suc d) sizes"
    using assms(2) by (rule id_take_nth_drop)
  then have "prod_list sizes = prod_list (take d sizes) * (sizes ! d * prod_list (drop (Suc d) sizes))"
    by (metis prod_list.Cons prod_list.append)
  moreover have "0 \<le> prod_list (take d sizes)" "0 \<le> prod_list (drop (Suc d) sizes)"
    using assms(1) list_all_take_drop prod_list_nonneg by blast+
  moreover have "0 \<le> sizes ! d"
    using assms by (simp add: list_all_length)
  ultimately show ?thesis by (simp add: nat_mult_distrib)
qed

lemma subtensor_channel_slice:
  assumes s: "sliceable t d G" and G: "0 < G" and g: "g < nat G"
  shows "subtensor (Some t) d G (int g) = Inr (Some (channel_slice t d G g))"
proof -
  let ?sz = "t_sizes t ! d"
  let ?n = "?sz div G"
  let ?inner = "nat (prod_list (drop (Suc d) (t_sizes t)))"
  let ?outer = "nat (prod_list (take d (t_sizes t)))"
  from s have d: "d < length (t_sizes t)" and nn: "list_all (\<lambda>s. 0 \<le> s) (t_sizes t)"
    and big: "G \<le> ?sz" and len: "length (t_elems t) = nat (prod_list (t_sizes t))"
    by (simp_all add: sliceable_def ndimension_def)
  from G big have n1: "1 \<le> ?n" by (rule int_div_ge1)
  have nG: "?n * G \<le> ?sz" using G by (rule int_div_mult_le)
  from g G have gi: "int g + 1 \<le> G" by linarith
  have "?n * (int g + 1) \<le> ?n * G" using gi n1 by (simp add: mult_left_mono)
  with nG have top: "?n * int g + ?n \<le> ?sz" by (simp add: algebra_simps)
  have c1: "0 \<le> ?n * int g" using n1 by simp
  have c2: "?n * int g < ?sz" using top n1 by linarith
  have c3: "0 < ?n" using n1 by simp
  have c4: "?n * int g \<le> ?sz - ?n" using top by linarith
  have natn: "nat (?n * int g) = g * nat ?n" using n1 by (rule nat_slice_start)
  have range: "g * nat ?n + nat ?n \<le> nat ?sz" using n1 top by (rule nat_slice_range)
  have total: "length (t_elems t) = ?outer * (nat ?sz * ?inner)"
    unfolding len using nn d by (rule nat_prod_split)
  have elems: "narrow_elems (t_sizes t) (t_elems t) d (nat (?n * int g)) (nat ?n)
        = map (\<lambda>i. t_elems t ! i)
            (filter (\<lambda>i. g * nat ?n \<le> coordinate (t_sizes t) d i
                         \<and> coordinate (t_sizes t) d i < g * nat ?n + nat ?n)
               [0..<length (t_elems t)])"
    unfolding narrow_elems_def Let_def natn coordinate_def total
    by (rule narrow_blocks [OF range]) (simp add: total)
  have "narrow t d (?n * int g) ?n
        = Inr (t\<lparr>t_sizes := (t_sizes t)[d := ?n],
                  t_elems := narrow_elems (t_sizes t) (t_elems t) d (nat (?n * int g)) (nat ?n)\<rparr>)"
    using d c1 c2 c3 c4 by (simp add: narrow_def)
  then show ?thesis
    using d n1 by (simp add: subtensor_def at_index_def Let_def contiguous_def elems
        channel_slice_def bind_def)
qed

text \<open>
  What a sequence of computations that succeeds was made of, and the concatenation that
  the library does under \<^const>\<open>cat_out_concatenates\<close>.
\<close>

lemma mapM_bind_split:
  "mapM (\<lambda>x. bind (f x) k) xs = Inr ys \<Longrightarrow> \<exists>zs. mapM f xs = Inr zs \<and> mapM k zs = Inr ys"
proof (induction xs arbitrary: ys)
  case Nil
  then show ?case by simp
next
  case (Cons x xs)
  from Cons.prems obtain y ys' where y: "bind (f x) k = Inr y"
    and r: "mapM (\<lambda>x. bind (f x) k) xs = Inr ys'" and ys: "ys = y # ys'"
    by (auto simp: bind_def split: sum.splits)
  from y obtain z where z: "f x = Inr z" "k z = Inr y"
    by (auto simp: bind_def split: sum.splits)
  from Cons.IH [OF r] obtain zs where "mapM f xs = Inr zs" "mapM k zs = Inr ys'" by blast
  with z ys show ?case by simp
qed

lemma mapM_deref: "mapM deref ps = Inr outs \<Longrightarrow> ps = map Some outs"
  by (induction ps arbitrary: outs)
     (auto simp: deref_def bind_def split: sum.splits option.splits)

lemma mapM_Inr [simp]: "mapM Inr xs = Inr xs"
  by (induction xs) simp_all

lemma mapM_view3d:
  "mapM (\<lambda>o'. bind (deref o') (\<lambda>out. bind (view3d out) (\<lambda>o3. Inr (Some o3)))) os = Inr (map Some outs)
   \<Longrightarrow> \<exists>o4s. os = map Some o4s \<and> list_all (\<lambda>t. ndimension t = 4) o4s
              \<and> outs = map (\<lambda>t. squeeze t 2) o4s"
proof (induction os arbitrary: outs)
  case Nil
  then show ?case by simp
next
  case (Cons a os)
  from Cons.prems obtain y ys where
    a: "bind (deref a) (\<lambda>out. bind (view3d out) (\<lambda>o3. Inr (Some o3))) = Inr y"
    and r: "mapM (\<lambda>o'. bind (deref o') (\<lambda>out. bind (view3d out) (\<lambda>o3. Inr (Some o3)))) os = Inr ys"
    and e: "map Some outs = y # ys"
    by (auto simp: bind_def split: sum.splits)
  from e obtain t ts where outs: "outs = t # ts" "y = Some t" "ys = map Some ts"
    by (cases outs) auto
  from a outs obtain a4 where a4: "a = Some a4" "ndimension a4 = 4" "t = squeeze a4 2"
    by (auto simp: deref_def view3d_def bind_def split: option.splits if_splits)
  from Cons.IH [OF r [unfolded outs(3)]] obtain o4s where
    "os = map Some o4s" "list_all (\<lambda>t. ndimension t = 4) o4s" "ts = map (\<lambda>t. squeeze t 2) o4s"
    by blast
  with a4 outs have "a # os = map Some (a4 # o4s) \<and> list_all (\<lambda>t. ndimension t = 4) (a4 # o4s)
      \<and> outs = map (\<lambda>t. squeeze t 2) (a4 # o4s)" by simp
  then show ?case by (intro exI [of _ "a4 # o4s"])
qed

lemma cat_concat_dim:
  assumes "cat_out_concatenates lib" and "ts \<noteq> []"
  shows "cat lib (map Some ts) (int d) = Inr (Some (concat_dim d ts))"
proof -
  from assms(2) obtain t rest where ts: "ts = t # rest" by (cases ts) auto
  from assms have "kernel1 lib cat_out
      [AT (Some (empty_tensor (t_type (hd ts)))), ATs (map Some ts), AI (int d)]
      = Some (Some (concat_dim d ts))"
    unfolding cat_out_concatenates_def by blast
  then show ?thesis
    unfolding ts by (simp add: cat_def deref_def at1_def raised_def)
qed

lemma length4:
  "length xs = 4 \<Longrightarrow> \<exists>a b c e. xs = [a, b, c, e]"
  by (auto simp: length_Suc_conv eval_nat_numeral)

lemma squeeze_fields:
  assumes "ndimension t = 4" and "d < 2"
  shows "prod_list (drop d (t_sizes (squeeze t 2))) = prod_list (drop d (t_sizes t))"
    and "t_sizes (squeeze t 2) ! d = t_sizes t ! d"
    and "t_elems (squeeze t 2) = t_elems t"
    and "t_type (squeeze t 2) = t_type t"
    and "prod_list (take d (t_sizes (squeeze t 2))) = prod_list (take d (t_sizes t))"
proof -
  from assms(1) have "length (t_sizes t) = 4" by (simp add: ndimension_def)
  from length4 [OF this] obtain a b c e where s: "t_sizes t = [a, b, c, e]" by blast
  from assms(2) have "d = 0 \<or> d = 1" by auto
  then show "prod_list (drop d (t_sizes (squeeze t 2))) = prod_list (drop d (t_sizes t))"
    "t_sizes (squeeze t 2) ! d = t_sizes t ! d" "t_elems (squeeze t 2) = t_elems t"
    "t_type (squeeze t 2) = t_type t"
    "prod_list (take d (t_sizes (squeeze t 2))) = prod_list (take d (t_sizes t))"
    by (auto simp: squeeze_def s)
qed

lemma squeeze_concat_dim:
  assumes "ts \<noteq> []" and "list_all (\<lambda>t. ndimension t = 4) ts" and "d < 2"
  shows "squeeze (concat_dim d ts) 2 = concat_dim d (map (\<lambda>t. squeeze t 2) ts)"
proof -
  from assms(1) obtain t rest where ts: "ts = t # rest" by (cases ts) auto
  with assms(2) have t4: "ndimension t = 4" by simp
  then have "length (t_sizes t) = 4" by (simp add: ndimension_def)
  from length4 [OF this] obtain a b c e where s: "t_sizes t = [a, b, c, e]" by blast
  have all: "\<And>u. u \<in> set ts \<Longrightarrow> ndimension u = 4"
    using assms(2) by (simp add: list_all_iff)
  have sums: "map (\<lambda>u. t_sizes u ! d) (map (\<lambda>t. squeeze t 2) ts) = map (\<lambda>u. t_sizes u ! d) ts"
    by (simp add: all squeeze_fields(2) [OF _ assms(3)] cong: map_cong)
  have blocks: "map (\<lambda>u. let block = nat (prod_list (drop d (t_sizes u)))
                        in take block (drop (out * block) (t_elems u))) (map (\<lambda>t. squeeze t 2) ts)
             = map (\<lambda>u. let block = nat (prod_list (drop d (t_sizes u)))
                        in take block (drop (out * block) (t_elems u))) ts" for out
    by (simp add: Let_def all squeeze_fields(1,3) [OF _ assms(3)] cong: map_cong)
  have hd: "hd (map (\<lambda>t. squeeze t 2) ts) = squeeze t 2" "hd ts = t" by (simp_all add: ts)
  from assms(3) have d01: "d = 0 \<or> d = 1" by auto
  let ?sum = "sum_list (map (\<lambda>u. t_sizes u ! d) ts)"
  have lhs: "squeeze (concat_dim d ts) 2
        = \<lparr>t_type = t_type t, t_sizes = (t_sizes (squeeze t 2))[d := ?sum],
           t_elems = t_elems (concat_dim d ts)\<rparr>"
    using d01 by (auto simp: squeeze_def concat_dim_def hd s)
  have rhs: "concat_dim d (map (\<lambda>t. squeeze t 2) ts)
        = \<lparr>t_type = t_type t, t_sizes = (t_sizes (squeeze t 2))[d := ?sum],
           t_elems = t_elems (concat_dim d ts)\<rparr>"
    unfolding concat_dim_def hd sums blocks
    by (simp add: squeeze_fields(4,5) [OF t4 assms(3)])
  show ?thesis unfolding lhs rhs ..
qed

text \<open>
  The forward pass. A 3-dimensional input is viewed as a 4-dimensional one before the
  strategy is chosen, and the output is viewed back; the slices and the concatenation
  commute with these views.
\<close>

lemma length3:
  "length xs = 3 \<Longrightarrow> \<exists>a b c. xs = [a, b, c]"
  by (auto simp: length_Suc_conv eval_nat_numeral)

lemma as_4d_type [simp]: "t_type (as_4d t) = t_type t"
  by (simp add: as_4d_def unsqueeze_def)

lemma as_4d_elems [simp]: "t_elems (as_4d t) = t_elems t"
  by (simp add: as_4d_def unsqueeze_def)

lemma channel_slice_ndimension [simp]:
  "ndimension (channel_slice t d G g) = ndimension t"
  by (simp add: channel_slice_def ndimension_def Let_def)

lemma channel_slice_type [simp]: "t_type (channel_slice t d G g) = t_type t"
  by (simp add: channel_slice_def Let_def)

lemma channel_slice_as_4d:
  assumes "d < 2"
  shows "channel_slice (as_4d t) d G g = as_4d (channel_slice t d G g)"
proof (cases "ndimension t = 3")
  case True
  then have "length (t_sizes t) = 3" by (simp add: ndimension_def)
  from length3 [OF this] obtain a b c where s: "t_sizes t = [a, b, c]" by blast
  from assms have "d = 0 \<or> d = 1" by auto
  then show ?thesis
    by (auto simp: as_4d_def unsqueeze_def channel_slice_def ndimension_def s Let_def
        coordinate_def)
next
  case False
  then show ?thesis by (simp add: as_4d_def)
qed

lemma sliceable_as_4d:
  assumes "sliceable t d G" and "d < 2"
  shows "sliceable (as_4d t) d G"
proof (cases "ndimension t = 3")
  case True
  then have "length (t_sizes t) = 3" by (simp add: ndimension_def)
  from length3 [OF this] obtain a b c where s: "t_sizes t = [a, b, c]" by blast
  from assms(2) have "d = 0 \<or> d = 1" by auto
  then show ?thesis
    using assms(1)
    by (auto simp: as_4d_def unsqueeze_def sliceable_def ndimension_def s)
next
  case False
  with assms(1) show ?thesis by (simp add: as_4d_def)
qed

lemma view4d_as_4d: "ndimension t = 3 \<Longrightarrow> view4d t = Inr (as_4d t)"
  by (simp add: view4d_def as_4d_def)

lemma is_dilated_view [simp]: "is_dilated (view1d_as_2d P) = is_dilated P"
  by (simp add: is_dilated_def view1d_as_2d_def)

lemma at_index_Cons_Suc [simp]: "at_index (a # xs) (Suc i) = at_index xs i"
  by (simp add: at_index_def)

lemma is_output_padding_big_loop_shift:
  assumes "stride P' = s # stride P" "dilation P' = d # dilation P"
    "output_padding P' = p # output_padding P"
  shows "is_output_padding_big_loop P' (Suc i) n acc = is_output_padding_big_loop P i n acc"
  using assms by (induction n arbitrary: i acc) (simp_all cong: if_cong)

lemma is_output_padding_big_view [simp]:
  "is_output_padding_big (view1d_as_2d P) = is_output_padding_big P"
proof (cases "length (stride P) = 1")
  case True
  let ?P' = "P\<lparr>stride := 1 # stride P, padding := 0 # padding P,
             dilation := 1 # dilation P, output_padding := 0 # output_padding P\<rparr>"
  have "is_output_padding_big_loop ?P' (Suc 0) n False = is_output_padding_big_loop P 0 n False" for n
    by (rule is_output_padding_big_loop_shift) simp_all
  with True show ?thesis
    by (simp add: is_output_padding_big_def view1d_as_2d_def at_index_def)
next
  case False
  then show ?thesis by (simp add: view1d_as_2d_def)
qed

lemma use_cudnn_view:
  "t_type x' = t_type x \<Longrightarrow> use_cudnn bld (view1d_as_2d P) x' = use_cudnn bld P x"
proof -
  have "cudnn_enabled (view1d_as_2d P) = cudnn_enabled P"
    "deterministic (view1d_as_2d P) = deterministic P"
    by (simp_all add: view1d_as_2d_def)
  then show "t_type x' = t_type x \<Longrightarrow> use_cudnn bld (view1d_as_2d P) x' = use_cudnn bld P x"
    by (simp add: use_cudnn_def)
qed

lemma is_depthwise_view [simp]:
  "is_depthwise (view1d_as_2d P) = is_depthwise P"
  by (simp add: fun_eq_iff is_depthwise_def view1d_as_2d_def)

lemma view1d_as_2d_groups [simp]:
  "groups (view1d_as_2d P) = groups P"
  "view1d_as_2d (P\<lparr>groups := n\<rparr>) = (view1d_as_2d P)\<lparr>groups := n\<rparr>"
  by (simp_all add: view1d_as_2d_def)

lemma check_ndimension:
  "check_input_shape_forward input weight bias G tr = Inr () \<Longrightarrow> ndimension weight = ndimension input"
  by (simp add: check_input_shape_forward_def Let_def split: if_splits)

lemma ConvForward_apply_one_group:
  assumes pn: "\<not> is_padding_neg P" "\<not> is_output_padding_neg P"
    and check: "check_input_shape_forward (v_data xg) (v_data wg) (opt_data bg) 1 (transposed P) = Inr ()"
    and cu: "use_cudnn bld P (v_data xg) = Inr False"
  shows "ConvForward_apply bld lib (P\<lparr>groups := 1\<rparr>) [Some xg, Some wg, bg]
         = bind (compute_output bld lib (Some (as_4d (v_data xg))) (Some (as_4d (v_data wg)))
                   (opt_data bg)
                   (Some (empty_tensor (t_type (v_data xg))))
                   (Some (empty_tensor (t_type (v_data xg))))
                   (if ndimension (v_data xg) = 3 then view1d_as_2d P else P))
             (\<lambda>output. if ndimension (v_data xg) = 3
                         then bind (deref output) (\<lambda>out. bind (view3d out) (\<lambda>o3. Inr (Some o3)))
                         else Inr output)"
proof (cases "ndimension (v_data xg) = 3")
  case True
  with check_ndimension [OF check] have w3: "ndimension (v_data wg) = 3" by simp
  have cu': "use_cudnn bld ((view1d_as_2d P)\<lparr>groups := 1\<rparr>) (as_4d (v_data xg)) = Inr False"
    using cu use_cudnn_slice [where ig = "as_4d (v_data xg)" and input = "as_4d (v_data xg)"
        and bld = bld and P = "view1d_as_2d P" and n = 1]
      use_cudnn_view [where x' = "as_4d (v_data xg)" and x = "v_data xg" and bld = bld and P = P]
    by simp
  show ?thesis
    using pn check True w3 cu'
    by (simp add: ConvForward_apply_def check_input_variables_def deref_def contiguous_def
        is_padding_neg_def is_output_padding_neg_def is_depthwise_def forward_generic_def
        compute_output_groups Let_def view4d_as_4d)
next
  case False
  have cu': "use_cudnn bld (P\<lparr>groups := 1\<rparr>) (v_data xg) = Inr False"
    using cu by (simp add: use_cudnn_slice)
  from False have a: "as_4d (v_data xg) = v_data xg" by (simp add: as_4d_def)
  from False check_ndimension [OF check] have b: "as_4d (v_data wg) = v_data wg"
    by (simp add: as_4d_def)
  show ?thesis
    using pn check False cu'
    by (simp add: ConvForward_apply_def check_input_variables_def deref_def contiguous_def
        is_padding_neg_def is_output_padding_neg_def is_depthwise_def forward_generic_def
        compute_output_groups Let_def a b)
qed

lemma ConvForward_apply_groups:
  assumes G: "1 < groups P"
    and pn: "\<not> is_padding_neg P" "\<not> is_output_padding_neg P"
    and check: "check_input_shape_forward (v_data x) (v_data w) (opt_data b) (groups P)
                  (transposed P) = Inr ()"
    and dw: "is_depthwise P (as_4d (v_data x)) (as_4d (v_data w)) (groups P) = Inr False"
    and cu: "use_cudnn bld P (v_data x) = Inr False"
  shows "ConvForward_apply bld lib P [Some x, Some w, b]
         = bind (mapM (\<lambda>g.
                   bind (subtensor (Some (as_4d (v_data x))) 1 (groups P) (int g)) (\<lambda>input_g.
                   bind (subtensor (Some (as_4d (v_data w))) 0 (groups P) (int g)) (\<lambda>weight_g.
                   bind (subtensor (opt_data b) 0 (groups P) (int g)) (\<lambda>bias_g.
                     compute_output bld lib input_g weight_g bias_g
                       (Some (empty_tensor (t_type (v_data x))))
                       (Some (empty_tensor (t_type (v_data x))))
                       (if ndimension (v_data x) = 3 then view1d_as_2d P else P)))))
                 [0..<nat (groups P)])
             (\<lambda>outputs. bind (cat lib outputs 1)
                (\<lambda>output. if ndimension (v_data x) = 3
                         then bind (deref output) (\<lambda>out. bind (view3d out) (\<lambda>o3. Inr (Some o3)))
                         else Inr output))"
proof -
  let ?G = "nat (groups P)"
  let ?P2 = "if ndimension (v_data x) = 3 then view1d_as_2d P else P"
  let ?e = "Some (empty_tensor (t_type (v_data x)))"
  let ?cols = "replicate ?G ?e"
  let ?post = "\<lambda>output. if ndimension (v_data x) = 3
                         then bind (deref output) (\<lambda>out. bind (view3d out) (\<lambda>o3. Inr (Some o3)))
                         else Inr output"
  have loop: "forward_groups bld lib ?P2 (Some (as_4d (v_data x))) (Some (as_4d (v_data w)))
                (opt_data b) ?cols ?cols 0 (replicate ?G None)
          = bind (mapM (\<lambda>g.
                   bind (subtensor (Some (as_4d (v_data x))) 1 (groups ?P2) (int g)) (\<lambda>input_g.
                   bind (subtensor (Some (as_4d (v_data w))) 0 (groups ?P2) (int g)) (\<lambda>weight_g.
                   bind (subtensor (opt_data b) 0 (groups ?P2) (int g)) (\<lambda>bias_g.
                     compute_output bld lib input_g weight_g bias_g (?cols ! g) (?cols ! g) ?P2))))
                 [0..<nat (groups ?P2)])
              (\<lambda>ys. Inr (take 0 (replicate ?G None) @ ys))"
    by (rule forward_groups_mapM) simp_all
  have g2: "groups ?P2 = groups P" by simp
  have cols: "mapM (\<lambda>g.
                   bind (subtensor (Some (as_4d (v_data x))) 1 (groups P) (int g)) (\<lambda>input_g.
                   bind (subtensor (Some (as_4d (v_data w))) 0 (groups P) (int g)) (\<lambda>weight_g.
                   bind (subtensor (opt_data b) 0 (groups P) (int g)) (\<lambda>bias_g.
                     compute_output bld lib input_g weight_g bias_g (?cols ! g) (?cols ! g) ?P2))))
                 [0..<?G]
            = mapM (\<lambda>g.
                   bind (subtensor (Some (as_4d (v_data x))) 1 (groups P) (int g)) (\<lambda>input_g.
                   bind (subtensor (Some (as_4d (v_data w))) 0 (groups P) (int g)) (\<lambda>weight_g.
                   bind (subtensor (opt_data b) 0 (groups P) (int g)) (\<lambda>bias_g.
                     compute_output bld lib input_g weight_g bias_g ?e ?e ?P2))))
                 [0..<?G]"
    by (rule mapM_cong) simp
  have gen: "forward_generic bld lib ?P2 (as_4d (v_data x)) (as_4d (v_data w)) (opt_data b)
        = bind (mapM (\<lambda>g.
                   bind (subtensor (Some (as_4d (v_data x))) 1 (groups P) (int g)) (\<lambda>input_g.
                   bind (subtensor (Some (as_4d (v_data w))) 0 (groups P) (int g)) (\<lambda>weight_g.
                   bind (subtensor (opt_data b) 0 (groups P) (int g)) (\<lambda>bias_g.
                     compute_output bld lib input_g weight_g bias_g ?e ?e ?P2))))
                 [0..<?G])
            (\<lambda>outputs. cat lib outputs 1)"
    unfolding forward_generic_def Let_def g2 as_4d_type
    using G by (simp only: loop [unfolded g2] cols) (simp add: bind_assoc)
  show ?thesis
  proof (cases "ndimension (v_data x) = 3")
    case True
    with check_ndimension [OF check] have w3: "ndimension (v_data w) = 3" by simp
    have cu': "use_cudnn bld (view1d_as_2d P) (as_4d (v_data x)) = Inr False"
      using cu use_cudnn_view [where x' = "as_4d (v_data x)" and x = "v_data x" and bld = bld and P = P] by simp
    have "ConvForward_apply bld lib P [Some x, Some w, b]
          = bind (forward_generic bld lib (view1d_as_2d P) (as_4d (v_data x)) (as_4d (v_data w)) (opt_data b))
              (\<lambda>output. bind (deref output) (\<lambda>out. bind (view3d out) (\<lambda>o3. Inr (Some o3))))"
      using G pn check dw cu' True w3
      by (simp add: ConvForward_apply_def check_input_variables_def deref_def contiguous_def
          Let_def view4d_as_4d)
    with gen True show ?thesis by (simp add: bind_assoc)
  next
    case False
    from False have a: "as_4d (v_data x) = v_data x" by (simp add: as_4d_def)
    from False check_ndimension [OF check] have b: "as_4d (v_data w) = v_data w"
      by (simp add: as_4d_def)
    have "ConvForward_apply bld lib P [Some x, Some w, b]
          = forward_generic bld lib P (v_data x) (v_data w) (opt_data b)"
      using G pn check dw cu False
      by (simp add: ConvForward_apply_def check_input_variables_def deref_def contiguous_def
          Let_def a b)
    with gen False show ?thesis by (simp add: a b)
  qed
qed

lemma forward_combine:
  assumes cat: "cat_out_concatenates lib" and G: "0 < G"
    and hand: "bind (mapM (\<lambda>g. bind (bind (c g) post) deref) [0..<G])
                 (\<lambda>outs. Inr (Some (concat_dim 1 outs))) = Inr r"
    and post: "post = Inr \<or> post = (\<lambda>o'. bind (deref o') (\<lambda>out. bind (view3d out) (\<lambda>o3. Inr (Some o3))))"
  shows "bind (mapM c [0..<G]) (\<lambda>outs. bind (cat lib outs 1) post) = Inr r"
proof -
  from hand obtain outs where outs: "mapM (\<lambda>g. bind (bind (c g) post) deref) [0..<G] = Inr outs"
    and r: "r = Some (concat_dim 1 outs)"
    by (auto simp: bind_def split: sum.splits)
  from mapM_bind_split [OF outs] obtain ps where ps: "mapM (\<lambda>g. bind (c g) post) [0..<G] = Inr ps"
    and d: "mapM deref ps = Inr outs" by blast
  from mapM_deref [OF d] have ps': "ps = map Some outs" .
  from mapM_bind_split [OF ps] obtain os where os: "mapM c [0..<G] = Inr os"
    and p: "mapM post os = Inr (map Some outs)" unfolding ps' by blast
  from mapM_length [OF os] G have ne: "os \<noteq> []" by auto
  from post show ?thesis
  proof
    assume "post = Inr"
    with p have "os = map Some outs" by simp
    with ne have "cat lib os 1 = Inr (Some (concat_dim 1 outs))"
      using cat_concat_dim [OF cat, of outs 1] by auto
    with os \<open>post = Inr\<close> r show ?thesis by simp
  next
    assume v: "post = (\<lambda>o'. bind (deref o') (\<lambda>out. bind (view3d out) (\<lambda>o3. Inr (Some o3))))"
    from mapM_view3d [OF p [unfolded v]] obtain o4s where o4: "os = map Some o4s"
      "list_all (\<lambda>t. ndimension t = 4) o4s" "outs = map (\<lambda>t. squeeze t 2) o4s" by blast
    from ne o4(1) have ne4: "o4s \<noteq> []" by auto
    have c: "cat lib os 1 = Inr (Some (concat_dim 1 o4s))"
      using cat_concat_dim [OF cat ne4, of 1] o4(1) by simp
    from ne4 o4(2) have "ndimension (hd o4s) = 4" by (cases o4s) simp_all
    then have n4: "ndimension (concat_dim 1 o4s) = 4"
      by (simp add: concat_dim_def ndimension_def)
    have sq: "squeeze (concat_dim 1 o4s) 2 = concat_dim 1 outs"
      unfolding o4(3) using ne4 o4(2) by (rule squeeze_concat_dim) simp
    show ?thesis
      unfolding v using os c n4 sq r by (simp add: deref_def view3d_def)
  qed
qed

lemma ConvForward_apply_Inr:
  "ConvForward_apply bld lib P inputs = Inr r \<Longrightarrow> \<not> is_padding_neg P \<and> \<not> is_output_padding_neg P"
  by (auto simp: ConvForward_apply_def bind_def split: sum.splits if_splits)

lemma mapM_Inr_nth:
  "mapM f xs = Inr ys \<Longrightarrow> i < length xs \<Longrightarrow> f (xs ! i) = Inr (ys ! i)"
proof (induction xs arbitrary: ys i)
  case Nil
  then show ?case by simp
next
  case (Cons x xs)
  from Cons.prems(1) obtain y ys' where y: "f x = Inr y" "mapM f xs = Inr ys'" "ys = y # ys'"
    by (auto simp: bind_def split: sum.splits)
  with Cons.IH [OF y(2)] Cons.prems(2) show ?case by (cases i) simp_all
qed

lemma subtensor_bias_slice:
  assumes "case b of None \<Rightarrow> True | Some bv \<Rightarrow> sliceable (v_data bv) 0 G"
    and "0 < G" and "g < nat G"
  shows "subtensor (opt_data b) 0 G (int g) = Inr (opt_data (slice_of b 0 G g))"
proof (cases b)
  case None
  then show ?thesis by (simp add: slice_of_def opt_data_def)
next
  case (Some bv)
  with assms(1) have "sliceable (v_data bv) 0 G" by simp
  from subtensor_channel_slice [OF this assms(2,3)] Some show ?thesis
    by (simp add: slice_of_def opt_data_def data_def)
qed

lemma grouped_forward:
  assumes G: "1 < groups P" and cat: "cat_out_concatenates lib"
    and sx: "sliceable (v_data x) 1 (groups P)" and sw: "sliceable (v_data w) 0 (groups P)"
    and sb: "case b of None \<Rightarrow> True | Some bv \<Rightarrow> sliceable (v_data bv) 0 (groups P)"
    and check: "check_input_shape_forward (v_data x) (v_data w) (opt_data b) (groups P)
                  (transposed P) = Inr ()"
    and dw: "is_depthwise P (as_4d (v_data x)) (as_4d (v_data w)) (groups P) = Inr False"
    and cu: "use_cudnn bld P (v_data x) = Inr False"
    and hand: "forward_by_hand bld lib P [Some x, Some w, b] = Inr r"
  shows "ConvForward_apply bld lib P [Some x, Some w, b] = Inr r"
proof -
  let ?G = "nat (groups P)"
  let ?k3 = "ndimension (v_data x) = 3"
  let ?P2 = "if ?k3 then view1d_as_2d P else P"
  let ?e = "Some (empty_tensor (t_type (v_data x)))"
  let ?post = "\<lambda>output. if ?k3
                 then bind (deref output) (\<lambda>out. bind (view3d out) (\<lambda>o3. Inr (Some o3)))
                 else Inr output"
  let ?xs = "\<lambda>g. channel_slice (v_data x) 1 (groups P) g"
  let ?ws = "\<lambda>g. channel_slice (v_data w) 0 (groups P) g"
  let ?c = "\<lambda>g. compute_output bld lib (Some (as_4d (?xs g))) (Some (as_4d (?ws g)))
                  (opt_data (slice_of b 0 (groups P) g)) ?e ?e ?P2"
  let ?single = "\<lambda>g. ConvForward_apply bld lib (P\<lparr>groups := 1\<rparr>)
                        [slice_of ([Some x, Some w, b] ! 0) 1 (groups P) g,
                         slice_of ([Some x, Some w, b] ! 1) 0 (groups P) g,
                         slice_of ([Some x, Some w, b] ! 2) 0 (groups P) g]"
  from G have G0: "0 < groups P" "0 < ?G" by simp_all
  from hand obtain outs where outs: "mapM (\<lambda>g. bind (?single g) deref) [0..<?G] = Inr outs"
    by (auto simp: forward_by_hand_def bind_def split: sum.splits)
  from mapM_Inr_nth [OF outs, of 0] G0 obtain r0 where "?single 0 = Inr r0"
    by (auto simp: bind_def split: sum.splits)
  from ConvForward_apply_Inr [OF this]
  have pn: "\<not> is_padding_neg P" "\<not> is_output_padding_neg P"
    by (simp_all add: is_padding_neg_def is_output_padding_neg_def)
  have sub: "subtensor (Some (v_data x)) 1 (groups P) (int g) = Inr (Some (?xs g))"
    "subtensor (Some (v_data w)) 0 (groups P) (int g) = Inr (Some (?ws g))"
    "subtensor (opt_data b) 0 (groups P) (int g) = Inr (opt_data (slice_of b 0 (groups P) g))"
    "subtensor (Some (as_4d (v_data x))) 1 (groups P) (int g) = Inr (Some (as_4d (?xs g)))"
    "subtensor (Some (as_4d (v_data w))) 0 (groups P) (int g) = Inr (Some (as_4d (?ws g)))"
    if "g < ?G" for g
    using subtensor_channel_slice [OF sx G0(1) that] subtensor_channel_slice [OF sw G0(1) that]
      subtensor_bias_slice [OF sb G0(1) that]
      subtensor_channel_slice [OF sliceable_as_4d [OF sx] G0(1) that]
      subtensor_channel_slice [OF sliceable_as_4d [OF sw] G0(1) that]
    by (simp_all add: channel_slice_as_4d)
  have single: "?single g = bind (?c g) ?post" if "g < ?G" for g
  proof -
    have chk: "check_input_shape_forward (?xs g) (?ws g) (opt_data (slice_of b 0 (groups P) g)) 1
                 (transposed P) = Inr ()"
      using check sub(1-3) [OF that] by (rule check_slices)
    have "use_cudnn bld P (?xs g) = use_cudnn bld P (v_data x)"
      by (simp add: use_cudnn_def)
    with cu have cu': "use_cudnn bld P (?xs g) = Inr False" by simp
    have "ConvForward_apply bld lib (P\<lparr>groups := 1\<rparr>)
            [Some (x\<lparr>v_data := ?xs g\<rparr>), Some (w\<lparr>v_data := ?ws g\<rparr>), slice_of b 0 (groups P) g]
          = bind (compute_output bld lib (Some (as_4d (v_data (x\<lparr>v_data := ?xs g\<rparr>))))
                   (Some (as_4d (v_data (w\<lparr>v_data := ?ws g\<rparr>))))
                   (opt_data (slice_of b 0 (groups P) g))
                   (Some (empty_tensor (t_type (v_data (x\<lparr>v_data := ?xs g\<rparr>)))))
                   (Some (empty_tensor (t_type (v_data (x\<lparr>v_data := ?xs g\<rparr>)))))
                   (if ndimension (v_data (x\<lparr>v_data := ?xs g\<rparr>)) = 3 then view1d_as_2d P else P))
             (\<lambda>output. if ndimension (v_data (x\<lparr>v_data := ?xs g\<rparr>)) = 3
                         then bind (deref output) (\<lambda>out. bind (view3d out) (\<lambda>o3. Inr (Some o3)))
                         else Inr output)"
      using pn chk cu' by (intro ConvForward_apply_one_group) simp_all
    then show ?thesis by (simp add: slice_of_def)
  qed
  have hand': "bind (mapM (\<lambda>g. bind (bind (?c g) ?post) deref) [0..<?G])
                 (\<lambda>outs. Inr (Some (concat_dim 1 outs))) = Inr r"
  proof -
    have "mapM (\<lambda>g. bind (?single g) deref) [0..<?G]
          = mapM (\<lambda>g. bind (bind (?c g) ?post) deref) [0..<?G]"
    proof (rule mapM_cong)
      fix g assume "g \<in> set [0..<?G]"
      then have "g < ?G" by simp
      from single [OF this]
      show "bind (?single g) deref = bind (bind (?c g) ?post) deref" by (simp only:)
    qed
    with hand show ?thesis unfolding forward_by_hand_def by (simp only:)
  qed
  have code: "ConvForward_apply bld lib P [Some x, Some w, b]
              = bind (mapM ?c [0..<?G]) (\<lambda>outs. bind (cat lib outs 1) ?post)"
  proof -
    have "mapM (\<lambda>g.
                   bind (subtensor (Some (as_4d (v_data x))) 1 (groups P) (int g)) (\<lambda>input_g.
                   bind (subtensor (Some (as_4d (v_data w))) 0 (groups P) (int g)) (\<lambda>weight_g.
                   bind (subtensor (opt_data b) 0 (groups P) (int g)) (\<lambda>bias_g.
                     compute_output bld lib input_g weight_g bias_g ?e ?e ?P2))))
                 [0..<?G]
          = mapM ?c [0..<?G]"
    proof (rule mapM_cong)
      fix g assume "g \<in> set [0..<?G]"
      then have g: "g < ?G" by simp
      show "bind (subtensor (Some (as_4d (v_data x))) 1 (groups P) (int g)) (\<lambda>input_g.
            bind (subtensor (Some (as_4d (v_data w))) 0 (groups P) (int g)) (\<lambda>weight_g.
            bind (subtensor (opt_data b) 0 (groups P) (int g)) (\<lambda>bias_g.
              compute_output bld lib input_g weight_g bias_g ?e ?e ?P2))) = ?c g"
        by (simp only: sub(3,4,5) [OF g] bind_Inr)
    qed
    then show ?thesis
      unfolding ConvForward_apply_groups [OF G pn check dw cu] by simp
  qed
  have "?post = Inr \<or> ?post = (\<lambda>o'. bind (deref o') (\<lambda>out. bind (view3d out) (\<lambda>o3. Inr (Some o3))))"
    by (cases ?k3) (simp_all add: fun_eq_iff)
  from forward_combine [OF cat G0(2) hand' this] code show ?thesis by simp
qed

section \<open>The output mask of the backward pass\<close>

text \<open>
  Claim C6. The bit of the mask for the gradient of the bias is the requested bit and
  the bias being defined, and an output whose bit is false is not computed. On the
  cuDNN path the gradient of the weight is computed as soon as that of the bias is
  asked for: the node \<^const>\<open>cudnn_node\<close>, which asks for the gradient of the bias only,
  returns a defined gradient of the weight. Without cuDNN the same node returns the
  gradient of the bias alone, and without a bias it returns no gradient at all.
\<close>

theorem cudnn_bias_only_computes_weight:
  "\<not> should_compute_output cudnn_node 0 \<and> \<not> should_compute_output cudnn_node 1
   \<and> should_compute_output cudnn_node 2
   \<and> use_cudnn cudnn_build cudnn_node cuda_input = Inr True
   \<and> ConvBackward_apply cudnn_build stub heap0 cudnn_node [Some (leaf_of cuda_grad 12)]
       = Inr [None,
              Some \<lparr>t_type = CUDAFloat, t_sizes = [2, 2, 1, 1], t_elems = [9, 10]\<rparr>,
              Some \<lparr>t_type = CUDAFloat, t_sizes = [2], t_elems = [9, 10]\<rparr>]
   \<and> ConvBackward_apply cpu_build stub heap0 cudnn_node [Some (leaf_of cuda_grad 12)]
       = Inr [None, None,
              Some \<lparr>t_type = CUDAFloat, t_sizes = [1, 2, 1, 1], t_elems = [9, 10]\<rparr>]
   \<and> ConvBackward_apply cudnn_build stub heap0
         (cudnn_node\<lparr>saved_bias := SavedVariable heap0 None False\<rparr>)
         [Some (leaf_of cuda_grad 12)]
       = Inr [None, None, None]"
  by code_simp

theorem cudnn_bias_only_computes_weight_witness:
  "\<exists>grad_weight grad_bias.
     ConvBackward_apply cudnn_build stub heap0 cudnn_node [Some (leaf_of cuda_grad 12)]
       = Inr [None, Some grad_weight, Some grad_bias]"
  using cudnn_bias_only_computes_weight by simp

end
